theory Spec2Isabelle
  imports Complex_Main
begin

section \<open>Python values: exceptions, floats with infinity, numpy arrays\<close>

text \<open>
  The exceptions the modelled code raises (or lets numpy raise).  The specification's
  error kind NotReady is the \<open>RuntimeError\<close> of \<open>_absStocProc.__call__\<close>; the
  source has no exception class of its own.  Floating point numbers are modelled by exact
  reals and complex numbers: rounding is outside this development.
\<close>

datatype pyerr = RuntimeError | ValueError | AttributeError | IndexError | AssertionError

text \<open>
  One-dimensional numpy arrays are lists.  A binary elementwise operation broadcasts an
  operand of length one against the other operand and raises \<open>ValueError\<close> when the
  lengths differ otherwise.
\<close>

definition bdim :: "nat \<Rightarrow> nat \<Rightarrow> nat option" where
  "bdim m n = (if m = n then Some m else if m = 1 then Some n else if n = 1 then Some m else None)"

definition bix :: "nat \<Rightarrow> nat \<Rightarrow> nat" where
  "bix n i = (if n = 1 then 0 else i)"

definition broadcast1 :: "('a \<Rightarrow> 'b \<Rightarrow> 'c) \<Rightarrow> 'a list \<Rightarrow> 'b list \<Rightarrow> pyerr + 'c list" where
  "broadcast1 f xs ys =
     (case bdim (length xs) (length ys) of
        None \<Rightarrow> Inl ValueError
      | Some n \<Rightarrow> Inr (map (\<lambda>i. f (xs ! bix (length xs) i) (ys ! bix (length ys) i)) [0..<n]))"

text \<open>Two-dimensional arrays carry their shape, so that an array without rows or without
  columns still has one.\<close>

record 'a arr2 =
  shape0 :: nat
  shape1 :: nat
  rows :: "'a list list"

definition arr2_of :: "nat \<Rightarrow> nat \<Rightarrow> (nat \<Rightarrow> nat \<Rightarrow> 'a) \<Rightarrow> 'a arr2" where
  "arr2_of r c f = \<lparr>shape0 = r, shape1 = c, rows = map (\<lambda>i. map (\<lambda>j. f i j) [0..<c]) [0..<r]\<rparr>"

definition at2 :: "'a arr2 \<Rightarrow> nat \<Rightarrow> nat \<Rightarrow> 'a" where
  "at2 X i j = rows X ! i ! j"

definition broadcast2 :: "('a \<Rightarrow> 'b \<Rightarrow> 'c) \<Rightarrow> 'a arr2 \<Rightarrow> 'b arr2 \<Rightarrow> pyerr + 'c arr2" where
  "broadcast2 f X Y =
     (case bdim (shape0 X) (shape0 Y) of
        None \<Rightarrow> Inl ValueError
      | Some r \<Rightarrow>
          (case bdim (shape1 X) (shape1 Y) of
             None \<Rightarrow> Inl ValueError
           | Some c \<Rightarrow>
               Inr (arr2_of r c (\<lambda>i j. f (at2 X (bix (shape0 X) i) (bix (shape1 X) j))
                                          (at2 Y (bix (shape0 Y) i) (bix (shape1 Y) j))))))"

text \<open>\<open>v.reshape(-1, 1)\<close> and \<open>v.reshape(1, -1)\<close>.\<close>

definition reshape_col :: "'a list \<Rightarrow> 'a arr2" where
  "reshape_col v = arr2_of (length v) 1 (\<lambda>i j. v ! i)"

definition reshape_row :: "'a list \<Rightarrow> 'a arr2" where
  "reshape_row v = arr2_of 1 (length v) (\<lambda>i j. v ! j)"

text \<open>\<open>np.tensordot(y, A, axes=([0], [1]))\<close> for a vector \<open>y\<close> and a matrix \<open>A\<close>:
  the contraction of \<open>y\<close> with the second axis of \<open>A\<close>; numpy raises
  \<open>ValueError\<close> unless \<open>len(y) = A.shape[1]\<close>.\<close>

definition tensordot :: "complex list \<Rightarrow> complex arr2 \<Rightarrow> pyerr + complex list" where
  "tensordot y A =
     (if length y \<noteq> shape1 A then Inl ValueError
      else Inr (map (\<lambda>j. \<Sum>i<shape1 A. y ! i * at2 A j i) [0..<shape0 A]))"

text \<open>\<open>np.linspace(start, stop, num)\<close>: \<open>ValueError\<close> for a negative \<open>num\<close>.\<close>

definition linspace :: "real \<Rightarrow> real \<Rightarrow> int \<Rightarrow> pyerr + real list" where
  "linspace start stop num =
     (if num < 0 then Inl ValueError
      else if num = 1 then Inr [start]
      else Inr (map (\<lambda>i. start + real i * ((stop - start) / real (nat num - 1))) [0..<nat num]))"

text \<open>\<open>x.view(np.complex)\<close> on a float array: consecutive pairs become real and
  imaginary part; an odd length raises \<open>ValueError\<close>.\<close>

fun pairs_complex :: "real list \<Rightarrow> complex list" where
  "pairs_complex (a # b # xs) = Complex a b # pairs_complex xs"
| "pairs_complex _ = []"

definition view_complex :: "real list \<Rightarrow> pyerr + complex list" where
  "view_complex xs = (if even (length xs) then Inr (pairs_complex xs) else Inl ValueError)"

section \<open>External collaborators\<close>

text \<open>
  The modules \<open>method_kle\<close>, \<open>method_fft\<close>, \<open>stocproc_c\<close> and \<open>tools\<close> of the
  package, scipy's spline and numpy's random generator are not part of the modelled
  source.  Their functions are parameters of the model, collected in one record; every
  theorem holds for all of them.  numpy's generator is a global; its state \<open>'g\<close> is
  passed explicitly.  \<open>np.random.seed\<close> is taken as total: numpy raises
  \<open>ValueError\<close> for a seed outside \<open>0 .. 2^32 - 1\<close>, which is outside the model,
  so a theorem that mentions a seed speaks about the seeds numpy accepts.
\<close>

record 'g ext =
  np_random_seed :: "int \<Rightarrow> 'g \<Rightarrow> 'g"
  np_random_normal :: "real \<Rightarrow> nat \<Rightarrow> 'g \<Rightarrow> real list \<times> 'g"
  InterpolatedUnivariateSpline :: "real list \<Rightarrow> real list \<Rightarrow> int \<Rightarrow> pyerr + (real \<Rightarrow> real)"
  get_mid_point_weights_times :: "real \<Rightarrow> int \<Rightarrow> pyerr + (real list \<times> real list)"
  solve_hom_fredholm :: "complex arr2 \<Rightarrow> real list \<Rightarrow> real \<Rightarrow> pyerr + (real list \<times> complex arr2)"
  z_t :: "int \<Rightarrow> nat \<Rightarrow> complex list \<Rightarrow> complex list \<Rightarrow> pyerr + complex list"
  eig_func_all_interp :: "int \<Rightarrow> real list \<Rightarrow> complex list \<Rightarrow> real list \<Rightarrow> real list \<Rightarrow>
                          complex arr2 \<Rightarrow> pyerr + complex arr2"
  find_integral_boundary :: "(real \<Rightarrow> real) \<Rightarrow> real \<Rightarrow> real \<Rightarrow> real \<Rightarrow> real \<Rightarrow> pyerr + real"
  calc_ab_N_dx_dt :: "(real \<Rightarrow> real) \<Rightarrow> real \<Rightarrow> real \<Rightarrow> real \<Rightarrow> real \<Rightarrow> real \<Rightarrow>
                      (real \<Rightarrow> complex) \<Rightarrow> bool \<Rightarrow> int \<Rightarrow> pyerr + (real \<times> real \<times> int \<times> real \<times> real)"

section \<open>The complex spline\<close>

text \<open>
  \<open>ComplexInterpolatedUnivariateSpline\<close>: one real spline through the real parts and
  one through the imaginary parts of the data; a call adds them as
  \<open>re_spline(t) + 1j*im_spline(t)\<close>.  The argument of a call is a float or an array of
  floats.
\<close>

record cspline =
  re_spline :: "real \<Rightarrow> real"
  im_spline :: "real \<Rightarrow> real"

datatype targ = TFloat real | TArray "real list"

datatype cval = CScalar complex | CArray "complex list"

definition ComplexInterpolatedUnivariateSpline ::
  "('g, 'x) ext_scheme \<Rightarrow> real list \<Rightarrow> complex list \<Rightarrow> int \<Rightarrow> pyerr + cspline" where
  "ComplexInterpolatedUnivariateSpline E x y kk =
     (case InterpolatedUnivariateSpline E x (map Re y) kk of
        Inl e \<Rightarrow> Inl e
      | Inr re \<Rightarrow>
          (case InterpolatedUnivariateSpline E x (map Im y) kk of
             Inl e \<Rightarrow> Inl e
           | Inr im \<Rightarrow> Inr \<lparr>re_spline = re, im_spline = im\<rparr>))"

definition cspline_at :: "cspline \<Rightarrow> real \<Rightarrow> complex" where
  "cspline_at f x = complex_of_real (re_spline f x) + \<i> * complex_of_real (im_spline f x)"

fun cspline_call :: "cspline \<Rightarrow> targ \<Rightarrow> cval" where
  "cspline_call f (TFloat x) = CScalar (cspline_at f x)"
| "cspline_call f (TArray xs) = CArray (map (cspline_at f) xs)"

section \<open>The abstract base class\<close>

text \<open>
  The attributes of \<open>_absStocProc\<close>; a leading underscore of the source is written
  \<open>priv_\<close>, and \<open>self.t\<close> is \<open>t_axis\<close>.  \<open>None\<close> in \<open>priv_z\<close> and
  \<open>priv_interpolator\<close> is Python's \<open>None\<close>.
\<close>

record absStocProc =
  t_max :: real
  num_grid_points :: nat
  t_axis :: "real list"
  priv_z :: "complex list option"
  priv_interpolator :: "cspline option"
  priv_k :: int
  priv_seed :: "int option"
  priv_one_over_sqrt_2 :: real
  priv_proc_cnt :: nat

text \<open>\<open>_absStocProc.__init__\<close>: the base attributes, and the generator state after
  the optional seeding.\<close>

definition absStocProc_init ::
  "('g, 'x) ext_scheme \<Rightarrow> real \<Rightarrow> int \<Rightarrow> int option \<Rightarrow> int \<Rightarrow> 'g \<Rightarrow> pyerr + (absStocProc \<times> 'g)" where
  "absStocProc_init E tmax ngp sd kk g =
     (case linspace 0 tmax ngp of
        Inl e \<Rightarrow> Inl e
      | Inr ts \<Rightarrow>
          Inr (\<lparr>t_max = tmax, num_grid_points = nat ngp, t_axis = ts, priv_z = None,
                priv_interpolator = None, priv_k = kk, priv_seed = sd,
                priv_one_over_sqrt_2 = 1 / sqrt 2, priv_proc_cnt = 0\<rparr>,
               (case sd of None \<Rightarrow> g | Some n \<Rightarrow> np_random_seed E n g)))"

text \<open>\<open>__call__\<close>: the result, or the exception, and the object afterwards (the
  interpolator may have been cached).\<close>

definition call ::
  "('g, 'x) ext_scheme \<Rightarrow> 'm absStocProc_scheme \<Rightarrow> targ option \<Rightarrow>
     (pyerr + cval) \<times> 'm absStocProc_scheme" where
  "call E self t =
     (case priv_z self of
        None \<Rightarrow> (Inl RuntimeError, self)
      | Some z \<Rightarrow>
          (case t of
             None \<Rightarrow> (Inr (CArray z), self)
           | Some tt \<Rightarrow>
               (case priv_interpolator self of
                  Some f \<Rightarrow> (Inr (cspline_call f tt), self)
                | None \<Rightarrow>
                    (case ComplexInterpolatedUnivariateSpline E (t_axis self) z (priv_k self) of
                       Inl e \<Rightarrow> (Inl e, self)
                     | Inr f \<Rightarrow> (Inr (cspline_call f tt), self\<lparr>priv_interpolator := Some f\<rparr>)))))"

definition get_time :: "'m absStocProc_scheme \<Rightarrow> real list" where
  "get_time self = t_axis self"

definition get_z :: "'m absStocProc_scheme \<Rightarrow> complex list option" where
  "get_z self = priv_z self"

text \<open>The random input of \<open>new_process\<close>:
  \<open>np.random.normal(scale=scale, size=2*n).view(np.complex)\<close>.\<close>

definition draw_y :: "('g, 'x) ext_scheme \<Rightarrow> real \<Rightarrow> nat \<Rightarrow> 'g \<Rightarrow> (pyerr + complex list) \<times> 'g" where
  "draw_y E scale n g = (let (xs, g2) = np_random_normal E scale (2 * n) g in (view_complex xs, g2))"

text \<open>
  \<open>new_process\<close>.  The methods \<open>_calc_z\<close> and \<open>get_num_y\<close> of the subclass are
  the parameters \<open>calc_z\<close> and \<open>num_y_of\<close>.  The result is the exception raised
  (if any), the object and the generator state afterwards: the interpolator is dropped
  and the counter is incremented before anything can raise.
\<close>

definition new_process ::
  "('g, 'x) ext_scheme \<Rightarrow> ('m absStocProc_scheme \<Rightarrow> complex list \<Rightarrow> pyerr + complex list) \<Rightarrow>
     ('m absStocProc_scheme \<Rightarrow> nat) \<Rightarrow> 'm absStocProc_scheme \<Rightarrow> complex list option \<Rightarrow>
     int option \<Rightarrow> 'g \<Rightarrow> pyerr option \<times> 'm absStocProc_scheme \<times> 'g" where
  "new_process E calc_z num_y_of self y sd g =
     (let self1 = self\<lparr>priv_interpolator := None\<rparr>;
          self2 = self1\<lparr>priv_proc_cnt := priv_proc_cnt self1 + 1\<rparr>;
          g1 = (case sd of None \<Rightarrow> g | Some n \<Rightarrow> np_random_seed E n g);
          drawn = (case y of
                     Some v \<Rightarrow> (Inr v, g1)
                   | None \<Rightarrow> draw_y E (priv_one_over_sqrt_2 self2) (num_y_of self2) g1)
      in case fst drawn of
           Inl e \<Rightarrow> (Some e, self2, snd drawn)
         | Inr v \<Rightarrow>
             (case calc_z self2 v of
                Inl e \<Rightarrow> (Some e, self2, snd drawn)
              | Inr z \<Rightarrow> (None, self2\<lparr>priv_z := Some z\<rparr>, snd drawn)))"

section \<open>The base class of the older module\<close>

text \<open>
  \<open>class_stocproc.py\<close> keeps an older \<open>_absStocProc\<close> and its own
  \<open>ComplexInterpolatedUnivariateSpline\<close>.  That spline ignores its argument \<open>k\<close>
  and calls scipy's constructor with the default degree, here the parameter \<open>spl\<close>;
  the data it passes are \<open>np.real(y)\<close> and \<open>np.imag(y)\<close>, which hold no numbers
  (\<open>None\<close>) when \<open>y\<close> is \<open>None\<close>.  The object has the attribute \<open>_verbose\<close>
  (printing only, not modelled beyond the attribute) and neither \<open>_seed\<close> nor
  \<open>_proc_cnt\<close>.  Its attributes carry the prefix \<open>legacy_\<close>.
\<close>

record absStocProc_legacy =
  legacy_priv_verbose :: int
  legacy_t_max :: real
  legacy_num_grid_points :: nat
  legacy_t_axis :: "real list"
  legacy_priv_z :: "complex list option"
  legacy_priv_interpolator :: "cspline option"
  legacy_priv_k :: int
  legacy_priv_one_over_sqrt_2 :: real

definition ComplexInterpolatedUnivariateSpline_legacy ::
  "(real list \<Rightarrow> real list option \<Rightarrow> pyerr + (real \<Rightarrow> real)) \<Rightarrow> real list \<Rightarrow> complex list option \<Rightarrow>
     int \<Rightarrow> pyerr + cspline" where
  "ComplexInterpolatedUnivariateSpline_legacy spl x y kk =
     (case spl x (map_option (map Re) y) of
        Inl e \<Rightarrow> Inl e
      | Inr re \<Rightarrow>
          (case spl x (map_option (map Im) y) of
             Inl e \<Rightarrow> Inl e
           | Inr im \<Rightarrow> Inr \<lparr>re_spline = re, im_spline = im\<rparr>))"

definition absStocProc_legacy_init ::
  "('g, 'x) ext_scheme \<Rightarrow> real \<Rightarrow> int \<Rightarrow> int option \<Rightarrow> int \<Rightarrow> int \<Rightarrow> 'g \<Rightarrow>
     pyerr + (absStocProc_legacy \<times> 'g)" where
  "absStocProc_legacy_init E tmax ngp sd verbose kk g =
     (case linspace 0 tmax ngp of
        Inl e \<Rightarrow> Inl e
      | Inr ts \<Rightarrow>
          Inr (\<lparr>legacy_priv_verbose = verbose, legacy_t_max = tmax,
                legacy_num_grid_points = nat ngp, legacy_t_axis = ts, legacy_priv_z = None,
                legacy_priv_interpolator = None, legacy_priv_k = kk,
                legacy_priv_one_over_sqrt_2 = 1 / sqrt 2\<rparr>,
               (case sd of None \<Rightarrow> g | Some n \<Rightarrow> np_random_seed E n g)))"

text \<open>The older \<open>__call__(self, t)\<close>: the time is not optional, and nothing looks at
  \<open>self._z\<close> before the interpolator is built from it.\<close>

definition call_legacy ::
  "(real list \<Rightarrow> real list option \<Rightarrow> pyerr + (real \<Rightarrow> real)) \<Rightarrow> 'm absStocProc_legacy_scheme \<Rightarrow> targ \<Rightarrow>
     (pyerr + cval) \<times> 'm absStocProc_legacy_scheme" where
  "call_legacy spl self t =
     (case legacy_priv_interpolator self of
        Some f \<Rightarrow> (Inr (cspline_call f t), self)
      | None \<Rightarrow>
          (case ComplexInterpolatedUnivariateSpline_legacy spl (legacy_t_axis self)
                  (legacy_priv_z self) (legacy_priv_k self) of
             Inl e \<Rightarrow> (Inl e, self)
           | Inr f \<Rightarrow> (Inr (cspline_call f t), self\<lparr>legacy_priv_interpolator := Some f\<rparr>)))"

definition new_process_legacy ::
  "('g, 'x) ext_scheme \<Rightarrow> ('m absStocProc_legacy_scheme \<Rightarrow> complex list \<Rightarrow> pyerr + complex list) \<Rightarrow>
     ('m absStocProc_legacy_scheme \<Rightarrow> nat) \<Rightarrow> 'm absStocProc_legacy_scheme \<Rightarrow> complex list option \<Rightarrow>
     int option \<Rightarrow> 'g \<Rightarrow> pyerr option \<times> 'm absStocProc_legacy_scheme \<times> 'g" where
  "new_process_legacy E calc_z num_y_of self y sd g =
     (let self1 = self\<lparr>legacy_priv_interpolator := None\<rparr>;
          g1 = (case sd of None \<Rightarrow> g | Some n \<Rightarrow> np_random_seed E n g);
          drawn = (case y of
                     Some v \<Rightarrow> (Inr v, g1)
                   | None \<Rightarrow> draw_y E (legacy_priv_one_over_sqrt_2 self1) (num_y_of self1) g1)
      in case fst drawn of
           Inl e \<Rightarrow> (Some e, self1, snd drawn)
         | Inr v \<Rightarrow>
             (case calc_z self1 v of
                Inl e \<Rightarrow> (Some e, self1, snd drawn)
              | Inr z \<Rightarrow> (None, self1\<lparr>legacy_priv_z := Some z\<rparr>, snd drawn)))"

section \<open>The Karhunen-Loeve engine\<close>

subsection \<open>The correlation matrix\<close>

text \<open>
  \<open>_calc_corr_min_t_plus_t\<close>: the correlation function is called once, on the array
  \<open>s - s[0]\<close>; the slice \<open>bcf_n_plus[-1:0:-1]\<close> is the reversed array without its
  first element.  \<open>s[0]\<close> raises \<open>IndexError\<close> on an empty grid.
\<close>

definition calc_corr_min_t_plus_t :: "real list \<Rightarrow> (real \<Rightarrow> complex) \<Rightarrow> pyerr + complex list" where
  "calc_corr_min_t_plus_t s bcf =
     (case s of
        [] \<Rightarrow> Inl IndexError
      | s0 # _ \<Rightarrow>
          (let bcf_n_plus = map bcf (map (\<lambda>x. x - s0) s)
           in Inr (map cnj (rev (tl bcf_n_plus)) @ bcf_n_plus)))"

text \<open>The slice \<open>v[a:b]\<close> for \<open>0 \<le> a \<le> b\<close>, and the assignment \<open>r[:, i] = v\<close>,
  which broadcasts a \<open>v\<close> of length one and raises \<open>ValueError\<close> for any other
  length that is not the number of rows.\<close>

definition slice :: "'a list \<Rightarrow> nat \<Rightarrow> nat \<Rightarrow> 'a list" where
  "slice v a b = take (b - a) (drop a v)"

definition set_col :: "'a arr2 \<Rightarrow> nat \<Rightarrow> 'a list \<Rightarrow> pyerr + 'a arr2" where
  "set_col r i v =
     (if length v = shape0 r \<or> length v = 1
      then Inr (r\<lparr>rows := map (\<lambda>j. (rows r ! j)[i := v ! bix (length v) j]) [0..<shape0 r]\<rparr>)
      else Inl ValueError)"

text \<open>The loop of \<open>_calc_corr_matrix\<close> over the columns \<open>i\<close>.\<close>

fun corr_matrix_loop :: "nat \<Rightarrow> complex list \<Rightarrow> nat list \<Rightarrow> complex arr2 \<Rightarrow> pyerr + complex arr2" where
  "corr_matrix_loop n bcf_n [] r = Inr r"
| "corr_matrix_loop n bcf_n (i # cols) r =
     (let idx = n - 1 - i
      in case set_col r i (slice bcf_n idx (idx + n)) of
           Inl e \<Rightarrow> Inl e
         | Inr r' \<Rightarrow> corr_matrix_loop n bcf_n cols r')"

text \<open>\<open>_calc_corr_matrix\<close>.  The contents of \<open>np.empty\<close> are arbitrary; the model
  starts from zeros, and every entry is overwritten.\<close>

definition calc_corr_matrix :: "real list \<Rightarrow> (real \<Rightarrow> complex) \<Rightarrow> pyerr + complex arr2" where
  "calc_corr_matrix s bcf =
     (let n = length s
      in case calc_corr_min_t_plus_t s bcf of
           Inl e \<Rightarrow> Inl e
         | Inr bcf_n \<Rightarrow> corr_matrix_loop n bcf_n [0..<n] (arr2_of n n (\<lambda>i j. 0)))"

subsection \<open>The engine\<close>

text \<open>
  The attributes of \<open>StocProc_KLE\<close>.  An attribute that not every path assigns is an
  option: \<open>None\<close> says that the object has no such attribute, and reading it raises
  \<open>AttributeError\<close>.  \<open>self.key\<close>, used by \<open>_getkey\<close> only, is left out.
\<close>

record StocProc_KLE = absStocProc +
  priv_A :: "complex arr2"
  alpha_k :: "complex list"
  ng_fac :: int
  kle_interp :: bool
  num_y :: nat
  priv_s :: "real list option"
  priv_w :: "real list option"
  priv_eig_val :: "real list option"
  priv_eig_vec :: "complex arr2 option"
  priv_sqrt_eig_val :: "real list option"

type_synonym kle_state = "complex arr2 \<times> complex list \<times> int option \<times> int \<times> real \<times> int"

definition StocProc_KLE_getstate :: "StocProc_KLE \<Rightarrow> kle_state" where
  "StocProc_KLE_getstate self =
     (priv_A self, alpha_k self, priv_seed self, priv_k self, t_max self, ng_fac self)"

text \<open>
  \<open>__setstate__\<close> on a new object, as the constructor and unpickling call it: the
  attributes it does not assign do not exist afterwards.
\<close>

definition StocProc_KLE_setstate ::
  "('g, 'x) ext_scheme \<Rightarrow> kle_state \<Rightarrow> 'g \<Rightarrow> pyerr + (StocProc_KLE \<times> 'g)" where
  "StocProc_KLE_setstate E state g =
     (case state of (A, ak, sd, kk, tmax, ngf) \<Rightarrow>
        (let num_gp = shape0 A;
             ng_fine = ngf * (int num_gp - 1) + 1
         in case absStocProc_init E tmax ng_fine sd kk g of
              Inl e \<Rightarrow> Inl e
            | Inr (base, g') \<Rightarrow>
                Inr (absStocProc.extend base
                       (StocProc_KLE.fields A ak ngf (ngf \<noteq> 1) (shape1 A) None None None None None),
                     g')))"

text \<open>\<open>np.arctan2\<close>, and the optional alignment of the eigenvectors: every column is
  divided by the phase \<open>exp(1j * arctan2(Re s, Im s))\<close> of its sum \<open>s\<close>.\<close>

definition arctan2 :: "real \<Rightarrow> real \<Rightarrow> real" where
  "arctan2 y x =
     (if 0 < x then arctan (y / x)
      else if x < 0 then (if 0 \<le> y then arctan (y / x) + pi else arctan (y / x) - pi)
      else if 0 < y then pi / 2
      else if y < 0 then - (pi / 2)
      else 0)"

definition align_columns :: "complex arr2 \<Rightarrow> complex arr2" where
  "align_columns U =
     arr2_of (shape0 U) (shape1 U)
       (\<lambda>j i. let s = (\<Sum>l<shape0 U. at2 U l i);
                   phase = exp (\<i> * complex_of_real (arctan2 (Re s) (Im s)))
               in at2 U j i / phase)"

text \<open>
  \<open>StocProc_KLE.__init__\<close>, for \<open>METHOD = 'midp'\<close>.  The square roots of the
  eigenvalues are the local variable \<open>_sqrt_eig_val\<close>; the attributes assigned after
  \<open>__setstate__\<close> are \<open>_s\<close>, \<open>_w\<close>, \<open>_eig_val\<close> and \<open>_eig_vec\<close>.
\<close>

definition StocProc_KLE_init ::
  "('g, 'x) ext_scheme \<Rightarrow> (real \<Rightarrow> complex) \<Rightarrow> real \<Rightarrow> int \<Rightarrow> int \<Rightarrow> int option \<Rightarrow> real \<Rightarrow> int \<Rightarrow>
     bool \<Rightarrow> 'g \<Rightarrow> pyerr + (StocProc_KLE \<times> 'g)" where
  "StocProc_KLE_init E r_tau tmax ng_fredholm ngf sd sig_min kk align_eig_vec g =
     (case get_mid_point_weights_times E tmax ng_fredholm of
        Inl e \<Rightarrow> Inl e
      | Inr (t, w) \<Rightarrow>
     (case calc_corr_matrix t r_tau of
        Inl e \<Rightarrow> Inl e
      | Inr r \<Rightarrow>
     (case solve_hom_fredholm E r w (sig_min ^ 2) of
        Inl e \<Rightarrow> Inl e
      | Inr (eig_val, eig_vec0) \<Rightarrow>
     (let eig_vec = (if align_eig_vec then align_columns eig_vec0 else eig_vec0);
          sqrt_eig_val = map sqrt eig_val
      in case broadcast2 (*) (reshape_col (map complex_of_real w)) eig_vec of
           Inl e \<Rightarrow> Inl e
         | Inr wU \<Rightarrow>
     (case broadcast2 (/) wU (reshape_row (map complex_of_real sqrt_eig_val)) of
        Inl e \<Rightarrow> Inl e
      | Inr A \<Rightarrow>
     (let ng_fine = ngf * (ng_fredholm - 1) + 1
      in case linspace 0 tmax ng_fine of
           Inl e \<Rightarrow> Inl e
         | Inr s_fine \<Rightarrow>
     (case calc_corr_min_t_plus_t s_fine r_tau of
        Inl e \<Rightarrow> Inl e
      | Inr ak \<Rightarrow>
     (case StocProc_KLE_setstate E (A, ak, sd, kk, tmax, ngf) g of
        Inl e \<Rightarrow> Inl e
      | Inr (self, g') \<Rightarrow>
          Inr (self\<lparr>priv_s := Some t, priv_w := Some w, priv_eig_val := Some eig_val,
                     priv_eig_vec := Some eig_vec\<rparr>, g')))))))))"

text \<open>
  \<open>StocProc_KLE._calc_z\<close>.  With \<open>kle_interp\<close> the coefficients \<open>_a_tmp\<close> go to
  \<open>stocproc_c.z_t\<close>; without, the operands of the product are read in the order of
  the source: \<open>self._sqrt_eig_val\<close> first, then \<open>self._eig_vec\<close>.
\<close>

definition StocProc_KLE_calc_z ::
  "('g, 'x) ext_scheme \<Rightarrow> StocProc_KLE \<Rightarrow> complex list \<Rightarrow> pyerr + complex list" where
  "StocProc_KLE_calc_z E self y =
     (if kle_interp self then
        (case tensordot y (priv_A self) of
           Inl e \<Rightarrow> Inl e
         | Inr a_tmp \<Rightarrow> z_t E (ng_fac self) (shape0 (priv_A self)) (alpha_k self) a_tmp)
      else
        (case priv_sqrt_eig_val self of
           None \<Rightarrow> Inl AttributeError
         | Some sq \<Rightarrow>
             (case broadcast1 (*) y (map complex_of_real sq) of
                Inl e \<Rightarrow> Inl e
              | Inr v \<Rightarrow>
                  (case priv_eig_vec self of
                     None \<Rightarrow> Inl AttributeError
                   | Some U \<Rightarrow> tensordot v U))))"

definition StocProc_KLE_get_num_y :: "StocProc_KLE \<Rightarrow> nat" where
  "StocProc_KLE_get_num_y self = num_y self"

definition StocProc_KLE_new_process ::
  "('g, 'x) ext_scheme \<Rightarrow> StocProc_KLE \<Rightarrow> complex list option \<Rightarrow> int option \<Rightarrow> 'g \<Rightarrow>
     pyerr option \<times> StocProc_KLE \<times> 'g" where
  "StocProc_KLE_new_process E = new_process E (StocProc_KLE_calc_z E) StocProc_KLE_get_num_y"

section \<open>The Fourier engine\<close>

text \<open>\<open>np.fft.fft\<close> of a one-dimensional array: the forward discrete Fourier transform
  \<open>A_k = \<Sum>_m a_m exp(-2 \<pi> i m k / n)\<close>; an empty array raises \<open>ValueError\<close>.\<close>

definition dft :: "complex list \<Rightarrow> complex list" where
  "dft a =
     map (\<lambda>k. \<Sum>m<length a. a ! m *
                 exp (- (2 * complex_of_real pi * \<i> * of_nat m * of_nat k / of_nat (length a))))
       [0..<length a]"

definition np_fft :: "complex list \<Rightarrow> pyerr + complex list" where
  "np_fft a = (if a = [] then Inl ValueError else Inr (dft a))"

record StocProc_FFT_tol = absStocProc +
  yl :: "real list"
  omega_min_correction :: "complex list"

type_synonym fft_state = "real list \<times> int \<times> complex list \<times> real \<times> int option \<times> int"

definition StocProc_FFT_tol_getstate :: "StocProc_FFT_tol \<Rightarrow> fft_state" where
  "StocProc_FFT_tol_getstate self =
     (yl self, int (num_grid_points self), omega_min_correction self, t_max self,
      priv_seed self, priv_k self)"

definition StocProc_FFT_tol_setstate ::
  "('g, 'x) ext_scheme \<Rightarrow> fft_state \<Rightarrow> 'g \<Rightarrow> pyerr + (StocProc_FFT_tol \<times> 'g)" where
  "StocProc_FFT_tol_setstate E state g =
     (case state of (yls, ngp, omc, tmax, sd, kk) \<Rightarrow>
        (case absStocProc_init E tmax ngp sd kk g of
           Inl e \<Rightarrow> Inl e
         | Inr (base, g') \<Rightarrow>
             Inr (absStocProc.extend base (StocProc_FFT_tol.fields yls omc), g')))"

text \<open>
  The first half of \<open>StocProc_FFT_tol.__init__\<close>: the integration boundaries and the
  call of \<open>method_fft.calc_ab_N_dx_dt\<close>, which returns \<open>(a, b, N, dx, dt)\<close>.
\<close>

definition resolve_parameters ::
  "('g, 'x) ext_scheme \<Rightarrow> (real \<Rightarrow> real) \<Rightarrow> real \<Rightarrow> (real \<Rightarrow> complex) \<Rightarrow> real \<Rightarrow> real \<Rightarrow> bool \<Rightarrow>
     pyerr + (real \<times> real \<times> int \<times> real \<times> real)" where
  "resolve_parameters E spectral_density tmax bcf_ref intgr_tol intpl_tol negative_frequencies =
     (if \<not> negative_frequencies then
        (case find_integral_boundary E spectral_density (intgr_tol ^ 2) 1 (10 ^ 6) 1 of
           Inl e \<Rightarrow> Inl e
         | Inr b \<Rightarrow>
             calc_ab_N_dx_dt E spectral_density intgr_tol intpl_tol tmax 0 b
               (\<lambda>tau. bcf_ref tau * complex_of_real pi) True (2 ^ 24))
      else
        (case find_integral_boundary E spectral_density (intgr_tol ^ 2) 1 (10 ^ 6) 1 of
           Inl e \<Rightarrow> Inl e
         | Inr b \<Rightarrow>
             (case find_integral_boundary E spectral_density (intgr_tol ^ 2) (- 1) (10 ^ 6) (- 1) of
                Inl e \<Rightarrow> Inl e
              | Inr a \<Rightarrow>
                  calc_ab_N_dx_dt E spectral_density intgr_tol intpl_tol tmax a b
                    (\<lambda>tau. bcf_ref tau * complex_of_real pi) False (2 ^ 24))))"

text \<open>
  The second half, from the assertion on: the grid, the samples \<open>yl\<close> of the spectral
  density (called once, on the array \<open>omega + a + dx/2\<close>) and the phase correction.
  \<open>np.sqrt\<close> of a negative number is not a number; the model is faithful for a
  spectral density without negative values and \<open>0 \<le> dx\<close>.
\<close>

definition StocProc_FFT_tol_init_resolved ::
  "('g, 'x) ext_scheme \<Rightarrow> (real \<Rightarrow> real) \<Rightarrow> real \<Rightarrow> real \<times> real \<times> int \<times> real \<times> real \<Rightarrow>
     int option \<Rightarrow> int \<Rightarrow> 'g \<Rightarrow> pyerr + (StocProc_FFT_tol \<times> 'g)" where
  "StocProc_FFT_tol_init_resolved E spectral_density tmax resolved sd kk g =
     (case resolved of (a, b, N, dx, dt) \<Rightarrow>
        (if \<not> \<bar>2 * pi - of_int N * dx * dt\<bar> < 1 / 10 ^ 12 then Inl AssertionError
         else
           (let ngp = \<lceil>tmax / dt\<rceil> + 1;
                tmax' = (of_int ngp - 1) * dt
            in case absStocProc_init E tmax' ngp sd kk g of
                 Inl e \<Rightarrow> Inl e
               | Inr (base, g') \<Rightarrow>
                   (let omega = map (\<lambda>n. dx * real n) [0..<nat N];
                        yls = map sqrt (map (\<lambda>v. v * dx / pi)
                                (map spectral_density (map (\<lambda>w. w + a + dx / 2) omega)));
                        omc = map (\<lambda>tj. exp (- \<i> * complex_of_real (a + dx / 2) * complex_of_real tj))
                                (t_axis base)
                    in Inr (absStocProc.extend base (StocProc_FFT_tol.fields yls omc), g')))))"

definition StocProc_FFT_tol_init ::
  "('g, 'x) ext_scheme \<Rightarrow> (real \<Rightarrow> real) \<Rightarrow> real \<Rightarrow> (real \<Rightarrow> complex) \<Rightarrow> real \<Rightarrow> real \<Rightarrow>
     int option \<Rightarrow> int \<Rightarrow> bool \<Rightarrow> 'g \<Rightarrow> pyerr + (StocProc_FFT_tol \<times> 'g)" where
  "StocProc_FFT_tol_init E spectral_density tmax bcf_ref intgr_tol intpl_tol sd kk
       negative_frequencies g =
     (case resolve_parameters E spectral_density tmax bcf_ref intgr_tol intpl_tol
             negative_frequencies of
        Inl e \<Rightarrow> Inl e
      | Inr resolved \<Rightarrow> StocProc_FFT_tol_init_resolved E spectral_density tmax resolved sd kk g)"

text \<open>\<open>StocProc_FFT_tol._calc_z\<close> and \<open>get_num_y\<close>.  The slice
  \<open>[0:self.num_grid_points]\<close> keeps at most that many elements.\<close>

definition StocProc_FFT_tol_calc_z :: "StocProc_FFT_tol \<Rightarrow> complex list \<Rightarrow> pyerr + complex list" where
  "StocProc_FFT_tol_calc_z self y =
     (case broadcast1 (*) (map complex_of_real (yl self)) y of
        Inl e \<Rightarrow> Inl e
      | Inr v \<Rightarrow>
          (case np_fft v of
             Inl e \<Rightarrow> Inl e
           | Inr F \<Rightarrow> broadcast1 (*) (slice F 0 (num_grid_points self)) (omega_min_correction self)))"

definition StocProc_FFT_tol_get_num_y :: "StocProc_FFT_tol \<Rightarrow> nat" where
  "StocProc_FFT_tol_get_num_y self = length (yl self)"

definition StocProc_FFT_tol_new_process ::
  "('g, 'x) ext_scheme \<Rightarrow> StocProc_FFT_tol \<Rightarrow> complex list option \<Rightarrow> int option \<Rightarrow> 'g \<Rightarrow>
     pyerr option \<times> StocProc_FFT_tol \<times> 'g" where
  "StocProc_FFT_tol_new_process E =
     new_process E StocProc_FFT_tol_calc_z StocProc_FFT_tol_get_num_y"

section \<open>The search for the number of grid points\<close>

text \<open>
  The error of a reconstruction is a float that may be infinite or not a number (a
  reference value of zero).  \<open>err > tol\<close> is false for not a number; \<open>np.max\<close>
  propagates it and raises \<open>ValueError\<close> on an empty array.
\<close>

datatype fl = Fin real | PInf | NaN

fun fl_gt :: "fl \<Rightarrow> real \<Rightarrow> bool" where
  "fl_gt (Fin e) tol = (tol < e)"
| "fl_gt PInf tol = True"
| "fl_gt NaN tol = False"

definition abs_div :: "complex \<Rightarrow> complex \<Rightarrow> fl" where
  "abs_div a b = (if b = 0 then (if a = 0 then NaN else PInf) else Fin (cmod a / cmod b))"

fun fl_max :: "fl \<Rightarrow> fl \<Rightarrow> fl" where
  "fl_max NaN _ = NaN"
| "fl_max _ NaN = NaN"
| "fl_max PInf _ = PInf"
| "fl_max _ PInf = PInf"
| "fl_max (Fin a) (Fin b) = Fin (max a b)"

definition np_max :: "fl list \<Rightarrow> pyerr + fl" where
  "np_max xs = (case xs of [] \<Rightarrow> Inl ValueError | x # rest \<Rightarrow> Inr (foldl fl_max x rest))"

text \<open>\<open>np.tensordot(X, Y, axes=([1], [1]))\<close> for two matrices.\<close>

definition tensordot2 :: "complex arr2 \<Rightarrow> complex arr2 \<Rightarrow> pyerr + complex arr2" where
  "tensordot2 X Y =
     (if shape1 X \<noteq> shape1 Y then Inl ValueError
      else Inr (arr2_of (shape0 X) (shape0 Y) (\<lambda>i j. \<Sum>l<shape1 X. at2 X i l * at2 Y j l)))"

definition attr :: "'a option \<Rightarrow> pyerr + 'a" where
  "attr a = (case a of None \<Rightarrow> Inl AttributeError | Some v \<Rightarrow> Inr v)"

text \<open>
  \<open>_init_StocProc_KLE_and_get_error\<close>: the constructor of \<open>StocProc_KLE\<close> runs
  again on the object, which replaces every attribute but \<open>tol\<close>; the eigenfunctions
  on the fine grid come from \<open>stocproc_c.eig_func_all_interp\<close>.  The keyword
  arguments of the search are \<open>(r_tau, t_max, ng_fac, seed, sig_min, k, align_eig_vec)\<close>.
\<close>

type_synonym kwargs = "(real \<Rightarrow> complex) \<times> real \<times> int \<times> int option \<times> real \<times> int \<times> bool"

definition init_StocProc_KLE_and_get_error ::
  "('g, 'x) ext_scheme \<Rightarrow> kwargs \<Rightarrow> int \<Rightarrow> 'g \<Rightarrow> pyerr + (fl \<times> StocProc_KLE \<times> 'g)" where
  "init_StocProc_KLE_and_get_error E kw ng g =
     (case kw of (r_tau, tmax, ngf, sd, sig_min, kk, align_eig_vec) \<Rightarrow>
     (case StocProc_KLE_init E r_tau tmax ng ngf sd sig_min kk align_eig_vec g of
        Inl e \<Rightarrow> Inl e
      | Inr (self, g') \<Rightarrow>
     (let ng_fine = nat (ng_fac self * (ng - 1) + 1)
      in case attr (priv_s self) of Inl e \<Rightarrow> Inl e | Inr s \<Rightarrow>
     (case attr (priv_w self) of Inl e \<Rightarrow> Inl e | Inr w \<Rightarrow>
     (case attr (priv_eig_val self) of Inl e \<Rightarrow> Inl e | Inr eig_val \<Rightarrow>
     (case attr (priv_eig_vec self) of Inl e \<Rightarrow> Inl e | Inr eig_vec \<Rightarrow>
     (case eig_func_all_interp E (ng_fac self) s (alpha_k self) w eig_val eig_vec of
        Inl e \<Rightarrow> Inl e
      | Inr u_i_all_t \<Rightarrow>
     (let u_i_all_ast_s = arr2_of (shape0 u_i_all_t) (shape1 u_i_all_t) (\<lambda>i j. cnj (at2 u_i_all_t i j))
      in case broadcast2 (*) (reshape_row (map complex_of_real eig_val)) u_i_all_t of
           Inl e \<Rightarrow> Inl e
         | Inr tmp \<Rightarrow>
     (case tensordot2 tmp u_i_all_ast_s of
        Inl e \<Rightarrow> Inl e
      | Inr recs_bcf \<Rightarrow>
     (case corr_matrix_loop ng_fine (alpha_k self) [0..<ng_fine] (arr2_of ng_fine ng_fine (\<lambda>i j. 0)) of
        Inl e \<Rightarrow> Inl e
      | Inr refc_bcf \<Rightarrow>
     (case broadcast2 (-) recs_bcf refc_bcf of
        Inl e \<Rightarrow> Inl e
      | Inr diff \<Rightarrow>
     (case broadcast2 abs_div diff refc_bcf of
        Inl e \<Rightarrow> Inl e
      | Inr ratio \<Rightarrow>
     (case np_max (concat (rows ratio)) of
        Inl e \<Rightarrow> Inl e
      | Inr err \<Rightarrow> Inr (err, self, g'))))))))))))))"

text \<open>
  \<open>_auto_grid_points\<close>.  Its two loops call the probe
  \<open>_init_StocProc_KLE_and_get_error\<close>, here the parameter \<open>probe\<close>, which takes
  the state \<open>'s\<close> of the object and of the generator to the measured error and the new
  state.  The list collects what the source logs: every \<open>ng\<close> probed, with its error.
  The first loop need not end, so its result is an option; an exception of the probe
  ends the search.
\<close>

partial_function (option) exp_phase ::
  "(int \<Rightarrow> 's \<Rightarrow> pyerr + (fl \<times> 's)) \<Rightarrow> real \<Rightarrow> int \<Rightarrow> fl \<Rightarrow> 's \<Rightarrow> (int \<times> fl) list \<Rightarrow>
     (pyerr + (int \<times> 's \<times> (int \<times> fl) list)) option" where
  "exp_phase probe tol c err s lg =
     (if fl_gt err tol then
        (let c' = c * 2;
             ng = 2 * c' + 1
         in case probe ng s of
              Inl e \<Rightarrow> Some (Inl e)
            | Inr (err', s') \<Rightarrow> exp_phase probe tol c' err' s' (lg @ [(ng, err')]))
      else Some (Inr (c, s, lg)))"

function bisect_phase ::
  "(int \<Rightarrow> 's \<Rightarrow> pyerr + (fl \<times> 's)) \<Rightarrow> real \<Rightarrow> int \<Rightarrow> int \<Rightarrow> 's \<Rightarrow> (int \<times> fl) list \<Rightarrow>
     pyerr + (int \<times> int \<times> 's \<times> (int \<times> fl) list)" where
  "bisect_phase probe tol c_low c_high s lg =
     (if c_high - c_low > 1 then
        (let c = (c_low + c_high) div 2;
             ng = 2 * c + 1
         in case probe ng s of
              Inl e \<Rightarrow> Inl e
            | Inr (err, s') \<Rightarrow>
                (if fl_gt err tol then bisect_phase probe tol c c_high s' (lg @ [(ng, err)])
                 else bisect_phase probe tol c_low c s' (lg @ [(ng, err)])))
      else Inr (c_low, c_high, s, lg))"
  by pat_completeness auto
termination
  by (relation "measure (\<lambda>(probe, tol, c_low, c_high, s, lg). nat (c_high - c_low))") auto

definition auto_grid_points ::
  "(int \<Rightarrow> 's \<Rightarrow> pyerr + (fl \<times> 's)) \<Rightarrow> real \<Rightarrow> 's \<Rightarrow>
     (pyerr + (int \<times> int \<times> 's \<times> (int \<times> fl) list)) option" where
  "auto_grid_points probe tol s =
     (case exp_phase probe tol 2 PInf s [] of
        None \<Rightarrow> None
      | Some (Inl e) \<Rightarrow> Some (Inl e)
      | Some (Inr (c, s', lg)) \<Rightarrow> Some (bisect_phase probe tol (c div 2) c s' lg))"

text \<open>
  \<open>StocProc_KLE_tol.__init__\<close>: \<open>sig_min\<close> is \<open>tol**2\<close>; the object after the
  search is the one the last probe constructed.  Before the first probe the object has
  no attribute of the engine (\<open>None\<close>).
\<close>

definition StocProc_KLE_tol_probe ::
  "('g, 'x) ext_scheme \<Rightarrow> kwargs \<Rightarrow> int \<Rightarrow> StocProc_KLE option \<times> 'g \<Rightarrow>
     pyerr + (fl \<times> (StocProc_KLE option \<times> 'g))" where
  "StocProc_KLE_tol_probe E kw ng s =
     (case init_StocProc_KLE_and_get_error E kw ng (snd s) of
        Inl e \<Rightarrow> Inl e
      | Inr (err, self, g') \<Rightarrow> Inr (err, (Some self, g')))"

definition StocProc_KLE_tol_init ::
  "('g, 'x) ext_scheme \<Rightarrow> (real \<Rightarrow> complex) \<Rightarrow> real \<Rightarrow> real \<Rightarrow> int \<Rightarrow> int option \<Rightarrow> int \<Rightarrow> bool \<Rightarrow> 'g \<Rightarrow>
     (pyerr + (int \<times> int \<times> (StocProc_KLE option \<times> 'g) \<times> (int \<times> fl) list)) option" where
  "StocProc_KLE_tol_init E r_tau tmax tol ngf sd kk align_eig_vec g =
     auto_grid_points
       (StocProc_KLE_tol_probe E (r_tau, tmax, ngf, sd, tol ^ 2, kk, align_eig_vec)) tol (None, g)"

section \<open>Sequences of calls\<close>

text \<open>A client of an engine calls its public methods in any order.\<close>

datatype method_call =
    NewProcess "complex list option" "int option"
  | Call "targ option"
  | GetZ
  | GetTime

fun perform ::
  "('g, 'x) ext_scheme \<Rightarrow> ('m absStocProc_scheme \<Rightarrow> complex list \<Rightarrow> pyerr + complex list) \<Rightarrow>
     ('m absStocProc_scheme \<Rightarrow> nat) \<Rightarrow> 'm absStocProc_scheme \<times> 'g \<Rightarrow> method_call \<Rightarrow>
     'm absStocProc_scheme \<times> 'g" where
  "perform E calc_z num_y_of (self, g) (NewProcess y sd) = snd (new_process E calc_z num_y_of self y sd g)"
| "perform E calc_z num_y_of (self, g) (Call t) = (snd (call E self t), g)"
| "perform E calc_z num_y_of (self, g) GetZ = (self, g)"
| "perform E calc_z num_y_of (self, g) GetTime = (self, g)"

definition perform_all ::
  "('g, 'x) ext_scheme \<Rightarrow> ('m absStocProc_scheme \<Rightarrow> complex list \<Rightarrow> pyerr + complex list) \<Rightarrow>
     ('m absStocProc_scheme \<Rightarrow> nat) \<Rightarrow> 'm absStocProc_scheme \<times> 'g \<Rightarrow> method_call list \<Rightarrow>
     'm absStocProc_scheme \<times> 'g" where
  "perform_all E calc_z num_y_of = foldl (perform E calc_z num_y_of)"

text \<open>
  What an evaluation at \<open>tt\<close> returns when the interpolator is built from the
  current realization, and the invariant of the cache: the interpolator, when there is
  one, is the spline through the current realization.
\<close>

definition eval_current :: "('g, 'x) ext_scheme \<Rightarrow> 'm absStocProc_scheme \<Rightarrow> targ \<Rightarrow> pyerr + cval" where
  "eval_current E self tt =
     (case priv_z self of
        None \<Rightarrow> Inl RuntimeError
      | Some z \<Rightarrow>
          (case ComplexInterpolatedUnivariateSpline E (t_axis self) z (priv_k self) of
             Inl e \<Rightarrow> Inl e
           | Inr f \<Rightarrow> Inr (cspline_call f tt)))"

definition coherent :: "('g, 'x) ext_scheme \<Rightarrow> 'm absStocProc_scheme \<Rightarrow> bool" where
  "coherent E self =
     (case priv_interpolator self of
        None \<Rightarrow> True
      | Some f \<Rightarrow>
          (case priv_z self of
             None \<Rightarrow> False
           | Some z \<Rightarrow> ComplexInterpolatedUnivariateSpline E (t_axis self) z (priv_k self) = Inr f))"

text \<open>An array whose rows agree with its shape.\<close>

definition wf_arr2 :: "'a arr2 \<Rightarrow> bool" where
  "wf_arr2 r = (length (rows r) = shape0 r \<and> (\<forall>j<shape0 r. length (rows r ! j) = shape1 r))"

text \<open>
  The invariants of the two loops of the search, over the log.  In the first loop every
  probe but the last one failed and the last entry is the probe of the current \<open>c\<close>.
  In the second loop \<open>c_high\<close> has a logged probe that passed and no smaller size
  passed; the object is the one the last logged probe constructed, and that probe is
  the one of \<open>c_low\<close> when it failed and of \<open>c_high\<close> when it passed.
\<close>

definition exp_inv ::
  "(int \<Rightarrow> 's \<Rightarrow> pyerr + (fl \<times> 's)) \<Rightarrow> real \<Rightarrow> int \<Rightarrow> fl \<Rightarrow> 's \<Rightarrow> (int \<times> fl) list \<Rightarrow> bool" where
  "exp_inv probe tol c err s lg =
     (0 < c \<and> (\<forall>x \<in> set (butlast lg). fl_gt (snd x) tol)
      \<and> (lg = [] \<and> err = PInf
          \<or> lg \<noteq> [] \<and> last lg = (2 * c + 1, err) \<and> (\<exists>sp. probe (2 * c + 1) sp = Inr (err, s))))"

definition bisect_inv ::
  "(int \<Rightarrow> 's \<Rightarrow> pyerr + (fl \<times> 's)) \<Rightarrow> real \<Rightarrow> int \<Rightarrow> int \<Rightarrow> 's \<Rightarrow> (int \<times> fl) list \<Rightarrow> bool" where
  "bisect_inv probe tol c_low c_high s lg =
     (c_low < c_high \<and> lg \<noteq> []
      \<and> (\<exists>e. (2 * c_high + 1, e) \<in> set lg \<and> \<not> fl_gt e tol)
      \<and> (\<forall>x \<in> set lg. \<not> fl_gt (snd x) tol \<longrightarrow> 2 * c_high + 1 \<le> fst x)
      \<and> (\<exists>sp. probe (fst (last lg)) sp = Inr (snd (last lg), s))
      \<and> fst (last lg) = 2 * (if fl_gt (snd (last lg)) tol then c_low else c_high) + 1)"

section \<open>Collaborators for the examples\<close>

text \<open>
  Small collaborators, on which the theorems below are instantiated.  The generator
  state is a number whose bits are the signs of the samples; the spline is a step
  function through the data; the solver returns one eigenpair.
\<close>

definition demo_ext :: "nat ext" where
  "demo_ext =
     \<lparr>np_random_seed = (\<lambda>n g. nat n),
      np_random_normal = (\<lambda>scale n g. (map (\<lambda>i. if odd (g div 2 ^ i) then scale else - scale) [0..<n], g div 2 ^ n)),
      InterpolatedUnivariateSpline =
        (\<lambda>x y kk. if length x = length y \<and> kk < int (length x)
                   then Inr (\<lambda>u. y ! length (filter (\<lambda>v. v \<le> u) (tl x)))
                   else Inl ValueError),
      get_mid_point_weights_times =
        (\<lambda>tmax ng. if ng < 1 then Inl ValueError
                    else (case linspace 0 tmax ng of
                            Inl e \<Rightarrow> Inl e
                          | Inr ts \<Rightarrow> Inr (ts, replicate (nat ng) (tmax / real_of_int ng)))),
      solve_hom_fredholm = (\<lambda>r w eps. Inr ([1], arr2_of (shape0 r) 1 (\<lambda>i j. 1))),
      z_t = (\<lambda>fac n1 ak a. Inr (replicate (nat (fac * (int n1 - 1) + 1)) (sum_list a))),
      eig_func_all_interp =
        (\<lambda>fac s ak w ev U. Inr (arr2_of (nat (fac * (int (length s) - 1) + 1)) (length ev) (\<lambda>i j. 1))),
      find_integral_boundary = (\<lambda>f tol ref_val max_val x0. Inr (2 * x0)),
      calc_ab_N_dx_dt = (\<lambda>f intgr_tol intpl_tol tmax a b ft_ref opt_b_only n_max. Inr (a, a + 2 * pi, 2, pi, 1))\<rparr>"

text \<open>
  A probe for the search whose object state is just the number of grid points of the
  last construction, with a given error for every number of grid points; and the mean
  over the four generator states with two sign bits, under which the two samples of
  \<open>demo_ext\<close> are uncorrelated with standard deviation \<open>scale\<close>.
\<close>

definition demo_probe :: "(int \<Rightarrow> fl) \<Rightarrow> int \<Rightarrow> int \<Rightarrow> pyerr + (fl \<times> int)" where
  "demo_probe err ng s = Inr (err ng, ng)"

definition demo_mean :: "(nat \<Rightarrow> real) \<Rightarrow> real" where
  "demo_mean f = (f 0 + f 1 + f 2 + f 3) / 4"

text \<open>The vector that \<open>new_process\<close> draws from the generator state \<open>g\<close>
  (empty when the view as complex numbers fails).\<close>

definition drawn_vector :: "('g, 'x) ext_scheme \<Rightarrow> real \<Rightarrow> nat \<Rightarrow> 'g \<Rightarrow> complex list" where
  "drawn_vector E scale n g = (case fst (draw_y E scale n g) of Inl e \<Rightarrow> [] | Inr v \<Rightarrow> v)"

text \<open>scipy's constructor with its default degree: it refuses data that are not
  numbers, and is the step spline of \<open>demo_ext\<close> of degree three otherwise.\<close>

definition demo_spline_legacy :: "real list \<Rightarrow> real list option \<Rightarrow> pyerr + (real \<Rightarrow> real)" where
  "demo_spline_legacy x y =
     (case y of None \<Rightarrow> Inl ValueError | Some ys \<Rightarrow> InterpolatedUnivariateSpline demo_ext x ys 3)"

section \<open>The collaborators of the examples, field by field\<close>

lemma demo_spline:
  "InterpolatedUnivariateSpline demo_ext x y kk =
     (if length x = length y \<and> kk < int (length x)
      then Inr (\<lambda>u. y ! length (filter (\<lambda>v. v \<le> u) (tl x)))
      else Inl ValueError)"
  by (simp add: demo_ext_def)

lemma demo_normal:
  "np_random_normal demo_ext scale n g =
     (map (\<lambda>i. if odd (g div 2 ^ i) then scale else - scale) [0..<n], g div 2 ^ n)"
  by (simp add: demo_ext_def)

lemma demo_seed: "np_random_seed demo_ext n g = nat n"
  by (simp add: demo_ext_def)

lemma demo_weights:
  "get_mid_point_weights_times demo_ext tmax ng =
     (if ng < 1 then Inl ValueError
      else (case linspace 0 tmax ng of
              Inl e \<Rightarrow> Inl e
            | Inr ts \<Rightarrow> Inr (ts, replicate (nat ng) (tmax / real_of_int ng))))"
  by (simp add: demo_ext_def)

lemma demo_solve:
  "solve_hom_fredholm demo_ext r w eps = Inr ([1], arr2_of (shape0 r) 1 (\<lambda>i j. 1))"
  by (simp add: demo_ext_def)

lemma demo_z_t:
  "z_t demo_ext fac n1 ak a = Inr (replicate (nat (fac * (int n1 - 1) + 1)) (sum_list a))"
  by (simp add: demo_ext_def)

section \<open>The base class: realization and interpolator\<close>

lemma call_priv_z: "priv_z (snd (call E self t)) = priv_z self"
  by (simp add: call_def split: option.splits sum.splits)

lemma call_not_ready: "priv_z self = None \<Longrightarrow> call E self t = (Inl RuntimeError, self)"
  by (simp add: call_def)

lemma new_process_interpolator:
  "priv_interpolator (fst (snd (new_process E calc_z num_y_of self y sd g))) = None"
  by (simp add: new_process_def Let_def split: option.splits sum.splits prod.splits)

lemma new_process_success:
  "new_process E calc_z num_y_of self y sd g = (None, self', g') \<Longrightarrow>
     priv_interpolator self' = None \<and> (\<exists>z. priv_z self' = Some z) \<and>
     t_axis self' = t_axis self \<and> priv_k self' = priv_k self"
  by (auto simp add: new_process_def Let_def split: option.splits sum.splits prod.splits)

lemma new_process_failure:
  "fst (new_process E calc_z num_y_of self y sd g) = Some e \<Longrightarrow>
     priv_z (fst (snd (new_process E calc_z num_y_of self y sd g))) = priv_z self"
  by (auto simp add: new_process_def Let_def split: option.splits sum.splits prod.splits)

lemma legacy_init_fresh:
  "absStocProc_legacy_init E tmax ngp sd verbose kk g = Inr (lb, lg1) \<Longrightarrow>
     legacy_priv_z lb = None \<and> legacy_priv_interpolator lb = None"
  by (auto simp add: absStocProc_legacy_init_def split: sum.splits)

lemma call_legacy_no_guard:
  "legacy_priv_z ls = None \<Longrightarrow> legacy_priv_interpolator ls = None \<Longrightarrow>
     call_legacy spl ls t =
       (case spl (legacy_t_axis ls) None of
          Inl e \<Rightarrow> (Inl e, ls)
        | Inr f \<Rightarrow> (Inr (cspline_call \<lparr>re_spline = f, im_spline = f\<rparr> t),
                    ls\<lparr>legacy_priv_interpolator := Some \<lparr>re_spline = f, im_spline = f\<rparr>\<rparr>))"
  by (simp add: call_legacy_def ComplexInterpolatedUnivariateSpline_legacy_def split: sum.split)

lemma new_process_legacy_success:
  "new_process_legacy E calc_z num_y_of ls y sd g = (None, ls', lg') \<Longrightarrow>
     legacy_priv_interpolator ls' = None \<and> (\<exists>z. legacy_priv_z ls' = Some z)"
  by (auto simp add: new_process_legacy_def Let_def split: sum.splits)

lemma call_legacy_lazy:
  assumes "legacy_priv_z ls' = Some z" "legacy_priv_interpolator ls' = None"
    "spl (legacy_t_axis ls') (Some (map Re z)) = Inr re"
    "spl (legacy_t_axis ls') (Some (map Im z)) = Inr im"
  shows "call_legacy spl ls' tt
           = (Inr (cspline_call \<lparr>re_spline = re, im_spline = im\<rparr> tt),
              ls'\<lparr>legacy_priv_interpolator := Some \<lparr>re_spline = re, im_spline = im\<rparr>\<rparr>)
    \<and> call_legacy spl (ls'\<lparr>legacy_priv_interpolator := Some \<lparr>re_spline = re, im_spline = im\<rparr>\<rparr>) t2
           = (Inr (cspline_call \<lparr>re_spline = re, im_spline = im\<rparr> t2),
              ls'\<lparr>legacy_priv_interpolator := Some \<lparr>re_spline = re, im_spline = im\<rparr>\<rparr>)"
  using assms by (simp add: call_legacy_def ComplexInterpolatedUnivariateSpline_legacy_def)


text \<open>
  Claim C3, as the code has it.  For the engines of \<open>stocproc.py\<close>: the constructor
  leaves no realization; a \<open>new_process\<close> that raises keeps the realization as it was;
  without a realization \<open>__call__\<close> raises \<open>RuntimeError\<close> (the specification's
  NotReady) for every argument, also for none.  After a \<open>new_process\<close> that succeeded
  there is a realization \<open>z\<close> and no interpolator; the first \<open>__call__\<close> with a time
  builds the two real splines through the real and the imaginary parts of \<open>z\<close> over
  the time grid, returns the value of that interpolator at the time and stores it; the
  calls that follow use the stored one.  For the engines of the older
  \<open>class_stocproc.py\<close> the second half holds as well, but there is no guard: without
  a realization \<open>__call__\<close> hands the missing data to the spline constructor, and what
  it returns or raises is what that constructor does.
\<close>

theorem C3_call_not_ready_then_lazy_spline:
  fixes self :: "'m absStocProc_scheme" and ls :: "'n absStocProc_legacy_scheme"
  shows "(absStocProc_init E tmax ngp sd0 kk g0 = Inr (base, g1) \<longrightarrow> priv_z base = None)
    \<and> (priv_z self = None \<longrightarrow> (\<forall>t. call E self t = (Inl RuntimeError, self)))
    \<and> (fst (new_process E calc_z num_y_of self y sd g) \<noteq> None \<longrightarrow>
          priv_z (fst (snd (new_process E calc_z num_y_of self y sd g))) = priv_z self)
    \<and> (new_process E calc_z num_y_of self y sd g = (None, self', g') \<longrightarrow>
          (\<exists>z. priv_z self' = Some z \<and> priv_interpolator self' = None
             \<and> (\<forall>re im tt.
                   InterpolatedUnivariateSpline E (t_axis self') (map Re z) (priv_k self') = Inr re \<and>
                   InterpolatedUnivariateSpline E (t_axis self') (map Im z) (priv_k self') = Inr im \<longrightarrow>
                   (let f = \<lparr>re_spline = re, im_spline = im\<rparr>;
                        cached = self'\<lparr>priv_interpolator := Some f\<rparr>
                    in call E self' (Some tt) = (Inr (cspline_call f tt), cached)
                       \<and> (\<forall>t2. call E cached (Some t2) = (Inr (cspline_call f t2), cached))))))
    \<and> (absStocProc_legacy_init E tmax ngp sd0 verbose kk g0 = Inr (lb, lg1) \<longrightarrow>
          legacy_priv_z lb = None \<and> legacy_priv_interpolator lb = None)
    \<and> (legacy_priv_z ls = None \<and> legacy_priv_interpolator ls = None \<longrightarrow>
          (\<forall>t. call_legacy spl ls t =
                 (case spl (legacy_t_axis ls) None of
                    Inl e \<Rightarrow> (Inl e, ls)
                  | Inr f \<Rightarrow> (Inr (cspline_call \<lparr>re_spline = f, im_spline = f\<rparr> t),
                              ls\<lparr>legacy_priv_interpolator := Some \<lparr>re_spline = f, im_spline = f\<rparr>\<rparr>))))
    \<and> (new_process_legacy E lcalc_z lnum_y_of ls y sd g = (None, ls', lg') \<longrightarrow>
          (\<exists>z. legacy_priv_z ls' = Some z \<and> legacy_priv_interpolator ls' = None
             \<and> (\<forall>re im tt.
                   spl (legacy_t_axis ls') (Some (map Re z)) = Inr re \<and>
                   spl (legacy_t_axis ls') (Some (map Im z)) = Inr im \<longrightarrow>
                   (let f = \<lparr>re_spline = re, im_spline = im\<rparr>;
                        cached = ls'\<lparr>legacy_priv_interpolator := Some f\<rparr>
                    in call_legacy spl ls' tt = (Inr (cspline_call f tt), cached)
                       \<and> (\<forall>t2. call_legacy spl cached t2 = (Inr (cspline_call f t2), cached))))))"
proof (intro conjI impI)
  assume "absStocProc_init E tmax ngp sd0 kk g0 = Inr (base, g1)"
  then show "priv_z base = None"
    by (auto simp add: absStocProc_init_def split: sum.splits)
next
  assume "priv_z self = None"
  then show "\<forall>t. call E self t = (Inl RuntimeError, self)"
    by (simp add: call_not_ready)
next
  assume "fst (new_process E calc_z num_y_of self y sd g) \<noteq> None"
  then show "priv_z (fst (snd (new_process E calc_z num_y_of self y sd g))) = priv_z self"
    by (auto dest: new_process_failure)
next
  assume "new_process E calc_z num_y_of self y sd g = (None, self', g')"
  then have "priv_interpolator self' = None \<and> (\<exists>z. priv_z self' = Some z)"
    by (auto dest: new_process_success)
  then show "\<exists>z. priv_z self' = Some z \<and> priv_interpolator self' = None
             \<and> (\<forall>re im tt.
                   InterpolatedUnivariateSpline E (t_axis self') (map Re z) (priv_k self') = Inr re \<and>
                   InterpolatedUnivariateSpline E (t_axis self') (map Im z) (priv_k self') = Inr im \<longrightarrow>
                   (let f = \<lparr>re_spline = re, im_spline = im\<rparr>;
                        cached = self'\<lparr>priv_interpolator := Some f\<rparr>
                    in call E self' (Some tt) = (Inr (cspline_call f tt), cached)
                       \<and> (\<forall>t2. call E cached (Some t2) = (Inr (cspline_call f t2), cached))))"
    by (auto simp add: call_def ComplexInterpolatedUnivariateSpline_def Let_def)
next
  assume "absStocProc_legacy_init E tmax ngp sd0 verbose kk g0 = Inr (lb, lg1)"
  then show "legacy_priv_z lb = None" and "legacy_priv_interpolator lb = None"
    by (simp_all add: legacy_init_fresh)
next
  assume "legacy_priv_z ls = None \<and> legacy_priv_interpolator ls = None"
  then show "\<forall>t. call_legacy spl ls t =
                 (case spl (legacy_t_axis ls) None of
                    Inl e \<Rightarrow> (Inl e, ls)
                  | Inr f \<Rightarrow> (Inr (cspline_call \<lparr>re_spline = f, im_spline = f\<rparr> t),
                              ls\<lparr>legacy_priv_interpolator := Some \<lparr>re_spline = f, im_spline = f\<rparr>\<rparr>))"
    by (simp add: call_legacy_no_guard)
next
  assume "new_process_legacy E lcalc_z lnum_y_of ls y sd g = (None, ls', lg')"
  from new_process_legacy_success [OF this] obtain z where
    z: "legacy_priv_z ls' = Some z" and i: "legacy_priv_interpolator ls' = None"
    by blast
  have "\<forall>re im tt.
           spl (legacy_t_axis ls') (Some (map Re z)) = Inr re \<and>
           spl (legacy_t_axis ls') (Some (map Im z)) = Inr im \<longrightarrow>
           (let f = \<lparr>re_spline = re, im_spline = im\<rparr>;
                cached = ls'\<lparr>legacy_priv_interpolator := Some f\<rparr>
            in call_legacy spl ls' tt = (Inr (cspline_call f tt), cached)
               \<and> (\<forall>t2. call_legacy spl cached t2 = (Inr (cspline_call f t2), cached)))"
    using call_legacy_lazy [OF z i] by (simp add: Let_def)
  with z i show "\<exists>z. legacy_priv_z ls' = Some z \<and> legacy_priv_interpolator ls' = None
             \<and> (\<forall>re im tt.
                   spl (legacy_t_axis ls') (Some (map Re z)) = Inr re \<and>
                   spl (legacy_t_axis ls') (Some (map Im z)) = Inr im \<longrightarrow>
                   (let f = \<lparr>re_spline = re, im_spline = im\<rparr>;
                        cached = ls'\<lparr>legacy_priv_interpolator := Some f\<rparr>
                    in call_legacy spl ls' tt = (Inr (cspline_call f tt), cached)
                       \<and> (\<forall>t2. call_legacy spl cached t2 = (Inr (cspline_call f t2), cached))))"
    by blast
qed

text \<open>
  The claim as stated fails for an engine of the older module: before any
  \<open>new_process\<close> its \<open>__call__\<close> does not raise the error of a missing realization
  but the one of the spline constructor, which refuses the missing data.
\<close>

theorem C3_counterexample:
  "\<exists>ls. absStocProc_legacy_init demo_ext 1 4 None 1 3 (0::nat) = Inr (ls, 0)
     \<and> legacy_priv_z ls = None
     \<and> call_legacy demo_spline_legacy ls (TFloat 0) = (Inl ValueError, ls)
     \<and> fst (call_legacy demo_spline_legacy ls (TFloat 0)) \<noteq> Inl RuntimeError"
proof -
  have "\<exists>ls. absStocProc_legacy_init demo_ext 1 4 None 1 3 (0::nat) = Inr (ls, 0)"
    by (simp add: absStocProc_legacy_init_def linspace_def)
  then obtain ls where i: "absStocProc_legacy_init demo_ext 1 4 None 1 3 (0::nat) = Inr (ls, 0)"
    by blast
  from legacy_init_fresh [OF i] have f: "legacy_priv_z ls = None" "legacy_priv_interpolator ls = None"
    by simp_all
  from call_legacy_no_guard [OF f, of demo_spline_legacy "TFloat 0"]
  have "call_legacy demo_spline_legacy ls (TFloat 0) = (Inl ValueError, ls)"
    by (simp add: demo_spline_legacy_def)
  with i f show ?thesis by auto
qed


theorem C3_witness:
  "\<exists>base self' re im ls ls' lre lim.
     absStocProc_init demo_ext 1 2 None 1 (0::nat) = Inr (base, 0)
     \<and> priv_z base = None
     \<and> call demo_ext base (Some (TFloat 0)) = (Inl RuntimeError, base)
     \<and> call demo_ext base None = (Inl RuntimeError, base)
     \<and> new_process demo_ext (\<lambda>s v. Inr v) (\<lambda>s. 2) base (Some [1, \<i>]) None 0 = (None, self', 0)
     \<and> priv_z self' = Some [1, \<i>]
     \<and> InterpolatedUnivariateSpline demo_ext (t_axis self') (map Re [1, \<i>]) (priv_k self') = Inr re
     \<and> InterpolatedUnivariateSpline demo_ext (t_axis self') (map Im [1, \<i>]) (priv_k self') = Inr im
     \<and> call demo_ext self' (Some (TFloat 1))
         = (Inr (cspline_call \<lparr>re_spline = re, im_spline = im\<rparr> (TFloat 1)),
            self'\<lparr>priv_interpolator := Some \<lparr>re_spline = re, im_spline = im\<rparr>\<rparr>)
     \<and> absStocProc_legacy_init demo_ext 1 4 None 1 3 (0::nat) = Inr (ls, 0)
     \<and> legacy_priv_z ls = None \<and> legacy_priv_interpolator ls = None
     \<and> call_legacy demo_spline_legacy ls (TFloat 0) = (Inl ValueError, ls)
     \<and> new_process_legacy demo_ext (\<lambda>s v. Inr v) (\<lambda>s. 4) ls (Some [1, \<i>, 1, \<i>]) None 0 = (None, ls', 0)
     \<and> legacy_priv_z ls' = Some [1, \<i>, 1, \<i>]
     \<and> demo_spline_legacy (legacy_t_axis ls') (Some (map Re [1, \<i>, 1, \<i>])) = Inr lre
     \<and> demo_spline_legacy (legacy_t_axis ls') (Some (map Im [1, \<i>, 1, \<i>])) = Inr lim
     \<and> call_legacy demo_spline_legacy ls' (TFloat 1)
         = (Inr (cspline_call \<lparr>re_spline = lre, im_spline = lim\<rparr> (TFloat 1)),
            ls'\<lparr>legacy_priv_interpolator := Some \<lparr>re_spline = lre, im_spline = lim\<rparr>\<rparr>)"
proof -
  let ?base = "\<lparr>t_max = 1, num_grid_points = 2, t_axis = [0, 1], priv_z = None,
             priv_interpolator = None, priv_k = 1, priv_seed = None,
             priv_one_over_sqrt_2 = 1 / sqrt 2, priv_proc_cnt = 0\<rparr>"
  let ?self' = "?base\<lparr>priv_z := Some [1, \<i>], priv_proc_cnt := 1\<rparr>"
  let ?re = "\<lambda>u::real. [1, 0::real] ! length (filter (\<lambda>v. v \<le> u) [1])"
  let ?im = "\<lambda>u::real. [0, 1::real] ! length (filter (\<lambda>v. v \<le> u) [1])"
  let ?zs = "[1, \<i>, 1, \<i>]"
  have a: "absStocProc_init demo_ext 1 2 None 1 (0::nat) = Inr (?base, 0)"
    by (simp add: absStocProc_init_def linspace_def upt_rec)
  have b: "priv_z ?base = None" by simp
  have c: "new_process demo_ext (\<lambda>s v. Inr v) (\<lambda>s. 2) ?base (Some [1, \<i>]) None 0 = (None, ?self', 0)"
    by (simp add: new_process_def)
  have d: "InterpolatedUnivariateSpline demo_ext (t_axis ?self') (map Re [1, \<i>]) (priv_k ?self') = Inr ?re"
    by (simp add: demo_spline)
  have e: "InterpolatedUnivariateSpline demo_ext (t_axis ?self') (map Im [1, \<i>]) (priv_k ?self') = Inr ?im"
    by (simp add: demo_spline)
  have z: "priv_z ?self' = Some [1, \<i>]" by simp
  have "\<exists>ts. linspace 0 1 4 = Inr ts \<and> length ts = 4"
    by (simp add: linspace_def)
  then obtain ts where ts: "linspace 0 1 4 = Inr ts" "length ts = 4" by blast
  let ?ls = "\<lparr>legacy_priv_verbose = 1, legacy_t_max = 1, legacy_num_grid_points = 4,
              legacy_t_axis = ts, legacy_priv_z = None, legacy_priv_interpolator = None,
              legacy_priv_k = 3, legacy_priv_one_over_sqrt_2 = 1 / sqrt 2\<rparr>"
  let ?ls' = "?ls\<lparr>legacy_priv_z := Some ?zs\<rparr>"
  let ?lre = "\<lambda>u::real. map Re ?zs ! length (filter (\<lambda>v. v \<le> u) (tl ts))"
  let ?lim = "\<lambda>u::real. map Im ?zs ! length (filter (\<lambda>v. v \<le> u) (tl ts))"
  have la: "absStocProc_legacy_init demo_ext 1 4 None 1 3 (0::nat) = Inr (?ls, 0)"
    by (simp add: absStocProc_legacy_init_def ts)
  have lb: "legacy_priv_z ?ls = None \<and> legacy_priv_interpolator ?ls = None" by simp
  have lc: "new_process_legacy demo_ext (\<lambda>s v. Inr v) (\<lambda>s. 4) ?ls (Some ?zs) None 0 = (None, ?ls', 0)"
    by (simp add: new_process_legacy_def)
  have ld: "demo_spline_legacy (legacy_t_axis ?ls') (Some (map Re ?zs)) = Inr ?lre"
    by (simp add: demo_spline_legacy_def demo_spline ts)
  have le: "demo_spline_legacy (legacy_t_axis ?ls') (Some (map Im ?zs)) = Inr ?lim"
    by (simp add: demo_spline_legacy_def demo_spline ts)
  have lz: "legacy_priv_z ?ls' = Some ?zs" by simp
  have ln: "demo_spline_legacy (legacy_t_axis ?ls) None = Inl ValueError"
    by (simp add: demo_spline_legacy_def)
  note inst = C3_call_not_ready_then_lazy_spline
    [where E = demo_ext and tmax = 1 and ngp = 2 and ?sd0.0 = None and kk = 1 and ?g0.0 = 0
       and base = ?base and ?g1.0 = 0 and self = ?base and calc_z = "\<lambda>s v. Inr v"
       and num_y_of = "\<lambda>s. 2" and y = "Some [1, \<i>]" and sd = None and g = 0 and self' = ?self'
       and g' = 0]
  from inst b have f: "\<forall>t. call demo_ext ?base t = (Inl RuntimeError, ?base)" by blast
  from inst c obtain z0 where g: "priv_z ?self' = Some z0"
     and h: "\<forall>re im tt.
                   InterpolatedUnivariateSpline demo_ext (t_axis ?self') (map Re z0) (priv_k ?self') = Inr re \<and>
                   InterpolatedUnivariateSpline demo_ext (t_axis ?self') (map Im z0) (priv_k ?self') = Inr im \<longrightarrow>
                   (let f = \<lparr>re_spline = re, im_spline = im\<rparr>;
                        cached = ?self'\<lparr>priv_interpolator := Some f\<rparr>
                    in call demo_ext ?self' (Some tt) = (Inr (cspline_call f tt), cached)
                       \<and> (\<forall>t2. call demo_ext cached (Some t2) = (Inr (cspline_call f t2), cached)))"
    by blast
  from g z have z0: "z0 = [1, \<i>]" by simp
  from h [rule_format, of ?re ?im "TFloat 1"] d e z0
  have i: "call demo_ext ?self' (Some (TFloat 1))
         = (Inr (cspline_call \<lparr>re_spline = ?re, im_spline = ?im\<rparr> (TFloat 1)),
            ?self'\<lparr>priv_interpolator := Some \<lparr>re_spline = ?re, im_spline = ?im\<rparr>\<rparr>)"
    by (simp add: Let_def)
  note linst = C3_call_not_ready_then_lazy_spline
    [where E = demo_ext and ls = ?ls and spl = demo_spline_legacy and lcalc_z = "\<lambda>s v. Inr v"
       and lnum_y_of = "\<lambda>s. 4" and y = "Some ?zs" and sd = None and g = 0 and ls' = ?ls'
       and lg' = 0]
  from linst lb have "\<forall>t. call_legacy demo_spline_legacy ?ls t =
                 (case demo_spline_legacy (legacy_t_axis ?ls) None of
                    Inl e \<Rightarrow> (Inl e, ?ls)
                  | Inr f \<Rightarrow> (Inr (cspline_call \<lparr>re_spline = f, im_spline = f\<rparr> t),
                              ?ls\<lparr>legacy_priv_interpolator := Some \<lparr>re_spline = f, im_spline = f\<rparr>\<rparr>))"
    by blast
  then have lf: "call_legacy demo_spline_legacy ?ls (TFloat 0) = (Inl ValueError, ?ls)"
    by (simp only: ln sum.case)
  note l7 = linst [THEN conjunct2, THEN conjunct2, THEN conjunct2, THEN conjunct2,
                   THEN conjunct2, THEN conjunct2, THEN mp, OF lc]
  from l7 obtain z1 where lg: "legacy_priv_z ?ls' = Some z1"
     and lh: "\<forall>re im tt.
                   demo_spline_legacy (legacy_t_axis ?ls') (Some (map Re z1)) = Inr re \<and>
                   demo_spline_legacy (legacy_t_axis ?ls') (Some (map Im z1)) = Inr im \<longrightarrow>
                   (let f = \<lparr>re_spline = re, im_spline = im\<rparr>;
                        cached = ?ls'\<lparr>legacy_priv_interpolator := Some f\<rparr>
                    in call_legacy demo_spline_legacy ?ls' tt = (Inr (cspline_call f tt), cached)
                       \<and> (\<forall>t2. call_legacy demo_spline_legacy cached t2 = (Inr (cspline_call f t2), cached)))"
    by blast
  from lg lz have z1: "z1 = ?zs" by simp
  from lh [rule_format, of ?lre ?lim "TFloat 1"] ld le z1
  have li: "call_legacy demo_spline_legacy ?ls' (TFloat 1)
         = (Inr (cspline_call \<lparr>re_spline = ?lre, im_spline = ?lim\<rparr> (TFloat 1)),
            ?ls'\<lparr>legacy_priv_interpolator := Some \<lparr>re_spline = ?lre, im_spline = ?lim\<rparr>\<rparr>)"
    by (simp add: Let_def)
  from a b c d e f i z have first: "\<exists>base self' re im.
     absStocProc_init demo_ext 1 2 None 1 (0::nat) = Inr (base, 0)
     \<and> priv_z base = None
     \<and> call demo_ext base (Some (TFloat 0)) = (Inl RuntimeError, base)
     \<and> call demo_ext base None = (Inl RuntimeError, base)
     \<and> new_process demo_ext (\<lambda>s v. Inr v) (\<lambda>s. 2) base (Some [1, \<i>]) None 0 = (None, self', 0)
     \<and> priv_z self' = Some [1, \<i>]
     \<and> InterpolatedUnivariateSpline demo_ext (t_axis self') (map Re [1, \<i>]) (priv_k self') = Inr re
     \<and> InterpolatedUnivariateSpline demo_ext (t_axis self') (map Im [1, \<i>]) (priv_k self') = Inr im
     \<and> call demo_ext self' (Some (TFloat 1))
         = (Inr (cspline_call \<lparr>re_spline = re, im_spline = im\<rparr> (TFloat 1)),
            self'\<lparr>priv_interpolator := Some \<lparr>re_spline = re, im_spline = im\<rparr>\<rparr>)"
    by blast
  from la lb lf lc lz ld le li have second: "\<exists>ls ls' lre lim.
     absStocProc_legacy_init demo_ext 1 4 None 1 3 (0::nat) = Inr (ls, 0)
     \<and> legacy_priv_z ls = None \<and> legacy_priv_interpolator ls = None
     \<and> call_legacy demo_spline_legacy ls (TFloat 0) = (Inl ValueError, ls)
     \<and> new_process_legacy demo_ext (\<lambda>s v. Inr v) (\<lambda>s. 4) ls (Some [1, \<i>, 1, \<i>]) None 0 = (None, ls', 0)
     \<and> legacy_priv_z ls' = Some [1, \<i>, 1, \<i>]
     \<and> demo_spline_legacy (legacy_t_axis ls') (Some (map Re [1, \<i>, 1, \<i>])) = Inr lre
     \<and> demo_spline_legacy (legacy_t_axis ls') (Some (map Im [1, \<i>, 1, \<i>])) = Inr lim
     \<and> call_legacy demo_spline_legacy ls' (TFloat 1)
         = (Inr (cspline_call \<lparr>re_spline = lre, im_spline = lim\<rparr> (TFloat 1)),
            ls'\<lparr>legacy_priv_interpolator := Some \<lparr>re_spline = lre, im_spline = lim\<rparr>\<rparr>)"
    by blast
  from first second show ?thesis by blast
qed

lemma call_frame:
  "\<exists>i. snd (call E self t) = self\<lparr>priv_interpolator := i\<rparr>"
proof -
  have "snd (call E self t) = self\<lparr>priv_interpolator := priv_interpolator (snd (call E self t))\<rparr>"
    by (simp add: call_def split: option.split sum.split)
  then show ?thesis by blast
qed

lemma new_process_frame:
  "\<exists>z i c. fst (snd (new_process E calc_z num_y_of self y sd g))
            = self\<lparr>priv_z := z, priv_interpolator := i, priv_proc_cnt := c\<rparr>"
proof -
  have "fst (snd (new_process E calc_z num_y_of self y sd g))
      = self\<lparr>priv_z := priv_z (fst (snd (new_process E calc_z num_y_of self y sd g))),
              priv_interpolator := None, priv_proc_cnt := priv_proc_cnt self + 1\<rparr>"
    by (simp add: new_process_def Let_def split: sum.split)
  then show ?thesis by blast
qed

lemma perform_frame:
  "\<exists>z i c. fst (perform E calc_z num_y_of (self, g) m)
            = self\<lparr>priv_z := z, priv_interpolator := i, priv_proc_cnt := c\<rparr>"
proof (cases m)
  case (NewProcess y sd)
  then show ?thesis using new_process_frame [of E calc_z num_y_of self y sd g] by simp
next
  case (Call t)
  obtain i where "snd (call E self t) = self\<lparr>priv_interpolator := i\<rparr>"
    using call_frame by blast
  then have "fst (perform E calc_z num_y_of (self, g) m)
      = self\<lparr>priv_z := priv_z self, priv_interpolator := i, priv_proc_cnt := priv_proc_cnt self\<rparr>"
    using Call by simp
  then show ?thesis by blast
next
  case GetZ
  then have "fst (perform E calc_z num_y_of (self, g) m)
      = self\<lparr>priv_z := priv_z self, priv_interpolator := priv_interpolator self,
              priv_proc_cnt := priv_proc_cnt self\<rparr>"
    by simp
  then show ?thesis by blast
next
  case GetTime
  then have "fst (perform E calc_z num_y_of (self, g) m)
      = self\<lparr>priv_z := priv_z self, priv_interpolator := priv_interpolator self,
              priv_proc_cnt := priv_proc_cnt self\<rparr>"
    by simp
  then show ?thesis by blast
qed

lemma perform_all_frame:
  "\<exists>z i c. fst (perform_all E calc_z num_y_of (self, g) ms)
            = self\<lparr>priv_z := z, priv_interpolator := i, priv_proc_cnt := c\<rparr>"
proof (induction ms rule: rev_induct)
  case Nil
  have "fst (perform_all E calc_z num_y_of (self, g) [])
      = self\<lparr>priv_z := priv_z self, priv_interpolator := priv_interpolator self,
              priv_proc_cnt := priv_proc_cnt self\<rparr>"
    by (simp add: perform_all_def)
  then show ?case by blast
next
  case (snoc m ms)
  obtain s1 g1 where p: "perform_all E calc_z num_y_of (self, g) ms = (s1, g1)"
    by (cases "perform_all E calc_z num_y_of (self, g) ms")
  from snoc p obtain z i c where s1: "s1 = self\<lparr>priv_z := z, priv_interpolator := i, priv_proc_cnt := c\<rparr>"
    by auto
  obtain z' i' c' where "fst (perform E calc_z num_y_of (s1, g1) m)
      = s1\<lparr>priv_z := z', priv_interpolator := i', priv_proc_cnt := c'\<rparr>"
    using perform_frame [of E calc_z num_y_of s1 g1 m] by blast
  then have "fst (perform_all E calc_z num_y_of (self, g) (ms @ [m]))
      = self\<lparr>priv_z := z', priv_interpolator := i', priv_proc_cnt := c'\<rparr>"
    using p s1 by (simp add: perform_all_def)
  then show ?case by blast
qed

lemma coherent_perform:
  "coherent E self \<Longrightarrow> coherent E (fst (perform E calc_z num_y_of (self, g) m))"
proof (cases m)
  case (NewProcess y sd)
  then show ?thesis
    using new_process_interpolator [of E calc_z num_y_of self y sd g]
    by (simp add: coherent_def)
next
  case (Call t)
  assume "coherent E self"
  then show ?thesis using Call
    by (auto simp add: coherent_def call_def split: option.splits sum.splits)
qed simp_all

lemma coherent_perform_all:
  "coherent E self \<Longrightarrow> coherent E (fst (perform_all E calc_z num_y_of (self, g) ms))"
proof (induction ms rule: rev_induct)
  case Nil
  then show ?case by (simp add: perform_all_def)
next
  case (snoc m ms)
  obtain s1 g1 where p: "perform_all E calc_z num_y_of (self, g) ms = (s1, g1)"
    by (cases "perform_all E calc_z num_y_of (self, g) ms")
  with snoc have "coherent E s1" by simp
  then have "coherent E (fst (perform E calc_z num_y_of (s1, g1) m))"
    by (rule coherent_perform)
  then show ?case using p by (simp add: perform_all_def)
qed

lemma coherent_call:
  "coherent E self \<Longrightarrow> fst (call E self (Some tt)) = eval_current E self tt"
  by (auto simp add: coherent_def call_def eval_current_def split: option.splits sum.splits)

text \<open>
  Claim C9.  \<open>__call__\<close> keeps the realization; \<open>get_z\<close> and \<open>get_time\<close>
  change nothing at all; among the public methods only \<open>new_process\<close> can change it.
  Every \<open>new_process\<close>, also one that raises, leaves no interpolator.  So after any
  sequence of calls on an object that started without interpolator, an evaluation
  returns what the spline through the current realization returns.
\<close>

theorem C9_realization_frame_and_interpolator_invalidation:
  fixes self :: "'m absStocProc_scheme"
  shows "priv_z (snd (call E self t)) = priv_z self
    \<and> fst (perform E calc_z num_y_of (self, g) GetZ) = self
    \<and> fst (perform E calc_z num_y_of (self, g) GetTime) = self
    \<and> (\<forall>m. (\<forall>v n. m \<noteq> NewProcess v n) \<longrightarrow>
            priv_z (fst (perform E calc_z num_y_of (self, g) m)) = priv_z self)
    \<and> priv_interpolator (fst (snd (new_process E calc_z num_y_of self y sd g))) = None
    \<and> (priv_interpolator self = None \<longrightarrow>
         (\<forall>ms tt. fst (call E (fst (perform_all E calc_z num_y_of (self, g) ms)) (Some tt))
                  = eval_current E (fst (perform_all E calc_z num_y_of (self, g) ms)) tt))"
proof (intro conjI allI impI)
  show "priv_z (snd (call E self t)) = priv_z self"
    by (rule call_priv_z)
  show "priv_interpolator (fst (snd (new_process E calc_z num_y_of self y sd g))) = None"
    by (rule new_process_interpolator)
  show "fst (perform E calc_z num_y_of (self, g) GetZ) = self" by simp
  show "fst (perform E calc_z num_y_of (self, g) GetTime) = self" by simp
next
  fix m
  assume "\<forall>v n. m \<noteq> NewProcess v n"
  then show "priv_z (fst (perform E calc_z num_y_of (self, g) m)) = priv_z self"
    by (cases m) (simp_all add: call_priv_z)
next
  fix ms tt
  assume "priv_interpolator self = None"
  then have "coherent E self" by (simp add: coherent_def)
  then have "coherent E (fst (perform_all E calc_z num_y_of (self, g) ms))"
    by (rule coherent_perform_all)
  then show "fst (call E (fst (perform_all E calc_z num_y_of (self, g) ms)) (Some tt))
           = eval_current E (fst (perform_all E calc_z num_y_of (self, g) ms)) tt"
    by (rule coherent_call)
qed

theorem C9_witness:
  "\<exists>self after.
     absStocProc_init demo_ext 1 2 None 1 (0::nat) = Inr (self, 0)
     \<and> priv_interpolator self = None
     \<and> after = fst (perform_all demo_ext (\<lambda>s v. Inr v) (\<lambda>s. 2) (self, 0)
                      [NewProcess (Some [1, \<i>]) None, Call (Some (TFloat 1)),
                       NewProcess (Some [\<i>, 1]) None])
     \<and> priv_z after = Some [\<i>, 1]
     \<and> fst (call demo_ext after (Some (TFloat 1))) = eval_current demo_ext after (TFloat 1)
     \<and> eval_current demo_ext after (TFloat 1) = Inr (CScalar 1)"
proof -
  let ?base = "\<lparr>t_max = 1, num_grid_points = 2, t_axis = [0, 1], priv_z = None,
             priv_interpolator = None, priv_k = 1, priv_seed = None,
             priv_one_over_sqrt_2 = 1 / sqrt 2, priv_proc_cnt = 0\<rparr>"
  let ?ms = "[NewProcess (Some [1, \<i>]) None, Call (Some (TFloat 1)), NewProcess (Some [\<i>, 1]) None]"
  let ?after = "fst (perform_all demo_ext (\<lambda>s v. Inr v) (\<lambda>s. 2) (?base, 0::nat) ?ms)"
  have a: "absStocProc_init demo_ext 1 2 None 1 (0::nat) = Inr (?base, 0)"
    by (simp add: absStocProc_init_def linspace_def upt_rec)
  have b: "priv_interpolator ?base = None" by simp
  have c: "?after = ?base\<lparr>priv_z := Some [\<i>, 1], priv_proc_cnt := 2\<rparr>"
    by (simp add: perform_all_def new_process_def call_def ComplexInterpolatedUnivariateSpline_def
        demo_spline)
  have d: "priv_z ?after = Some [\<i>, 1]"
    by (simp only: c) simp
  have e: "eval_current demo_ext ?after (TFloat 1) = Inr (CScalar 1)"
    by (simp only: c) (simp add: eval_current_def ComplexInterpolatedUnivariateSpline_def demo_spline
        cspline_at_def)
  from C9_realization_frame_and_interpolator_invalidation
         [of demo_ext ?base None "\<lambda>s v. Inr v" "\<lambda>s. 2" 0 None None] b
  have f: "fst (call demo_ext ?after (Some (TFloat 1))) = eval_current demo_ext ?after (TFloat 1)"
    by blast
  from a b d e f show ?thesis by blast
qed

section \<open>The correlation matrix\<close>

lemma arr2_of_simps:
  "shape0 (arr2_of r c f) = r" "shape1 (arr2_of r c f) = c"
  by (simp_all add: arr2_of_def)

lemma at2_arr2_of: "i < r \<Longrightarrow> j < c \<Longrightarrow> at2 (arr2_of r c f) i j = f i j"
  by (simp add: arr2_of_def at2_def)

lemma wf_arr2_of: "wf_arr2 (arr2_of r c f)"
  by (simp add: arr2_of_def wf_arr2_def)

lemma set_col_ok:
  assumes "wf_arr2 r" "length v = shape0 r" "i < shape1 r"
  shows "\<exists>r'. set_col r i v = Inr r' \<and> wf_arr2 r' \<and> shape0 r' = shape0 r \<and> shape1 r' = shape1 r
           \<and> (\<forall>j<shape0 r. \<forall>l<shape1 r. at2 r' j l = (if l = i then v ! j else at2 r j l))"
proof -
  let ?r' = "r\<lparr>rows := map (\<lambda>j. (rows r ! j)[i := v ! bix (length v) j]) [0..<shape0 r]\<rparr>"
  have ix: "v ! bix (length v) j = v ! j" if "j < shape0 r" for j
    using that assms(2) by (auto simp add: bix_def)
  have "set_col r i v = Inr ?r'"
    using assms(2) by (simp add: set_col_def)
  moreover have "wf_arr2 ?r'"
    using assms(1) by (simp add: wf_arr2_def)
  moreover have "\<forall>j<shape0 r. \<forall>l<shape1 r. at2 ?r' j l = (if l = i then v ! j else at2 r j l)"
    using assms(1,3) ix by (simp add: at2_def wf_arr2_def)
  ultimately show ?thesis by simp
qed

lemma slice_length: "b \<le> length v \<Longrightarrow> length (slice v a b) = b - a"
  by (simp add: slice_def)

lemma slice_nth: "b \<le> length v \<Longrightarrow> j < b - a \<Longrightarrow> slice v a b ! j = v ! (a + j)"
  by (simp add: slice_def)

lemma corr_matrix_loop_ok:
  assumes "wf_arr2 r" "shape0 r = n" "shape1 r = n" "length bcf_n = 2 * n - 1"
    "\<forall>i\<in>set cols. i < n" "distinct cols"
  shows "\<exists>r'. corr_matrix_loop n bcf_n cols r = Inr r' \<and> wf_arr2 r' \<and> shape0 r' = n \<and> shape1 r' = n
           \<and> (\<forall>j<n. \<forall>l<n. at2 r' j l = (if l \<in> set cols then bcf_n ! (n - 1 - l + j) else at2 r j l))"
  using assms
proof (induction cols arbitrary: r)
  case Nil
  then show ?case by simp
next
  case (Cons i cols)
  let ?idx = "n - 1 - i"
  let ?v = "slice bcf_n ?idx (?idx + n)"
  from Cons.prems have i: "i < n" by simp
  then have le: "?idx + n \<le> length bcf_n" using Cons.prems(4) by simp
  have lv: "length ?v = n" using slice_length [OF le] by simp
  have nv: "?v ! j = bcf_n ! (n - 1 - i + j)" if "j < n" for j
    using slice_nth [OF le, of j] that by simp
  from set_col_ok [of r ?v i] Cons.prems lv i
  obtain r1 where r1: "set_col r i ?v = Inr r1" "wf_arr2 r1" "shape0 r1 = n" "shape1 r1 = n"
    and at1: "\<forall>j<n. \<forall>l<n. at2 r1 j l = (if l = i then ?v ! j else at2 r j l)"
    by auto
  from Cons.prems have "\<forall>i\<in>set cols. i < n" "distinct cols" "i \<notin> set cols" by simp_all
  with Cons.IH [OF r1(2) r1(3) r1(4) Cons.prems(4)]
  obtain r' where r': "corr_matrix_loop n bcf_n cols r1 = Inr r'" "wf_arr2 r'" "shape0 r' = n" "shape1 r' = n"
    and at': "\<forall>j<n. \<forall>l<n. at2 r' j l = (if l \<in> set cols then bcf_n ! (n - 1 - l + j) else at2 r1 j l)"
    by blast
  have "corr_matrix_loop n bcf_n (i # cols) r = Inr r'"
    using r1(1) r'(1) by (simp add: Let_def)
  moreover have "\<forall>j<n. \<forall>l<n. at2 r' j l = (if l \<in> set (i # cols) then bcf_n ! (n - 1 - l + j) else at2 r j l)"
  proof (intro allI impI)
    fix j l
    assume jl: "j < n" "l < n"
    show "at2 r' j l = (if l \<in> set (i # cols) then bcf_n ! (n - 1 - l + j) else at2 r j l)"
    proof (cases "l \<in> set cols")
      case True
      then show ?thesis using at' jl by simp
    next
      case False
      then have "at2 r' j l = at2 r1 j l" using at' jl by simp
      also have "\<dots> = (if l = i then ?v ! j else at2 r j l)" using at1 jl by simp
      also have "\<dots> = (if l = i then bcf_n ! (n - 1 - i + j) else at2 r j l)"
        using nv [OF jl(1)] by simp
      finally show ?thesis using False by auto
    qed
  qed
  ultimately show ?case using r' by blast
qed

lemma calc_corr_min_t_plus_t_alt:
  "s \<noteq> [] \<Longrightarrow>
     calc_corr_min_t_plus_t s bcf
       = Inr (map cnj (rev (tl (map bcf (map (\<lambda>x. x - s ! 0) s)))) @ map bcf (map (\<lambda>x. x - s ! 0) s))"
  by (cases s) (simp_all add: calc_corr_min_t_plus_t_def)

lemma calc_corr_min_t_plus_t_ok:
  assumes "s \<noteq> []"
  shows "\<exists>v. calc_corr_min_t_plus_t s bcf = Inr v \<and> length v = 2 * length s - 1
    \<and> (\<forall>k<length s. v ! (length s - 1 + k) = bcf (s ! k - s ! 0))
    \<and> (\<forall>k<length s. 0 < k \<longrightarrow> v ! (length s - 1 - k) = cnj (bcf (s ! k - s ! 0)))"
proof -
  obtain s0 rest where s: "s = s0 # rest" using assms by (cases s) auto
  let ?bp = "map bcf (map (\<lambda>x. x - s0) s)"
  let ?v = "map cnj (rev (tl ?bp)) @ ?bp"
  have c: "calc_corr_min_t_plus_t s bcf = Inr ?v"
    by (simp add: calc_corr_min_t_plus_t_def s)
  have l1: "length (map cnj (rev (tl ?bp))) = length s - 1" by simp
  have len: "length ?v = 2 * length s - 1" by (simp add: s)
  have s0: "s ! 0 = s0" by (simp add: s)
  have bpk: "?bp ! k = bcf (s ! k - s ! 0)" if "k < length s" for k
    using that s0 by simp
  have pos: "?v ! (length s - 1 + k) = bcf (s ! k - s ! 0)" if "k < length s" for k
  proof -
    have "?v ! (length s - 1 + k) = ?bp ! k"
      using l1 by (metis nth_append_length_plus)
    then show ?thesis using bpk [OF that] by simp
  qed
  have neg: "?v ! (length s - 1 - k) = cnj (bcf (s ! k - s ! 0))" if "k < length s" "0 < k" for k
  proof -
    have lt: "length s - 1 - k < length (tl ?bp)" using that by simp
    have "?v ! (length s - 1 - k) = map cnj (rev (tl ?bp)) ! (length s - 1 - k)"
      using lt by (simp add: nth_append)
    also have "\<dots> = cnj (rev (tl ?bp) ! (length s - 1 - k))"
      using lt by simp
    also have "rev (tl ?bp) ! (length s - 1 - k) = tl ?bp ! (length (tl ?bp) - Suc (length s - 1 - k))"
      using lt by (simp add: rev_nth)
    also have "length (tl ?bp) - Suc (length s - 1 - k) = k - 1"
      using that by simp
    also have "tl ?bp ! (k - 1) = ?bp ! k"
      using that by (simp add: s nth_tl)
    also have "?bp ! k = bcf (s ! k - s ! 0)"
      using that(1) by (rule bpk)
    finally show ?thesis .
  qed
  from c len pos neg show ?thesis by blast
qed


lemma calc_corr_matrix_ok:
  assumes "s \<noteq> []"
  shows "\<exists>v r. calc_corr_min_t_plus_t s bcf = Inr v \<and> calc_corr_matrix s bcf = Inr r
    \<and> wf_arr2 r \<and> shape0 r = length s \<and> shape1 r = length s
    \<and> (\<forall>j<length s. \<forall>l<length s. at2 r j l = v ! (length s - 1 - l + j))"
proof -
  let ?n = "length s"
  from calc_corr_min_t_plus_t_ok [OF assms, of bcf]
  obtain v where v: "calc_corr_min_t_plus_t s bcf = Inr v" "length v = 2 * ?n - 1" by blast
  from corr_matrix_loop_ok [of "arr2_of ?n ?n (\<lambda>i j. 0)" ?n v "[0..<?n]"] v(2)
  obtain r where r: "corr_matrix_loop ?n v [0..<?n] (arr2_of ?n ?n (\<lambda>i j. 0)) = Inr r"
      "wf_arr2 r" "shape0 r = ?n" "shape1 r = ?n"
    and at: "\<forall>j<?n. \<forall>l<?n. at2 r j l
               = (if l \<in> set [0..<?n] then v ! (?n - 1 - l + j) else at2 (arr2_of ?n ?n (\<lambda>i j. 0)) j l)"
    by (auto simp add: wf_arr2_of arr2_of_simps)
  have "calc_corr_matrix s bcf = Inr r"
    using v(1) r(1) by (simp add: calc_corr_matrix_def)
  moreover have "\<forall>j<?n. \<forall>l<?n. at2 r j l = v ! (?n - 1 - l + j)"
    using at by simp
  ultimately show ?thesis using v r by blast
qed

text \<open>
  Claim C6.  For a grid of \<open>n \<ge> 1\<close> equidistant, increasing times and a correlation
  function with \<open>R(-\<tau>) = R(\<tau>)*\<close>: the lags \<open>t\<^sub>k - t\<^sub>0\<close> at which \<open>R\<close> is
  called are not negative, and the builder's results depend on \<open>R\<close> at these \<open>n\<close>
  lags only; the doubled vector has \<open>2n - 1\<close> entries, \<open>R\<close> at the lag
  \<open>t\<^sub>k - t\<^sub>0\<close> in position \<open>n - 1 + k\<close> and its conjugate, which is \<open>R\<close> at
  the negative lag, in position \<open>n - 1 - k\<close>; the matrix is \<open>n \<times> n\<close> with entry
  \<open>(i, j)\<close> equal to \<open>R(t\<^sub>i - t\<^sub>j)\<close>.  Times and values are exact reals and complex
  numbers.
\<close>

theorem C6_correlation_matrix_entries:
  assumes grid: "s \<noteq> []" "\<forall>i<length s. s ! i = s ! 0 + real i * h" "0 \<le> h"
    and herm: "\<forall>tau. R (- tau) = cnj (R tau)"
  shows "\<exists>v r. calc_corr_min_t_plus_t s R = Inr v \<and> calc_corr_matrix s R = Inr r
    \<and> length v = 2 * length s - 1
    \<and> (\<forall>k<length s. 0 \<le> s ! k - s ! 0 \<and> v ! (length s - 1 + k) = R (s ! k - s ! 0)
                      \<and> v ! (length s - 1 - k) = cnj (R (s ! k - s ! 0))
                      \<and> v ! (length s - 1 - k) = R (- (s ! k - s ! 0)))
    \<and> shape0 r = length s \<and> shape1 r = length s
    \<and> (\<forall>i<length s. \<forall>j<length s. at2 r i j = R (s ! i - s ! j))
    \<and> (\<forall>R'. (\<forall>k<length s. R' (s ! k - s ! 0) = R (s ! k - s ! 0)) \<longrightarrow>
              calc_corr_min_t_plus_t s R' = Inr v \<and> calc_corr_matrix s R' = Inr r)"
proof -
  let ?n = "length s"
  from calc_corr_min_t_plus_t_ok [OF grid(1), of R]
  obtain v where v: "calc_corr_min_t_plus_t s R = Inr v" "length v = 2 * ?n - 1"
    and pos: "\<forall>k<?n. v ! (?n - 1 + k) = R (s ! k - s ! 0)"
    and neg: "\<forall>k<?n. 0 < k \<longrightarrow> v ! (?n - 1 - k) = cnj (R (s ! k - s ! 0))"
    by blast
  from calc_corr_matrix_ok [OF grid(1), of R] v(1)
  obtain r where r: "calc_corr_matrix s R = Inr r" "shape0 r = ?n" "shape1 r = ?n"
    and at: "\<forall>j<?n. \<forall>l<?n. at2 r j l = v ! (?n - 1 - l + j)"
    by auto
  have lag: "s ! k - s ! 0 = real k * h" if "k < ?n" for k
    using grid(2) that by simp
  have neg': "v ! (?n - 1 - k) = R (- (s ! k - s ! 0))" if "k < ?n" for k
  proof (cases "k = 0")
    case True
    with pos that have "v ! (?n - 1 - k) = R (s ! 0 - s ! 0)"
      by (metis add.right_neutral diff_zero)
    then show ?thesis using True by simp
  next
    case False
    with neg that have "v ! (?n - 1 - k) = cnj (R (s ! k - s ! 0))" by simp
    moreover have "R (- (s ! k - s ! 0)) = cnj (R (s ! k - s ! 0))"
      using herm by blast
    ultimately show ?thesis by simp
  qed
  have entry: "at2 r i j = R (s ! i - s ! j)" if ij: "i < ?n" "j < ?n" for i j
  proof (cases "j \<le> i")
    case True
    have "at2 r i j = v ! (?n - 1 - j + i)" using at ij by simp
    also have "?n - 1 - j + i = ?n - 1 + (i - j)" using True ij by simp
    also have "v ! (?n - 1 + (i - j)) = R (s ! (i - j) - s ! 0)" using pos ij by simp
    also have "s ! (i - j) - s ! 0 = s ! i - s ! j"
      using lag [of "i - j"] grid(2) ij True by (simp add: of_nat_diff algebra_simps)
    finally show ?thesis .
  next
    case False
    have "at2 r i j = v ! (?n - 1 - j + i)" using at ij by simp
    also have "?n - 1 - j + i = ?n - 1 - (j - i)" using False ij by simp
    also have "v ! (?n - 1 - (j - i)) = R (- (s ! (j - i) - s ! 0))" using neg' [of "j - i"] ij by simp
    also have "- (s ! (j - i) - s ! 0) = s ! i - s ! j"
      using lag [of "j - i"] grid(2) ij False by (simp add: of_nat_diff algebra_simps)
    finally show ?thesis .
  qed
  have nonneg: "0 \<le> s ! k - s ! 0" if "k < ?n" for k
    using lag [OF that] grid(3) by simp
  have only: "calc_corr_min_t_plus_t s R' = Inr v \<and> calc_corr_matrix s R' = Inr r"
    if agree: "\<forall>k<?n. R' (s ! k - s ! 0) = R (s ! k - s ! 0)" for R'
  proof -
    have "map R' (map (\<lambda>x. x - s ! 0) s) = map R (map (\<lambda>x. x - s ! 0) s)"
      using agree by (simp add: list_eq_iff_nth_eq)
    then have "calc_corr_min_t_plus_t s R' = calc_corr_min_t_plus_t s R"
      by (simp only: calc_corr_min_t_plus_t_alt [OF grid(1)])
    then show ?thesis using v(1) r(1) by (simp add: calc_corr_matrix_def)
  qed
  have neg'': "v ! (?n - 1 - k) = cnj (R (s ! k - s ! 0))" if "k < ?n" for k
  proof -
    have "R (- (s ! k - s ! 0)) = cnj (R (s ! k - s ! 0))" using herm by blast
    then show ?thesis using neg' [OF that] by simp
  qed
  from v r pos neg' neg'' entry nonneg only show ?thesis by blast
qed


theorem C6_witness:
  "\<exists>v r. calc_corr_min_t_plus_t [0, 1, 2] (\<lambda>x. Complex (x * x) x) = Inr v
      \<and> calc_corr_matrix [0, 1, 2] (\<lambda>x. Complex (x * x) x) = Inr r
      \<and> length v = 5 \<and> shape0 r = 3 \<and> shape1 r = 3
      \<and> v ! 0 = Complex 4 (- 2) \<and> v ! 4 = Complex 4 2
      \<and> at2 r 0 2 = Complex 4 (- 2) \<and> at2 r 2 0 = Complex 4 2 \<and> at2 r 1 1 = 0"
proof -
  let ?s = "[0, 1, 2::real]"
  let ?R = "\<lambda>x::real. Complex (x * x) x"
  have g1: "?s \<noteq> []" by simp
  have g2: "\<forall>i<length ?s. ?s ! i = ?s ! 0 + real i * 1"
    by (auto simp add: less_Suc_eq)
  have g3: "(0::real) \<le> 1" by simp
  have h: "\<forall>tau. ?R (- tau) = cnj (?R tau)"
    by (simp add: complex_eq_iff)
  from C6_correlation_matrix_entries [OF g1 g2 g3 h]
  obtain v r where c: "calc_corr_min_t_plus_t ?s ?R = Inr v" "calc_corr_matrix ?s ?R = Inr r"
      "length v = 2 * length ?s - 1" "shape0 r = length ?s" "shape1 r = length ?s"
    and vs: "\<forall>k<length ?s. 0 \<le> ?s ! k - ?s ! 0 \<and> v ! (length ?s - 1 + k) = ?R (?s ! k - ?s ! 0)
                      \<and> v ! (length ?s - 1 - k) = cnj (?R (?s ! k - ?s ! 0))
                      \<and> v ! (length ?s - 1 - k) = ?R (- (?s ! k - ?s ! 0))"
    and at: "\<forall>i<length ?s. \<forall>j<length ?s. at2 r i j = ?R (?s ! i - ?s ! j)"
    by blast
  have four: "length ?s - 1 + 2 = 4" "length ?s - 1 - 2 = 0" "(2::nat) < length ?s"
      "?s ! 2 - ?s ! 0 = 2"
    by simp_all
  from vs [rule_format, OF four(3)] have v04: "v ! 0 = Complex 4 (- 2)" "v ! 4 = Complex 4 2"
    unfolding four by (simp_all add: complex_eq_iff)
  from at [rule_format, of 0 2] have a02: "at2 r 0 2 = Complex 4 (- 2)" by simp
  from at [rule_format, of 2 0] have a20: "at2 r 2 0 = Complex 4 2" by simp
  from at [rule_format, of 1 1] have a11: "at2 r 1 1 = 0" by (simp add: zero_complex.code)
  from c v04 a02 a20 a11 show ?thesis by simp
qed

section \<open>The Fourier engine: samples, phase correction, realization\<close>

lemma linspace_length: "linspace start stop num = Inr ts \<Longrightarrow> length ts = nat num \<and> 0 \<le> num"
  by (auto simp add: linspace_def split: if_splits)

lemma broadcast1_same:
  "length xs = length ys \<Longrightarrow>
     broadcast1 f xs ys = Inr (map (\<lambda>i. f (xs ! i) (ys ! i)) [0..<length xs])"
  by (auto simp add: broadcast1_def bdim_def bix_def)

lemma broadcast1_mismatch:
  "length xs \<noteq> length ys \<Longrightarrow> length xs \<noteq> 1 \<Longrightarrow> length ys \<noteq> 1 \<Longrightarrow>
     broadcast1 f xs ys = Inl ValueError"
  by (simp add: broadcast1_def bdim_def)

lemma fft_init_resolved_fields:
  assumes "StocProc_FFT_tol_init_resolved E S tmax (a, b, N, dx, dt) sd kk g = Inr (self, g')"
  shows "\<bar>2 * pi - of_int N * dx * dt\<bar> < 1 / 10 ^ 12
    \<and> linspace 0 ((of_int (\<lceil>tmax / dt\<rceil> + 1) - 1) * dt) (\<lceil>tmax / dt\<rceil> + 1) = Inr (t_axis self)
    \<and> num_grid_points self = nat (\<lceil>tmax / dt\<rceil> + 1)
    \<and> t_max self = (of_int (\<lceil>tmax / dt\<rceil> + 1) - 1) * dt
    \<and> priv_z self = None \<and> priv_interpolator self = None
    \<and> priv_seed self = sd \<and> priv_k self = kk
    \<and> priv_one_over_sqrt_2 self = 1 / sqrt 2
    \<and> yl self = map (\<lambda>n. sqrt (S (dx * real n + a + dx / 2) * dx / pi)) [0..<nat N]
    \<and> omega_min_correction self
        = map (\<lambda>tj. exp (- \<i> * complex_of_real (a + dx / 2) * complex_of_real tj)) (t_axis self)"
  using assms
  by (auto simp add: StocProc_FFT_tol_init_resolved_def absStocProc_init_def Let_def
      absStocProc.defs StocProc_FFT_tol.defs comp_def
      split: if_splits sum.splits)


lemma new_process_explicit:
  "new_process E calc_z num_y_of self (Some v) sd g =
     (let s2 = self\<lparr>priv_interpolator := None, priv_proc_cnt := priv_proc_cnt self + 1\<rparr>;
          g1 = (case sd of None \<Rightarrow> g | Some n \<Rightarrow> np_random_seed E n g)
      in case calc_z s2 v of
           Inl e \<Rightarrow> (Some e, s2, g1)
         | Inr z \<Rightarrow> (None, s2\<lparr>priv_z := Some z\<rparr>, g1))"
  by (simp add: new_process_def Let_def split: sum.split)

lemma fft_calc_z_frame:
  "StocProc_FFT_tol_calc_z (self\<lparr>priv_z := z, priv_interpolator := i, priv_proc_cnt := c\<rparr>) y
     = StocProc_FFT_tol_calc_z self y"
  by (simp add: StocProc_FFT_tol_calc_z_def split: sum.split)

lemma fft_calc_z_ok:
  assumes "length y = length (yl self)" "y \<noteq> []"
    "num_grid_points self \<le> length y"
    "length (omega_min_correction self) = num_grid_points self"
  shows "StocProc_FFT_tol_calc_z self y
     = Inr (map (\<lambda>j. dft (map (\<lambda>i. complex_of_real (yl self ! i) * y ! i) [0..<length y]) ! j
                       * omega_min_correction self ! j) [0..<num_grid_points self])"
proof -
  let ?v = "map (\<lambda>i. complex_of_real (yl self ! i) * y ! i) [0..<length y]"
  have b1: "broadcast1 (*) (map complex_of_real (yl self)) y = Inr ?v"
    using assms(1) broadcast1_same [of "map complex_of_real (yl self)" y "(*)"] by simp
  have ne: "?v \<noteq> []" using assms(2) by simp
  have ld: "length (dft ?v) = length y" by (simp add: dft_def)
  have ls: "length (slice (dft ?v) 0 (num_grid_points self)) = num_grid_points self"
    using assms(3) ld by (simp add: slice_def)
  have sn: "slice (dft ?v) 0 (num_grid_points self) ! j = dft ?v ! j" if "j < num_grid_points self" for j
    using that by (simp add: slice_def)
  have b2: "broadcast1 (*) (slice (dft ?v) 0 (num_grid_points self)) (omega_min_correction self)
      = Inr (map (\<lambda>j. dft ?v ! j * omega_min_correction self ! j) [0..<num_grid_points self])"
    using broadcast1_same [of "slice (dft ?v) 0 (num_grid_points self)" "omega_min_correction self" "(*)"]
      ls assms(4) sn by simp
  show ?thesis
    using b1 ne b2 by (simp add: StocProc_FFT_tol_calc_z_def np_fft_def)
qed

text \<open>
  Claim C7.  For an engine constructed from the resolved parameters
  \<open>(a, b, N, dx, dt)\<close>, a spectral density without negative values and \<open>0 < dx\<close>:
  \<open>yl\<close> has the \<open>N\<close> entries \<open>sqrt(S(a + dx/2 + k dx) dx / \<pi>)\<close>, the phase
  correction has the entry \<open>exp(-i (a + dx/2) t\<^sub>j)\<close> for every time of the grid, and for
  every input of length \<open>N\<close>, when the transform has at least \<open>num_grid_points\<close>
  outputs, \<open>new_process\<close> succeeds and stores the first \<open>num_grid_points\<close> outputs
  of the forward discrete Fourier transform of \<open>yl \<cdot> Y\<close>, each multiplied by the phase
  correction of its time.
\<close>

theorem C7_fft_samples_phase_and_realization:
  assumes init: "StocProc_FFT_tol_init_resolved E S tmax (a, b, N, dx, dt) sd kk g = Inr (self, g')"
    and density: "\<forall>x. 0 \<le> S x" "0 < dx"
  shows "StocProc_FFT_tol_get_num_y self = nat N
    \<and> length (yl self) = nat N
    \<and> (\<forall>k<nat N. yl self ! k = sqrt (S (a + dx / 2 + real k * dx) * dx / pi))
    \<and> length (t_axis self) = num_grid_points self
    \<and> length (omega_min_correction self) = num_grid_points self
    \<and> (\<forall>j<num_grid_points self.
          omega_min_correction self ! j
            = exp (- \<i> * complex_of_real (a + dx / 2) * complex_of_real (t_axis self ! j)))
    \<and> (\<forall>Y sd2 g2. length Y = nat N \<and> 0 < N \<and> num_grid_points self \<le> nat N \<longrightarrow>
          (\<exists>self2 g3 Z.
             StocProc_FFT_tol_new_process E self (Some Y) sd2 g2 = (None, self2, g3)
             \<and> priv_z self2 = Some Z \<and> length Z = num_grid_points self
             \<and> (\<forall>j<num_grid_points self.
                   Z ! j = dft (map (\<lambda>i. complex_of_real (yl self ! i) * Y ! i) [0..<nat N]) ! j
                           * omega_min_correction self ! j)))"
proof -
  note f = fft_init_resolved_fields [OF init]
  from f have ts: "linspace 0 ((of_int (\<lceil>tmax / dt\<rceil> + 1) - 1) * dt) (\<lceil>tmax / dt\<rceil> + 1) = Inr (t_axis self)"
    and ngp: "num_grid_points self = nat (\<lceil>tmax / dt\<rceil> + 1)"
    and yls: "yl self = map (\<lambda>n. sqrt (S (dx * real n + a + dx / 2) * dx / pi)) [0..<nat N]"
    and omc: "omega_min_correction self
        = map (\<lambda>tj. exp (- \<i> * complex_of_real (a + dx / 2) * complex_of_real tj)) (t_axis self)"
    by simp_all
  have lt: "length (t_axis self) = num_grid_points self"
    using linspace_length [OF ts] ngp by simp
  have ly: "length (yl self) = nat N" by (simp add: yls)
  have lo: "length (omega_min_correction self) = num_grid_points self"
    using lt by (simp add: omc)
  have yk: "yl self ! k = sqrt (S (a + dx / 2 + real k * dx) * dx / pi)" if "k < nat N" for k
    using that by (simp add: yls algebra_simps)
  have oj: "omega_min_correction self ! j
            = exp (- \<i> * complex_of_real (a + dx / 2) * complex_of_real (t_axis self ! j))"
    if "j < num_grid_points self" for j
    using that lt by (simp add: omc)
  have np: "\<exists>self2 g3 Z.
             StocProc_FFT_tol_new_process E self (Some Y) sd2 g2 = (None, self2, g3)
             \<and> priv_z self2 = Some Z \<and> length Z = num_grid_points self
             \<and> (\<forall>j<num_grid_points self.
                   Z ! j = dft (map (\<lambda>i. complex_of_real (yl self ! i) * Y ! i) [0..<nat N]) ! j
                           * omega_min_correction self ! j)"
    if Y: "length Y = nat N" "0 < N" "num_grid_points self \<le> nat N" for Y sd2 g2
  proof -
    let ?s2 = "self\<lparr>priv_interpolator := None, priv_proc_cnt := priv_proc_cnt self + 1\<rparr>"
    let ?Z = "map (\<lambda>j. dft (map (\<lambda>i. complex_of_real (yl self ! i) * Y ! i) [0..<length Y]) ! j
                       * omega_min_correction self ! j) [0..<num_grid_points self]"
    have "Y \<noteq> []" using Y(1,2) by auto
    then have cz: "StocProc_FFT_tol_calc_z ?s2 Y = Inr ?Z"
      using fft_calc_z_ok [of Y ?s2] Y ly lo by simp
    have "StocProc_FFT_tol_new_process E self (Some Y) sd2 g2
        = (None, ?s2\<lparr>priv_z := Some ?Z\<rparr>, (case sd2 of None \<Rightarrow> g2 | Some n \<Rightarrow> np_random_seed E n g2))"
      unfolding StocProc_FFT_tol_new_process_def new_process_explicit Let_def cz by simp
    moreover have "priv_z (?s2\<lparr>priv_z := Some ?Z\<rparr>) = Some ?Z" by simp
    moreover have "length ?Z = num_grid_points self" by simp
    moreover have "\<forall>j<num_grid_points self.
                   ?Z ! j = dft (map (\<lambda>i. complex_of_real (yl self ! i) * Y ! i) [0..<nat N]) ! j
                           * omega_min_correction self ! j"
      using Y(1) by simp
    ultimately show ?thesis by blast
  qed
  show ?thesis
    using ly yk lt lo oj np by (simp add: StocProc_FFT_tol_get_num_y_def)
qed


theorem C7_witness:
  "\<exists>self g' self2 g3 Z.
     StocProc_FFT_tol_init_resolved demo_ext (\<lambda>x. 1) 1 (0, 2 * pi, 2, pi, 1) None 1 (0::nat) = Inr (self, g')
     \<and> StocProc_FFT_tol_get_num_y self = 2
     \<and> yl self ! 1 = sqrt (1 * pi / pi)
     \<and> num_grid_points self = 2
     \<and> omega_min_correction self ! 1 = exp (- \<i> * complex_of_real (0 + pi / 2) * complex_of_real (t_axis self ! 1))
     \<and> StocProc_FFT_tol_new_process demo_ext self (Some [1, \<i>]) None 0 = (None, self2, g3)
     \<and> priv_z self2 = Some Z \<and> length Z = 2
     \<and> Z ! 1 = dft (map (\<lambda>i. complex_of_real (yl self ! i) * [1, \<i>] ! i) [0..<2]) ! 1
                 * omega_min_correction self ! 1"
proof -
  have "\<exists>self g'. StocProc_FFT_tol_init_resolved demo_ext (\<lambda>x. 1) 1 (0, 2 * pi, 2, pi, 1) None 1 (0::nat)
           = Inr (self, g')"
    by (simp add: StocProc_FFT_tol_init_resolved_def absStocProc_init_def linspace_def Let_def)
  then obtain self g' where
    init: "StocProc_FFT_tol_init_resolved demo_ext (\<lambda>x. 1) 1 (0, 2 * pi, 2, pi, 1) None 1 (0::nat)
             = Inr (self, g')"
    by blast
  have d: "\<forall>x::real. (0::real) \<le> 1" "0 < pi" by simp_all
  have n: "num_grid_points self = 2"
    using fft_init_resolved_fields [OF init] by simp
  note c = C7_fft_samples_phase_and_realization [OF init d]
  from c have a1: "StocProc_FFT_tol_get_num_y self = 2" by simp
  from c have a2: "yl self ! 1 = sqrt (1 * pi / pi)" by simp
  from c n have a3: "omega_min_correction self ! 1
      = exp (- \<i> * complex_of_real (0 + pi / 2) * complex_of_real (t_axis self ! 1))"
    by simp
  from c have "\<forall>Y sd2 g2. length Y = nat 2 \<and> (0::int) < 2 \<and> num_grid_points self \<le> nat 2 \<longrightarrow>
          (\<exists>self2 g3 Z.
             StocProc_FFT_tol_new_process demo_ext self (Some Y) sd2 g2 = (None, self2, g3)
             \<and> priv_z self2 = Some Z \<and> length Z = num_grid_points self
             \<and> (\<forall>j<num_grid_points self.
                   Z ! j = dft (map (\<lambda>i. complex_of_real (yl self ! i) * Y ! i) [0..<nat 2]) ! j
                           * omega_min_correction self ! j))"
    by blast
  from this [rule_format, of "[1, \<i>]" None 0] n
  obtain self2 g3 Z where
    np: "StocProc_FFT_tol_new_process demo_ext self (Some [1, \<i>]) None 0 = (None, self2, g3)"
      "priv_z self2 = Some Z" "length Z = 2"
    and zj: "\<forall>j<2. Z ! j = dft (map (\<lambda>i. complex_of_real (yl self ! i) * [1, \<i>] ! i) [0..<nat 2]) ! j
                           * omega_min_correction self ! j"
    by auto
  from zj have a4: "Z ! 1 = dft (map (\<lambda>i. complex_of_real (yl self ! i) * [1, \<i>] ! i) [0..<2]) ! 1
                 * omega_min_correction self ! 1"
    by simp
  from init a1 a2 n a3 np a4 show ?thesis by blast
qed

section \<open>The Karhunen-Loeve engine: construction and realization\<close>

lemma absStocProc_init_inv:
  assumes "absStocProc_init E tmax ngp sd kk g = Inr (base, g')"
  shows "\<exists>ts. linspace 0 tmax ngp = Inr ts
    \<and> base = \<lparr>t_max = tmax, num_grid_points = nat ngp, t_axis = ts, priv_z = None,
                priv_interpolator = None, priv_k = kk, priv_seed = sd,
                priv_one_over_sqrt_2 = 1 / sqrt 2, priv_proc_cnt = 0\<rparr>
    \<and> g' = (case sd of None \<Rightarrow> g | Some n \<Rightarrow> np_random_seed E n g)"
  using assms by (auto simp add: absStocProc_init_def split: sum.splits)

lemma absStocProc_init_other_state:
  assumes "absStocProc_init E tmax ngp sd kk g = Inr (base, g')"
  shows "absStocProc_init E2 tmax ngp sd kk g2
           = Inr (base, (case sd of None \<Rightarrow> g2 | Some n \<Rightarrow> np_random_seed E2 n g2))"
  using absStocProc_init_inv [OF assms] by (auto simp add: absStocProc_init_def)

lemma kle_setstate_inv:
  assumes "StocProc_KLE_setstate E (A, ak, sd, kk, tmax, ngf) g = Inr (self, g')"
  shows "\<exists>base. absStocProc_init E tmax (ngf * (int (shape0 A) - 1) + 1) sd kk g = Inr (base, g')
    \<and> self = absStocProc.extend base
               (StocProc_KLE.fields A ak ngf (ngf \<noteq> 1) (shape1 A) None None None None None)"
  using assms by (auto simp add: StocProc_KLE_setstate_def Let_def split: sum.splits)

lemma kle_setstate_fields:
  assumes "StocProc_KLE_setstate E (A, ak, sd, kk, tmax, ngf) g = Inr (self, g')"
  shows "priv_A self = A \<and> alpha_k self = ak \<and> ng_fac self = ngf \<and> kle_interp self = (ngf \<noteq> 1)
    \<and> num_y self = shape1 A \<and> priv_s self = None \<and> priv_w self = None \<and> priv_eig_val self = None
    \<and> priv_eig_vec self = None \<and> priv_sqrt_eig_val self = None
    \<and> t_max self = tmax \<and> priv_seed self = sd \<and> priv_k self = kk \<and> priv_z self = None
    \<and> priv_interpolator self = None \<and> priv_one_over_sqrt_2 self = 1 / sqrt 2"
proof -
  from kle_setstate_inv [OF assms] obtain base where
    b: "absStocProc_init E tmax (ngf * (int (shape0 A) - 1) + 1) sd kk g = Inr (base, g')"
    and s: "self = absStocProc.extend base
               (StocProc_KLE.fields A ak ngf (ngf \<noteq> 1) (shape1 A) None None None None None)"
    by blast
  from absStocProc_init_inv [OF b] s show ?thesis
    by (auto simp add: absStocProc.defs StocProc_KLE.defs)
qed


lemma bindE:
  assumes "(case x of Inl e \<Rightarrow> Inl e | Inr v \<Rightarrow> f v) = Inr r"
  obtains v where "x = Inr v" "f v = Inr r"
  using assms by (cases x) auto

lemma bind2E:
  assumes "(case x of Inl e \<Rightarrow> Inl e | Inr (a, b) \<Rightarrow> f a b) = Inr r"
  obtains a b where "x = Inr (a, b)" "f a b = Inr r"
  using assms by (cases x) auto

lemma kle_init_inv:
  assumes "StocProc_KLE_init E r_tau tmax ng ngf sd sig_min kk align g = Inr (self, g')"
  shows "\<exists>t w r ev U0 wU A sf ak s0.
      get_mid_point_weights_times E tmax ng = Inr (t, w)
    \<and> calc_corr_matrix t r_tau = Inr r
    \<and> solve_hom_fredholm E r w (sig_min ^ 2) = Inr (ev, U0)
    \<and> broadcast2 (*) (reshape_col (map complex_of_real w)) (if align then align_columns U0 else U0) = Inr wU
    \<and> broadcast2 (/) wU (reshape_row (map complex_of_real (map sqrt ev))) = Inr A
    \<and> linspace 0 tmax (ngf * (ng - 1) + 1) = Inr sf
    \<and> calc_corr_min_t_plus_t sf r_tau = Inr ak
    \<and> StocProc_KLE_setstate E (A, ak, sd, kk, tmax, ngf) g = Inr (s0, g')
    \<and> self = s0\<lparr>priv_s := Some t, priv_w := Some w, priv_eig_val := Some ev,
                  priv_eig_vec := Some (if align then align_columns U0 else U0)\<rparr>"
  using assms unfolding StocProc_KLE_init_def Let_def
  apply (elim bind2E bindE)
  apply (simp only: sum.inject prod.inject)
  apply (elim conjE)
  apply hypsubst
  apply (intro exI conjI; (assumption | rule refl))
  done


lemma broadcast2_shape:
  assumes "broadcast2 f X Y = Inr Z"
  shows "bdim (shape0 X) (shape0 Y) = Some (shape0 Z) \<and> bdim (shape1 X) (shape1 Y) = Some (shape1 Z)"
  using assms by (auto simp add: broadcast2_def arr2_of_def split: option.splits)

lemma align_columns_shape:
  "shape0 (align_columns U) = shape0 U" "shape1 (align_columns U) = shape1 U"
  by (simp_all add: align_columns_def arr2_of_def)

lemma kle_init_fields:
  assumes "StocProc_KLE_init E r_tau tmax ng ngf sd sig_min kk align g = Inr (self, g')"
  shows "ng_fac self = ngf \<and> kle_interp self = (ngf \<noteq> 1) \<and> num_y self = shape1 (priv_A self)
    \<and> priv_sqrt_eig_val self = None \<and> priv_z self = None \<and> priv_interpolator self = None
    \<and> priv_one_over_sqrt_2 self = 1 / sqrt 2
    \<and> (\<exists>ev U. priv_eig_val self = Some ev \<and> priv_eig_vec self = Some U
           \<and> (shape1 U = length ev \<longrightarrow> shape1 (priv_A self) = length ev))"
proof -
  from kle_init_inv [OF assms] obtain t w r ev U0 wU A sf ak s0 where
      wu: "broadcast2 (*) (reshape_col (map complex_of_real w)) (if align then align_columns U0 else U0) = Inr wU"
    and a: "broadcast2 (/) wU (reshape_row (map complex_of_real (map sqrt ev))) = Inr A"
    and st: "StocProc_KLE_setstate E (A, ak, sd, kk, tmax, ngf) g = Inr (s0, g')"
    and self: "self = s0\<lparr>priv_s := Some t, priv_w := Some w, priv_eig_val := Some ev,
                  priv_eig_vec := Some (if align then align_columns U0 else U0)\<rparr>"
    by blast
  let ?U = "if align then align_columns U0 else U0"
  note f = kle_setstate_fields [OF st]
  have "shape1 A = length ev" if "shape1 ?U = length ev"
  proof -
    from broadcast2_shape [OF wu] have "bdim 1 (shape1 ?U) = Some (shape1 wU)"
      by (simp add: reshape_col_def arr2_of_def)
    then have "shape1 wU = length ev" using that by (simp add: bdim_def split: if_splits)
    moreover from broadcast2_shape [OF a] have "bdim (shape1 wU) (length ev) = Some (shape1 A)"
      by (simp add: reshape_row_def arr2_of_def)
    ultimately show ?thesis by (simp add: bdim_def)
  qed
  then show ?thesis using f self by simp
qed

lemma kle_calc_z_frame:
  "StocProc_KLE_calc_z E (self\<lparr>priv_z := z, priv_interpolator := i, priv_proc_cnt := c\<rparr>) y
     = StocProc_KLE_calc_z E self y"
  by (simp add: StocProc_KLE_calc_z_def split: sum.split option.split)

lemma new_process_calc_fails:
  assumes "\<forall>v. \<exists>e. calc_z (self\<lparr>priv_interpolator := None, priv_proc_cnt := priv_proc_cnt self + 1\<rparr>) v = Inl e"
  shows "fst (new_process E calc_z num_y_of self y sd g) \<noteq> None
    \<and> priv_z (fst (snd (new_process E calc_z num_y_of self y sd g))) = priv_z self"
proof -
  let ?s2 = "self\<lparr>priv_interpolator := None, priv_proc_cnt := priv_proc_cnt self + 1\<rparr>"
  have "\<And>v. \<not> (\<exists>z. calc_z ?s2 v = Inr z)" using assms by (metis sum.distinct(1))
  then show ?thesis
    by (auto simp add: new_process_def Let_def split: sum.split)
qed

lemma kle_calc_z_no_sqrt:
  "\<not> kle_interp self \<Longrightarrow> priv_sqrt_eig_val self = None \<Longrightarrow> StocProc_KLE_calc_z E self y = Inl AttributeError"
  by (simp add: StocProc_KLE_calc_z_def)

lemma kle_broken_perform:
  assumes "\<not> kle_interp self" "priv_sqrt_eig_val self = None" "priv_z self = None"
  shows "\<not> kle_interp (fst (perform E (StocProc_KLE_calc_z E) StocProc_KLE_get_num_y (self, g) m))
    \<and> priv_sqrt_eig_val (fst (perform E (StocProc_KLE_calc_z E) StocProc_KLE_get_num_y (self, g) m)) = None
    \<and> priv_z (fst (perform E (StocProc_KLE_calc_z E) StocProc_KLE_get_num_y (self, g) m)) = None"
proof -
  obtain z i c where fr: "fst (perform E (StocProc_KLE_calc_z E) StocProc_KLE_get_num_y (self, g) m)
      = self\<lparr>priv_z := z, priv_interpolator := i, priv_proc_cnt := c\<rparr>"
    using perform_frame [of E "StocProc_KLE_calc_z E" StocProc_KLE_get_num_y self g m] by blast
  have "priv_z (fst (perform E (StocProc_KLE_calc_z E) StocProc_KLE_get_num_y (self, g) m)) = None"
  proof (cases m)
    case (NewProcess y sd)
    have "\<forall>v. \<exists>e. StocProc_KLE_calc_z E
            (self\<lparr>priv_interpolator := None, priv_proc_cnt := priv_proc_cnt self + 1\<rparr>) v = Inl e"
      using assms by (simp add: kle_calc_z_no_sqrt)
    with new_process_calc_fails [of "StocProc_KLE_calc_z E" self E StocProc_KLE_get_num_y y sd g]
    show ?thesis
      using NewProcess assms(3) by simp
  next
    case (Call t)
    then show ?thesis using assms(3) by (simp add: call_priv_z)
  qed (simp_all add: assms)
  then show ?thesis using fr assms by simp
qed

lemma kle_broken_perform_all:
  assumes "\<not> kle_interp self" "priv_sqrt_eig_val self = None" "priv_z self = None"
  shows "\<not> kle_interp (fst (perform_all E (StocProc_KLE_calc_z E) StocProc_KLE_get_num_y (self, g) ms))
    \<and> priv_sqrt_eig_val (fst (perform_all E (StocProc_KLE_calc_z E) StocProc_KLE_get_num_y (self, g) ms)) = None
    \<and> priv_z (fst (perform_all E (StocProc_KLE_calc_z E) StocProc_KLE_get_num_y (self, g) ms)) = None"
proof (induction ms rule: rev_induct)
  case Nil
  then show ?case using assms by (simp add: perform_all_def)
next
  case (snoc m ms)
  obtain s1 g1 where p: "perform_all E (StocProc_KLE_calc_z E) StocProc_KLE_get_num_y (self, g) ms = (s1, g1)"
    by (cases "perform_all E (StocProc_KLE_calc_z E) StocProc_KLE_get_num_y (self, g) ms")
  with snoc have "\<not> kle_interp s1" "priv_sqrt_eig_val s1 = None" "priv_z s1 = None" by simp_all
  from kle_broken_perform [OF this, of E g1 m] show ?case
    using p by (simp add: perform_all_def)
qed

text \<open>
  Claim C4.  What the code does for \<open>ng_fac = 1\<close>: the constructor keeps the square
  roots of the eigenvalues in a local variable and never assigns the attribute
  \<open>_sqrt_eig_val\<close> that \<open>_calc_z\<close> reads, so after any sequence of calls the
  engine has no realization and \<open>new_process(Y)\<close> raises \<open>AttributeError\<close> for
  every \<open>Y\<close>, instead of storing the weighted sum of the eigenvectors.
\<close>

theorem C4_ng_fac_one_new_process_raises:
  assumes "StocProc_KLE_init E r_tau tmax ng 1 sd sig_min kk align g = Inr (self, g')"
  shows "\<not> kle_interp self \<and> priv_sqrt_eig_val self = None
    \<and> (\<forall>ms y sd2.
          priv_z (fst (perform_all E (StocProc_KLE_calc_z E) StocProc_KLE_get_num_y (self, g') ms)) = None
          \<and> fst (StocProc_KLE_new_process E
                   (fst (perform_all E (StocProc_KLE_calc_z E) StocProc_KLE_get_num_y (self, g') ms))
                   (Some y) sd2
                   (snd (perform_all E (StocProc_KLE_calc_z E) StocProc_KLE_get_num_y (self, g') ms)))
              = Some AttributeError)"
proof -
  from kle_init_fields [OF assms] have b: "\<not> kle_interp self" "priv_sqrt_eig_val self = None" "priv_z self = None"
    by simp_all
  have "priv_z (fst (perform_all E (StocProc_KLE_calc_z E) StocProc_KLE_get_num_y (self, g') ms)) = None
          \<and> fst (StocProc_KLE_new_process E
                   (fst (perform_all E (StocProc_KLE_calc_z E) StocProc_KLE_get_num_y (self, g') ms))
                   (Some y) sd2
                   (snd (perform_all E (StocProc_KLE_calc_z E) StocProc_KLE_get_num_y (self, g') ms)))
              = Some AttributeError" for ms y sd2
  proof -
    let ?s = "fst (perform_all E (StocProc_KLE_calc_z E) StocProc_KLE_get_num_y (self, g') ms)"
    from kle_broken_perform_all [OF b, of E g' ms]
    have s: "\<not> kle_interp ?s" "priv_sqrt_eig_val ?s = None" "priv_z ?s = None" by simp_all
    have "StocProc_KLE_calc_z E (?s\<lparr>priv_interpolator := None, priv_proc_cnt := priv_proc_cnt ?s + 1\<rparr>) y
        = Inl AttributeError"
      using s by (simp add: kle_calc_z_no_sqrt)
    then show ?thesis
      using s(3) by (simp add: StocProc_KLE_new_process_def new_process_explicit Let_def)
  qed
  then show ?thesis using b by blast
qed


lemma linspace_ok: "0 \<le> num \<Longrightarrow> \<exists>ts. linspace start stop num = Inr ts \<and> length ts = nat num"
  by (simp add: linspace_def)

lemma broadcast2_ok:
  "bdim (shape0 X) (shape0 Y) = Some r \<Longrightarrow> bdim (shape1 X) (shape1 Y) = Some c \<Longrightarrow>
     \<exists>Z. broadcast2 f X Y = Inr Z \<and> shape0 Z = r \<and> shape1 Z = c"
  by (simp add: broadcast2_def arr2_of_def)

lemma kle_setstate_ok:
  assumes "0 \<le> ngf * (int (shape0 A) - 1) + 1"
  shows "\<exists>self g'. StocProc_KLE_setstate E (A, ak, sd, kk, tmax, ngf) g = Inr (self, g')"
proof -
  from linspace_ok [OF assms] obtain ts where "linspace 0 tmax (ngf * (int (shape0 A) - 1) + 1) = Inr ts"
    by blast
  then show ?thesis
    by (simp add: StocProc_KLE_setstate_def absStocProc_init_def Let_def)
qed

lemma demo_kle_init:
  assumes "0 \<le> ngf"
  shows "\<exists>self g'. StocProc_KLE_init demo_ext R 1 2 ngf sd sig_min kk False (g::nat) = Inr (self, g')"
proof -
  have w: "get_mid_point_weights_times demo_ext 1 2 = Inr ([0, 1], [1 / 2, 1 / 2])"
    by (simp add: demo_weights linspace_def numeral_2_eq_2)
  from calc_corr_matrix_ok [of "[0, 1]" R] obtain r where
    r: "calc_corr_matrix [0, 1] R = Inr r" "shape0 r = 2"
    by auto
  have sv: "solve_hom_fredholm demo_ext r [1 / 2, 1 / 2] (sig_min ^ 2) = Inr ([1], arr2_of 2 1 (\<lambda>i j. 1))"
    by (simp add: demo_solve r(2))
  from broadcast2_ok [of "reshape_col (map complex_of_real [1 / 2, 1 / 2])" "arr2_of 2 1 (\<lambda>i j. 1)" 2 1 "(*)"]
  obtain wU where wU: "broadcast2 (*) (reshape_col (map complex_of_real [1 / 2, 1 / 2])) (arr2_of 2 1 (\<lambda>i j. 1)) = Inr wU"
      "shape0 wU = 2" "shape1 wU = 1"
    by (auto simp add: reshape_col_def arr2_of_def bdim_def)
  from broadcast2_ok [of wU "reshape_row (map complex_of_real (map sqrt [1]))" 2 1 "(/)"] wU
  obtain A where A: "broadcast2 (/) wU (reshape_row (map complex_of_real (map sqrt [1]))) = Inr A"
      "shape0 A = 2" "shape1 A = 1"
    by (auto simp add: reshape_row_def arr2_of_def bdim_def)
  from linspace_ok [of "ngf * (2 - 1) + 1" 0 1] assms obtain sf where
    sf: "linspace 0 1 (ngf * (2 - 1) + 1) = Inr sf" "length sf = nat (ngf * (2 - 1) + 1)"
    by auto
  then have "sf \<noteq> []" using assms by auto
  from calc_corr_min_t_plus_t_ok [OF this, of R] obtain ak where
    ak: "calc_corr_min_t_plus_t sf R = Inr ak" by blast
  from kle_setstate_ok [of ngf A demo_ext ak sd kk 1 g] assms A(2)
  obtain s0 g' where st: "StocProc_KLE_setstate demo_ext (A, ak, sd, kk, 1, ngf) g = Inr (s0, g')"
    by auto
  show ?thesis
    unfolding StocProc_KLE_init_def Let_def
    by (simp only: w r(1) sv wU(1) A(1) sf(1) ak st sum.case prod.case if_False) blast
qed

theorem C4_witness:
  "\<exists>self g'. StocProc_KLE_init demo_ext (\<lambda>tau. complex_of_real (exp (- \<bar>tau\<bar>))) 1 2 1 None (1 / 10) 3 False (0::nat)
                = Inr (self, g')
     \<and> \<not> kle_interp self \<and> priv_sqrt_eig_val self = None
     \<and> fst (StocProc_KLE_new_process demo_ext self (Some [1]) None g') = Some AttributeError"
proof -
  from demo_kle_init [of 1 "\<lambda>tau. complex_of_real (exp (- \<bar>tau\<bar>))" None "1 / 10" 3 0]
  obtain self g' where
    init: "StocProc_KLE_init demo_ext (\<lambda>tau. complex_of_real (exp (- \<bar>tau\<bar>))) 1 2 1 None (1 / 10) 3 False (0::nat)
             = Inr (self, g')"
    by auto
  note c = C4_ng_fac_one_new_process_raises [OF init]
  from c have a: "\<not> kle_interp self" "priv_sqrt_eig_val self = None" by simp_all
  from c have "fst (StocProc_KLE_new_process demo_ext
                   (fst (perform_all demo_ext (StocProc_KLE_calc_z demo_ext) StocProc_KLE_get_num_y (self, g') []))
                   (Some [1]) None
                   (snd (perform_all demo_ext (StocProc_KLE_calc_z demo_ext) StocProc_KLE_get_num_y (self, g') [])))
              = Some AttributeError"
    by blast
  then have "fst (StocProc_KLE_new_process demo_ext self (Some [1]) None g') = Some AttributeError"
    by (simp add: perform_all_def)
  with init a show ?thesis by blast
qed

section \<open>The length of the input\<close>

lemma broadcast1_ok:
  "bdim (length xs) (length ys) = Some n \<Longrightarrow> \<exists>v. broadcast1 f xs ys = Inr v \<and> length v = n"
  by (simp add: broadcast1_def)

lemma kle_reachable_calc_z:
  "StocProc_KLE_calc_z E
     ((fst (perform_all E (StocProc_KLE_calc_z E) StocProc_KLE_get_num_y (self, g) ms))
        \<lparr>priv_interpolator := i, priv_proc_cnt := c\<rparr>) y
   = StocProc_KLE_calc_z E self y"
proof -
  obtain z' i' c' where "fst (perform_all E (StocProc_KLE_calc_z E) StocProc_KLE_get_num_y (self, g) ms)
      = self\<lparr>priv_z := z', priv_interpolator := i', priv_proc_cnt := c'\<rparr>"
    using perform_all_frame [of E "StocProc_KLE_calc_z E" StocProc_KLE_get_num_y self g ms] by blast
  then have "(fst (perform_all E (StocProc_KLE_calc_z E) StocProc_KLE_get_num_y (self, g) ms))
        \<lparr>priv_interpolator := i, priv_proc_cnt := c\<rparr>
      = self\<lparr>priv_z := z', priv_interpolator := i, priv_proc_cnt := c\<rparr>"
    by simp
  then show ?thesis by (simp only: kle_calc_z_frame)
qed

lemma kle_reachable_num_y:
  "StocProc_KLE_get_num_y (fst (perform_all E (StocProc_KLE_calc_z E) StocProc_KLE_get_num_y (self, g) ms))
   = StocProc_KLE_get_num_y self"
proof -
  obtain z' i' c' where "fst (perform_all E (StocProc_KLE_calc_z E) StocProc_KLE_get_num_y (self, g) ms)
      = self\<lparr>priv_z := z', priv_interpolator := i', priv_proc_cnt := c'\<rparr>"
    using perform_all_frame [of E "StocProc_KLE_calc_z E" StocProc_KLE_get_num_y self g ms] by blast
  then show ?thesis by (simp add: StocProc_KLE_get_num_y_def)
qed

lemma new_process_explicit_error:
  "calc_z (self\<lparr>priv_interpolator := None, priv_proc_cnt := priv_proc_cnt self + 1\<rparr>) v = Inl e \<Longrightarrow>
     fst (new_process E calc_z num_y_of self (Some v) sd g) = Some e
     \<and> priv_z (fst (snd (new_process E calc_z num_y_of self (Some v) sd g))) = priv_z self"
  by (simp add: new_process_explicit Let_def)

lemma new_process_explicit_ok:
  "calc_z (self\<lparr>priv_interpolator := None, priv_proc_cnt := priv_proc_cnt self + 1\<rparr>) v = Inr z \<Longrightarrow>
     fst (new_process E calc_z num_y_of self (Some v) sd g) = None
     \<and> priv_z (fst (snd (new_process E calc_z num_y_of self (Some v) sd g))) = Some z"
  by (simp add: new_process_explicit Let_def)

text \<open>
  Claim C1, as the code has it.  No method compares the length of \<open>y\<close> with
  \<open>get_num_y()\<close>; a wrong length is noticed only where numpy refuses the shapes.  For
  a constructed Karhunen-Loeve engine, \<open>get_num_y()\<close> is the number of eigenvalues the
  solver returned with as many eigenvectors, and with \<open>ng_fac \<noteq> 1\<close> every
  \<open>new_process(y)\<close> with another length raises \<open>ValueError\<close> and keeps the
  realization, after any sequence of calls.  For the Fourier engine the same holds when
  neither the length of \<open>y\<close> nor \<open>get_num_y()\<close> is one.
\<close>

theorem C1_length_mismatch_raises_value_error:
  fixes fft :: StocProc_FFT_tol
  shows "(StocProc_KLE_init E r_tau tmax ng ngf sd sig_min kk align g = Inr (kle, g1) \<longrightarrow>
       (\<forall>ev U. priv_eig_val kle = Some ev \<and> priv_eig_vec kle = Some U \<and> shape1 U = length ev \<longrightarrow>
                StocProc_KLE_get_num_y kle = length ev)
     \<and> (ngf \<noteq> 1 \<longrightarrow>
          (\<forall>ms y sd2.
             length y \<noteq> StocProc_KLE_get_num_y kle \<longrightarrow>
             (let s = perform_all E (StocProc_KLE_calc_z E) StocProc_KLE_get_num_y (kle, g1) ms;
                  r = StocProc_KLE_new_process E (fst s) (Some y) sd2 (snd s)
              in fst r = Some ValueError \<and> priv_z (fst (snd r)) = priv_z (fst s)))))
   \<and> (\<forall>y sd2 g2.
         length y \<noteq> StocProc_FFT_tol_get_num_y fft \<and> length y \<noteq> 1 \<and> StocProc_FFT_tol_get_num_y fft \<noteq> 1 \<longrightarrow>
         (let r = StocProc_FFT_tol_new_process E fft (Some y) sd2 g2
          in fst r = Some ValueError \<and> priv_z (fst (snd r)) = priv_z fft))"
proof (intro conjI impI allI)
  fix ev U
  assume init: "StocProc_KLE_init E r_tau tmax ng ngf sd sig_min kk align g = Inr (kle, g1)"
    and e: "priv_eig_val kle = Some ev \<and> priv_eig_vec kle = Some U \<and> shape1 U = length ev"
  from kle_init_fields [OF init] e show "StocProc_KLE_get_num_y kle = length ev"
    by (auto simp add: StocProc_KLE_get_num_y_def)
next
  fix ms sd2 and y :: "complex list"
  assume init: "StocProc_KLE_init E r_tau tmax ng ngf sd sig_min kk align g = Inr (kle, g1)"
    and ngf: "ngf \<noteq> 1"
    and len: "length y \<noteq> StocProc_KLE_get_num_y kle"
  let ?s = "perform_all E (StocProc_KLE_calc_z E) StocProc_KLE_get_num_y (kle, g1) ms"
  from kle_init_fields [OF init] ngf have k: "kle_interp kle" "num_y kle = shape1 (priv_A kle)"
    by simp_all
  with len have "StocProc_KLE_calc_z E kle y = Inl ValueError"
    by (simp add: StocProc_KLE_calc_z_def tensordot_def StocProc_KLE_get_num_y_def)
  then have "StocProc_KLE_calc_z E ((fst ?s)\<lparr>priv_interpolator := None, priv_proc_cnt := priv_proc_cnt (fst ?s) + 1\<rparr>) y
      = Inl ValueError"
    by (simp only: kle_reachable_calc_z)
  with new_process_explicit_error [of "StocProc_KLE_calc_z E" "fst ?s" y ValueError E
      StocProc_KLE_get_num_y sd2 "snd ?s"]
  show "let s = ?s; r = StocProc_KLE_new_process E (fst s) (Some y) sd2 (snd s)
        in fst r = Some ValueError \<and> priv_z (fst (snd r)) = priv_z (fst s)"
    by (simp add: StocProc_KLE_new_process_def Let_def)
next
  fix sd2 g2 and y :: "complex list"
  assume a: "length y \<noteq> StocProc_FFT_tol_get_num_y fft \<and> length y \<noteq> 1 \<and> StocProc_FFT_tol_get_num_y fft \<noteq> 1"
  let ?f2 = "fft\<lparr>priv_interpolator := None, priv_proc_cnt := priv_proc_cnt fft + 1\<rparr>"
  from a have "broadcast1 (*) (map complex_of_real (yl ?f2)) y = Inl ValueError"
    using broadcast1_mismatch [of "map complex_of_real (yl ?f2)" y "(*)"]
    by (simp add: StocProc_FFT_tol_get_num_y_def)
  then have "StocProc_FFT_tol_calc_z ?f2 y = Inl ValueError"
    by (simp add: StocProc_FFT_tol_calc_z_def)
  with new_process_explicit_error [of StocProc_FFT_tol_calc_z fft y ValueError E
      StocProc_FFT_tol_get_num_y sd2 g2]
  show "let r = StocProc_FFT_tol_new_process E fft (Some y) sd2 g2
        in fst r = Some ValueError \<and> priv_z (fst (snd r)) = priv_z fft"
    by (simp add: StocProc_FFT_tol_new_process_def Let_def)
qed

text \<open>
  The claim as stated fails: a Fourier engine that needs two numbers accepts an input
  of length one, which numpy broadcasts, and stores a realization.
\<close>

theorem C1_counterexample:
  "\<exists>self g'.
     StocProc_FFT_tol_init_resolved demo_ext (\<lambda>x. 1) 1 (0, 2 * pi, 2, pi, 1) None 1 (0::nat) = Inr (self, g')
     \<and> StocProc_FFT_tol_get_num_y self = 2
     \<and> length [1::complex] \<noteq> StocProc_FFT_tol_get_num_y self
     \<and> fst (StocProc_FFT_tol_new_process demo_ext self (Some [1]) None g') = None
     \<and> priv_z (fst (snd (StocProc_FFT_tol_new_process demo_ext self (Some [1]) None g'))) \<noteq> None"
proof -
  have "\<exists>self g'. StocProc_FFT_tol_init_resolved demo_ext (\<lambda>x. 1) 1 (0, 2 * pi, 2, pi, 1) None 1 (0::nat)
           = Inr (self, g')"
    by (simp add: StocProc_FFT_tol_init_resolved_def absStocProc_init_def linspace_def Let_def)
  then obtain self g' where
    init: "StocProc_FFT_tol_init_resolved demo_ext (\<lambda>x. 1) 1 (0, 2 * pi, 2, pi, 1) None 1 (0::nat)
             = Inr (self, g')"
    by blast
  note f = fft_init_resolved_fields [OF init]
  from f have ngp: "num_grid_points self = 2" by simp
  from f have ly: "length (yl self) = 2" by simp
  from f have "linspace 0 ((of_int (\<lceil>1 / 1::real\<rceil> + 1) - 1) * 1) (\<lceil>1 / 1::real\<rceil> + 1) = Inr (t_axis self)"
    by simp
  from linspace_length [OF this] have lt: "length (t_axis self) = 2" by simp
  from f lt have lo: "length (omega_min_correction self) = 2" by simp
  let ?s2 = "self\<lparr>priv_interpolator := None, priv_proc_cnt := priv_proc_cnt self + 1\<rparr>"
  from broadcast1_ok [of "map complex_of_real (yl ?s2)" "[1::complex]" 2 "(*)"] ly
  obtain v where v: "broadcast1 (*) (map complex_of_real (yl ?s2)) [1] = Inr v" "length v = 2"
    by (auto simp add: bdim_def)
  then have ne: "v \<noteq> []" by auto
  have ld: "length (slice (dft v) 0 (num_grid_points ?s2)) = 2"
    using v(2) ngp by (simp add: slice_def dft_def)
  from broadcast1_ok [of "slice (dft v) 0 (num_grid_points ?s2)" "omega_min_correction ?s2" 2 "(*)"] ld lo
  obtain z where z: "broadcast1 (*) (slice (dft v) 0 (num_grid_points ?s2)) (omega_min_correction ?s2) = Inr z"
    by (auto simp add: bdim_def)
  have cz: "StocProc_FFT_tol_calc_z ?s2 [1] = Inr z"
    using v(1) ne z by (simp add: StocProc_FFT_tol_calc_z_def np_fft_def)
  from cz new_process_explicit_ok [of StocProc_FFT_tol_calc_z self "[1]" z demo_ext
      StocProc_FFT_tol_get_num_y None g']
  have "fst (StocProc_FFT_tol_new_process demo_ext self (Some [1]) None g') = None
     \<and> priv_z (fst (snd (StocProc_FFT_tol_new_process demo_ext self (Some [1]) None g'))) \<noteq> None"
    by (simp add: StocProc_FFT_tol_new_process_def)
  moreover have "StocProc_FFT_tol_get_num_y self = 2"
    using ly by (simp add: StocProc_FFT_tol_get_num_y_def)
  ultimately show ?thesis using init by auto
qed


theorem C1_witness:
  "\<exists>kle g1 fft gf.
     StocProc_KLE_init demo_ext (\<lambda>tau. complex_of_real (exp (- \<bar>tau\<bar>))) 1 2 2 None (1 / 10) 3 False (0::nat)
       = Inr (kle, g1)
     \<and> priv_eig_val kle = Some [1]
     \<and> StocProc_KLE_get_num_y kle = 1
     \<and> fst (StocProc_KLE_new_process demo_ext kle (Some [1, 2]) None g1) = Some ValueError
     \<and> StocProc_FFT_tol_init_resolved demo_ext (\<lambda>x. 1) 1 (0, 2 * pi, 2, pi, 1) None 1 (0::nat) = Inr (fft, gf)
     \<and> StocProc_FFT_tol_get_num_y fft = 2
     \<and> fst (StocProc_FFT_tol_new_process demo_ext fft (Some [1, 2, 3]) None gf) = Some ValueError"
proof -
  let ?R = "\<lambda>tau. complex_of_real (exp (- \<bar>tau\<bar>))"
  from demo_kle_init [of 2 ?R None "1 / 10" 3 0]
  obtain kle g1 where
    init: "StocProc_KLE_init demo_ext ?R 1 2 2 None (1 / 10) 3 False (0::nat) = Inr (kle, g1)"
    by auto
  from kle_init_inv [OF init] obtain t w r ev U0 s0 where
    sv: "solve_hom_fredholm demo_ext r w ((1 / 10) ^ 2) = Inr (ev, U0)"
    and self: "kle = s0\<lparr>priv_s := Some t, priv_w := Some w, priv_eig_val := Some ev,
                  priv_eig_vec := Some (if False then align_columns U0 else U0)\<rparr>"
    by blast
  from sv have ev: "ev = [1]" and U0: "U0 = arr2_of (shape0 r) 1 (\<lambda>i j. 1)"
    by (simp_all add: demo_solve)
  have e1: "priv_eig_val kle = Some [1]" by (simp add: self ev)
  have e2: "priv_eig_vec kle = Some U0" by (simp add: self)
  have e3: "shape1 U0 = length [1::real]" by (simp add: U0 arr2_of_def)
  have "\<exists>fft gf. StocProc_FFT_tol_init_resolved demo_ext (\<lambda>x. 1) 1 (0, 2 * pi, 2, pi, 1) None 1 (0::nat)
           = Inr (fft, gf)"
    by (simp add: StocProc_FFT_tol_init_resolved_def absStocProc_init_def linspace_def Let_def)
  then obtain fft gf where
    finit: "StocProc_FFT_tol_init_resolved demo_ext (\<lambda>x. 1) 1 (0, 2 * pi, 2, pi, 1) None 1 (0::nat)
             = Inr (fft, gf)"
    by blast
  have n2: "StocProc_FFT_tol_get_num_y fft = 2"
    using fft_init_resolved_fields [OF finit] by (simp add: StocProc_FFT_tol_get_num_y_def)
  note c = C1_length_mismatch_raises_value_error [of demo_ext ?R 1 2 2 None "1 / 10" 3 False 0 kle g1 fft]
  from c init e1 e2 e3 have ny: "StocProc_KLE_get_num_y kle = length [1::real]"
    by blast
  from c init have "\<forall>ms y sd2.
             length y \<noteq> StocProc_KLE_get_num_y kle \<longrightarrow>
             (let s = perform_all demo_ext (StocProc_KLE_calc_z demo_ext) StocProc_KLE_get_num_y (kle, g1) ms;
                  r = StocProc_KLE_new_process demo_ext (fst s) (Some y) sd2 (snd s)
              in fst r = Some ValueError \<and> priv_z (fst (snd r)) = priv_z (fst s))"
    by simp
  from this [rule_format, of "[1, 2]" "[]" None] ny
  have k: "fst (StocProc_KLE_new_process demo_ext kle (Some [1, 2]) None g1) = Some ValueError"
    by (simp add: perform_all_def Let_def)
  from c have "\<forall>y sd2 g2.
         length y \<noteq> StocProc_FFT_tol_get_num_y fft \<and> length y \<noteq> 1 \<and> StocProc_FFT_tol_get_num_y fft \<noteq> 1 \<longrightarrow>
         (let r = StocProc_FFT_tol_new_process demo_ext fft (Some y) sd2 g2
          in fst r = Some ValueError \<and> priv_z (fst (snd r)) = priv_z fft)"
    by blast
  from this [rule_format, of "[1, 2, 3]" None gf] n2
  have f: "fst (StocProc_FFT_tol_new_process demo_ext fft (Some [1, 2, 3]) None gf) = Some ValueError"
    by (simp add: Let_def)
  from init e1 ny k finit n2 f show ?thesis by auto
qed

section \<open>Determinism and the exported state\<close>

lemma kle_setstate_other_state:
  assumes "StocProc_KLE_setstate E st g = Inr (self, g')"
  shows "\<exists>h. StocProc_KLE_setstate E2 st g2 = Inr (self, h)"
proof -
  obtain A ak sd kk tmax ngf where st: "st = (A, ak, sd, kk, tmax, ngf)"
    by (cases st) auto
  from kle_setstate_inv [OF assms [unfolded st]] obtain base where
    b: "absStocProc_init E tmax (ngf * (int (shape0 A) - 1) + 1) sd kk g = Inr (base, g')"
    and s: "self = absStocProc.extend base
               (StocProc_KLE.fields A ak ngf (ngf \<noteq> 1) (shape1 A) None None None None None)"
    by blast
  from absStocProc_init_other_state [OF b, of E2 g2] s show ?thesis
    by (simp add: st StocProc_KLE_setstate_def Let_def)
qed

lemma kle_init_other_state:
  assumes "StocProc_KLE_init E r_tau tmax ng ngf sd sig_min kk align g = Inr (self, g')"
  shows "\<exists>h. StocProc_KLE_init E r_tau tmax ng ngf sd sig_min kk align g2 = Inr (self, h)"
proof -
  from kle_init_inv [OF assms] obtain t w r ev U0 wU A sf ak s0 where
      1: "get_mid_point_weights_times E tmax ng = Inr (t, w)"
    and 2: "calc_corr_matrix t r_tau = Inr r"
    and 3: "solve_hom_fredholm E r w (sig_min ^ 2) = Inr (ev, U0)"
    and 4: "broadcast2 (*) (reshape_col (map complex_of_real w)) (if align then align_columns U0 else U0) = Inr wU"
    and 5: "broadcast2 (/) wU (reshape_row (map complex_of_real (map sqrt ev))) = Inr A"
    and 6: "linspace 0 tmax (ngf * (ng - 1) + 1) = Inr sf"
    and 7: "calc_corr_min_t_plus_t sf r_tau = Inr ak"
    and 8: "StocProc_KLE_setstate E (A, ak, sd, kk, tmax, ngf) g = Inr (s0, g')"
    and 9: "self = s0\<lparr>priv_s := Some t, priv_w := Some w, priv_eig_val := Some ev,
                  priv_eig_vec := Some (if align then align_columns U0 else U0)\<rparr>"
    by blast
  from kle_setstate_other_state [OF 8, of E g2] obtain h where
    st2: "StocProc_KLE_setstate E (A, ak, sd, kk, tmax, ngf) g2 = Inr (s0, h)" by blast
  have "StocProc_KLE_init E r_tau tmax ng ngf sd sig_min kk align g2 = Inr (self, h)"
    unfolding StocProc_KLE_init_def Let_def
    by (simp only: 1 2 3 4 5 6 7 st2 9 sum.case prod.case)
  then show ?thesis by blast
qed

lemma kle_init_getstate:
  assumes "StocProc_KLE_init E r_tau tmax ng ngf sd sig_min kk align g = Inr (self, g')"
  shows "\<exists>s0. StocProc_KLE_setstate E (StocProc_KLE_getstate self) g = Inr (s0, g')
    \<and> self = s0\<lparr>priv_s := priv_s self, priv_w := priv_w self, priv_eig_val := priv_eig_val self,
                  priv_eig_vec := priv_eig_vec self\<rparr>"
proof -
  from kle_init_inv [OF assms] obtain t w ev U0 A ak s0 where
      8: "StocProc_KLE_setstate E (A, ak, sd, kk, tmax, ngf) g = Inr (s0, g')"
    and 9: "self = s0\<lparr>priv_s := Some t, priv_w := Some w, priv_eig_val := Some ev,
                  priv_eig_vec := Some (if align then align_columns U0 else U0)\<rparr>"
    by blast
  from kle_setstate_fields [OF 8] 9 have "StocProc_KLE_getstate self = (A, ak, sd, kk, tmax, ngf)"
    by (simp add: StocProc_KLE_getstate_def)
  with 8 9 show ?thesis by simp
qed

lemma kle_calc_z_cong:
  assumes "kle_interp a = kle_interp b" "priv_A a = priv_A b" "ng_fac a = ng_fac b"
    "alpha_k a = alpha_k b" "priv_sqrt_eig_val a = None" "priv_sqrt_eig_val b = None"
  shows "StocProc_KLE_calc_z E a y = StocProc_KLE_calc_z E b y"
  using assms by (simp add: StocProc_KLE_calc_z_def split: sum.split)

lemma new_process_explicit_cong:
  assumes "calc_z (a\<lparr>priv_interpolator := None, priv_proc_cnt := priv_proc_cnt a + 1\<rparr>) y
         = calc_z2 (b\<lparr>priv_interpolator := None, priv_proc_cnt := priv_proc_cnt b + 1\<rparr>) y"
  shows "fst (new_process E calc_z n1 a (Some y) sdA hA) = fst (new_process E2 calc_z2 n2 b (Some y) sdB hB)
    \<and> (fst (new_process E calc_z n1 a (Some y) sdA hA) = None \<longrightarrow>
         priv_z (fst (snd (new_process E calc_z n1 a (Some y) sdA hA)))
           = priv_z (fst (snd (new_process E2 calc_z2 n2 b (Some y) sdB hB))))"
  using assms by (simp add: new_process_explicit Let_def split: sum.split)

lemma fft_reachable_calc_z:
  "StocProc_FFT_tol_calc_z
     ((fst (perform_all E StocProc_FFT_tol_calc_z StocProc_FFT_tol_get_num_y (self, g) ms))
        \<lparr>priv_interpolator := i, priv_proc_cnt := c\<rparr>) y
   = StocProc_FFT_tol_calc_z self y"
proof -
  obtain z' i' c' where "fst (perform_all E StocProc_FFT_tol_calc_z StocProc_FFT_tol_get_num_y (self, g) ms)
      = self\<lparr>priv_z := z', priv_interpolator := i', priv_proc_cnt := c'\<rparr>"
    using perform_all_frame [of E StocProc_FFT_tol_calc_z StocProc_FFT_tol_get_num_y self g ms] by blast
  then have "(fst (perform_all E StocProc_FFT_tol_calc_z StocProc_FFT_tol_get_num_y (self, g) ms))
        \<lparr>priv_interpolator := i, priv_proc_cnt := c\<rparr>
      = self\<lparr>priv_z := z', priv_interpolator := i, priv_proc_cnt := c\<rparr>"
    by simp
  then show ?thesis by (simp only: fft_calc_z_frame)
qed

lemma fft_init_resolved_other_state:
  assumes "StocProc_FFT_tol_init_resolved E S tmax res sd kk g = Inr (self, g')"
  shows "\<exists>h. StocProc_FFT_tol_init_resolved E S tmax res sd kk g2 = Inr (self, h)"
proof -
  obtain a b N dx dt where res: "res = (a, b, N, dx, dt)" by (cases res) auto
  let ?T = "(of_int (\<lceil>tmax / dt\<rceil> + 1) - 1) * dt"
  let ?n = "\<lceil>tmax / dt\<rceil> + 1"
  show ?thesis
  proof (cases "absStocProc_init E ?T ?n sd kk g")
    case (Inl e)
    with assms show ?thesis
      by (simp add: res StocProc_FFT_tol_init_resolved_def Let_def split: if_splits)
  next
    case (Inr p)
    obtain base h0 where p: "p = (base, h0)" by (cases p)
    from absStocProc_init_other_state [OF Inr [unfolded p], of E g2]
    have "absStocProc_init E ?T ?n sd kk g2
        = Inr (base, case sd of None \<Rightarrow> g2 | Some n \<Rightarrow> np_random_seed E n g2)" .
    with assms Inr p show ?thesis
      by (simp add: res StocProc_FFT_tol_init_resolved_def Let_def split: if_splits)
  qed
qed

lemma fft_init_other_state:
  assumes "StocProc_FFT_tol_init E S tmax bcf_ref it ip sd kk neg g = Inr (self, g')"
  shows "\<exists>h. StocProc_FFT_tol_init E S tmax bcf_ref it ip sd kk neg g2 = Inr (self, h)"
proof -
  from assms obtain res where
    r: "resolve_parameters E S tmax bcf_ref it ip neg = Inr res"
    and i: "StocProc_FFT_tol_init_resolved E S tmax res sd kk g = Inr (self, g')"
    unfolding StocProc_FFT_tol_init_def by (elim bindE)
  from fft_init_resolved_other_state [OF i, of g2] r show ?thesis
    by (simp add: StocProc_FFT_tol_init_def)
qed


lemma kle_same_realization:
  fixes y :: "complex list"
  shows "(let s1 = perform_all E (StocProc_KLE_calc_z E) StocProc_KLE_get_num_y (a, h1) ms1;
              s2 = perform_all E (StocProc_KLE_calc_z E) StocProc_KLE_get_num_y (a, h2) ms2;
              r1 = StocProc_KLE_new_process E (fst s1) (Some y) sdA (snd s1);
              r2 = StocProc_KLE_new_process E (fst s2) (Some y) sdB (snd s2)
          in fst r1 = fst r2 \<and> (fst r1 = None \<longrightarrow> priv_z (fst (snd r1)) = priv_z (fst (snd r2))))"
proof -
  let ?s1 = "perform_all E (StocProc_KLE_calc_z E) StocProc_KLE_get_num_y (a, h1) ms1"
  let ?s2 = "perform_all E (StocProc_KLE_calc_z E) StocProc_KLE_get_num_y (a, h2) ms2"
  have "StocProc_KLE_calc_z E ((fst ?s1)\<lparr>priv_interpolator := None, priv_proc_cnt := priv_proc_cnt (fst ?s1) + 1\<rparr>) y
      = StocProc_KLE_calc_z E ((fst ?s2)\<lparr>priv_interpolator := None, priv_proc_cnt := priv_proc_cnt (fst ?s2) + 1\<rparr>) y"
    by (simp only: kle_reachable_calc_z)
  from new_process_explicit_cong [of "StocProc_KLE_calc_z E" "fst ?s1" y "StocProc_KLE_calc_z E" "fst ?s2"
      E StocProc_KLE_get_num_y sdA "snd ?s1" E StocProc_KLE_get_num_y sdB "snd ?s2", OF this]
  show ?thesis
    by (simp add: StocProc_KLE_new_process_def Let_def)
qed

lemma fft_same_realization:
  fixes y :: "complex list"
  shows "(let s1 = perform_all E StocProc_FFT_tol_calc_z StocProc_FFT_tol_get_num_y (a, h1) ms1;
              s2 = perform_all E StocProc_FFT_tol_calc_z StocProc_FFT_tol_get_num_y (a, h2) ms2;
              r1 = StocProc_FFT_tol_new_process E (fst s1) (Some y) sdA (snd s1);
              r2 = StocProc_FFT_tol_new_process E (fst s2) (Some y) sdB (snd s2)
          in fst r1 = fst r2 \<and> (fst r1 = None \<longrightarrow> priv_z (fst (snd r1)) = priv_z (fst (snd r2))))"
proof -
  let ?s1 = "perform_all E StocProc_FFT_tol_calc_z StocProc_FFT_tol_get_num_y (a, h1) ms1"
  let ?s2 = "perform_all E StocProc_FFT_tol_calc_z StocProc_FFT_tol_get_num_y (a, h2) ms2"
  have "StocProc_FFT_tol_calc_z ((fst ?s1)\<lparr>priv_interpolator := None, priv_proc_cnt := priv_proc_cnt (fst ?s1) + 1\<rparr>) y
      = StocProc_FFT_tol_calc_z ((fst ?s2)\<lparr>priv_interpolator := None, priv_proc_cnt := priv_proc_cnt (fst ?s2) + 1\<rparr>) y"
    by (simp only: fft_reachable_calc_z)
  from new_process_explicit_cong [of StocProc_FFT_tol_calc_z "fst ?s1" y StocProc_FFT_tol_calc_z "fst ?s2"
      E StocProc_FFT_tol_get_num_y sdA "snd ?s1" E StocProc_FFT_tol_get_num_y sdB "snd ?s2", OF this]
  show ?thesis
    by (simp add: StocProc_FFT_tol_new_process_def Let_def)
qed

text \<open>
  Claim C10.  Two engines constructed with the same configuration, whatever the state
  of numpy's generator was at either construction, and whatever methods were called on
  them since (also random realizations): \<open>new_process\<close> with the same explicit
  \<open>y\<close>, and any seed argument, raises the same exception on both or succeeds on both
  and stores the same realization.
\<close>

theorem C10_same_configuration_same_realization:
  "(StocProc_KLE_init E r_tau tmax ng ngf sd sig_min kk align g1 = Inr (a1, h1) \<and>
    StocProc_KLE_init E r_tau tmax ng ngf sd sig_min kk align g2 = Inr (a2, h2) \<longrightarrow>
      (\<forall>ms1 ms2 y sdA sdB.
         let s1 = perform_all E (StocProc_KLE_calc_z E) StocProc_KLE_get_num_y (a1, h1) ms1;
             s2 = perform_all E (StocProc_KLE_calc_z E) StocProc_KLE_get_num_y (a2, h2) ms2;
             r1 = StocProc_KLE_new_process E (fst s1) (Some y) sdA (snd s1);
             r2 = StocProc_KLE_new_process E (fst s2) (Some y) sdB (snd s2)
         in fst r1 = fst r2 \<and> (fst r1 = None \<longrightarrow> priv_z (fst (snd r1)) = priv_z (fst (snd r2)))))
   \<and> (StocProc_FFT_tol_init E S tmax bcf_ref intgr_tol intpl_tol sd kk neg g1 = Inr (b1, k1) \<and>
      StocProc_FFT_tol_init E S tmax bcf_ref intgr_tol intpl_tol sd kk neg g2 = Inr (b2, k2) \<longrightarrow>
      (\<forall>ms1 ms2 y sdA sdB.
         let s1 = perform_all E StocProc_FFT_tol_calc_z StocProc_FFT_tol_get_num_y (b1, k1) ms1;
             s2 = perform_all E StocProc_FFT_tol_calc_z StocProc_FFT_tol_get_num_y (b2, k2) ms2;
             r1 = StocProc_FFT_tol_new_process E (fst s1) (Some y) sdA (snd s1);
             r2 = StocProc_FFT_tol_new_process E (fst s2) (Some y) sdB (snd s2)
         in fst r1 = fst r2 \<and> (fst r1 = None \<longrightarrow> priv_z (fst (snd r1)) = priv_z (fst (snd r2)))))"
proof (intro conjI impI allI)
  fix ms1 ms2 sdA sdB and y :: "complex list"
  assume i: "StocProc_KLE_init E r_tau tmax ng ngf sd sig_min kk align g1 = Inr (a1, h1) \<and>
          StocProc_KLE_init E r_tau tmax ng ngf sd sig_min kk align g2 = Inr (a2, h2)"
  then have i1: "StocProc_KLE_init E r_tau tmax ng ngf sd sig_min kk align g1 = Inr (a1, h1)" by simp
  from kle_init_other_state [OF i1, of g2]
  obtain h where "StocProc_KLE_init E r_tau tmax ng ngf sd sig_min kk align g2 = Inr (a1, h)"
    by blast
  with i have "a2 = a1" by simp
  then show "let s1 = perform_all E (StocProc_KLE_calc_z E) StocProc_KLE_get_num_y (a1, h1) ms1;
                 s2 = perform_all E (StocProc_KLE_calc_z E) StocProc_KLE_get_num_y (a2, h2) ms2;
                 r1 = StocProc_KLE_new_process E (fst s1) (Some y) sdA (snd s1);
                 r2 = StocProc_KLE_new_process E (fst s2) (Some y) sdB (snd s2)
             in fst r1 = fst r2 \<and> (fst r1 = None \<longrightarrow> priv_z (fst (snd r1)) = priv_z (fst (snd r2)))"
    using kle_same_realization [of E a1 h1 ms1 h2 ms2 y sdA sdB] by simp
next
  fix ms1 ms2 sdA sdB and y :: "complex list"
  assume i: "StocProc_FFT_tol_init E S tmax bcf_ref intgr_tol intpl_tol sd kk neg g1 = Inr (b1, k1) \<and>
          StocProc_FFT_tol_init E S tmax bcf_ref intgr_tol intpl_tol sd kk neg g2 = Inr (b2, k2)"
  then have i1: "StocProc_FFT_tol_init E S tmax bcf_ref intgr_tol intpl_tol sd kk neg g1 = Inr (b1, k1)"
    by simp
  from fft_init_other_state [OF i1, of g2]
  obtain h where "StocProc_FFT_tol_init E S tmax bcf_ref intgr_tol intpl_tol sd kk neg g2 = Inr (b1, h)"
    by blast
  with i have "b2 = b1" by simp
  then show "let s1 = perform_all E StocProc_FFT_tol_calc_z StocProc_FFT_tol_get_num_y (b1, k1) ms1;
                 s2 = perform_all E StocProc_FFT_tol_calc_z StocProc_FFT_tol_get_num_y (b2, k2) ms2;
                 r1 = StocProc_FFT_tol_new_process E (fst s1) (Some y) sdA (snd s1);
                 r2 = StocProc_FFT_tol_new_process E (fst s2) (Some y) sdB (snd s2)
             in fst r1 = fst r2 \<and> (fst r1 = None \<longrightarrow> priv_z (fst (snd r1)) = priv_z (fst (snd r2)))"
    using fft_same_realization [of E b1 k1 ms1 k2 ms2 y sdA sdB] by simp
qed

lemma demo_fft_init:
  "\<exists>self g'. StocProc_FFT_tol_init demo_ext (\<lambda>x. 1) 1 bcf_ref intgr_tol intpl_tol sd 1 False (g::nat)
       = Inr (self, g')"
  by (simp add: StocProc_FFT_tol_init_def resolve_parameters_def demo_ext_def
      StocProc_FFT_tol_init_resolved_def absStocProc_init_def linspace_def Let_def)

lemma demo_kle_calc_z_ok:
  assumes "StocProc_KLE_init demo_ext R 1 2 2 sd sig_min kk False (g::nat) = Inr (self, g')"
  shows "\<exists>z. StocProc_KLE_calc_z demo_ext self [c] = Inr z"
proof -
  from kle_init_inv [OF assms] obtain t w r ev U0 s0 where
    sv: "solve_hom_fredholm demo_ext r w (sig_min ^ 2) = Inr (ev, U0)"
    and self: "self = s0\<lparr>priv_s := Some t, priv_w := Some w, priv_eig_val := Some ev,
                  priv_eig_vec := Some (if False then align_columns U0 else U0)\<rparr>"
    by blast
  from sv have ev: "ev = [1]" and U0: "U0 = arr2_of (shape0 r) 1 (\<lambda>i j. 1)"
    by (simp_all add: demo_solve)
  from kle_init_fields [OF assms] self ev U0 have "kle_interp self" "shape1 (priv_A self) = 1"
    by (simp_all add: arr2_of_def)
  then show ?thesis
    by (simp add: StocProc_KLE_calc_z_def tensordot_def demo_z_t)
qed

theorem C10_witness:
  "\<exists>a1 h1 a2 h2 b1 k1 b2 k2.
     StocProc_KLE_init demo_ext (\<lambda>tau. complex_of_real (exp (- \<bar>tau\<bar>))) 1 2 2 (Some 7) (1 / 10) 3 False (0::nat)
       = Inr (a1, h1)
     \<and> StocProc_KLE_init demo_ext (\<lambda>tau. complex_of_real (exp (- \<bar>tau\<bar>))) 1 2 2 (Some 7) (1 / 10) 3 False 5
       = Inr (a2, h2)
     \<and> (let s1 = perform_all demo_ext (StocProc_KLE_calc_z demo_ext) StocProc_KLE_get_num_y (a1, h1)
                   [NewProcess None None, Call (Some (TFloat 0))];
             s2 = perform_all demo_ext (StocProc_KLE_calc_z demo_ext) StocProc_KLE_get_num_y (a2, h2) [];
             r1 = StocProc_KLE_new_process demo_ext (fst s1) (Some [\<i>]) None (snd s1);
             r2 = StocProc_KLE_new_process demo_ext (fst s2) (Some [\<i>]) (Some 3) (snd s2)
         in fst r1 = None \<and> fst r2 = None \<and> priv_z (fst (snd r1)) = priv_z (fst (snd r2)))
     \<and> StocProc_FFT_tol_init demo_ext (\<lambda>x. 1) 1 (\<lambda>tau. 1) (1 / 10) (1 / 10) None 1 False 0 = Inr (b1, k1)
     \<and> StocProc_FFT_tol_init demo_ext (\<lambda>x. 1) 1 (\<lambda>tau. 1) (1 / 10) (1 / 10) None 1 False 9 = Inr (b2, k2)
     \<and> (let s1 = perform_all demo_ext StocProc_FFT_tol_calc_z StocProc_FFT_tol_get_num_y (b1, k1)
                   [NewProcess None (Some 4)];
             s2 = perform_all demo_ext StocProc_FFT_tol_calc_z StocProc_FFT_tol_get_num_y (b2, k2) [];
             r1 = StocProc_FFT_tol_new_process demo_ext (fst s1) (Some [1, \<i>]) None (snd s1);
             r2 = StocProc_FFT_tol_new_process demo_ext (fst s2) (Some [1, \<i>]) None (snd s2)
         in fst r1 = fst r2)"
proof -
  let ?R = "\<lambda>tau. complex_of_real (exp (- \<bar>tau\<bar>))"
  from demo_kle_init [of 2 ?R "Some 7" "1 / 10" 3 0]
  obtain a1 h1 where i1: "StocProc_KLE_init demo_ext ?R 1 2 2 (Some 7) (1 / 10) 3 False (0::nat) = Inr (a1, h1)"
    by auto
  from demo_kle_init [of 2 ?R "Some 7" "1 / 10" 3 5]
  obtain a2 h2 where i2: "StocProc_KLE_init demo_ext ?R 1 2 2 (Some 7) (1 / 10) 3 False 5 = Inr (a2, h2)"
    by auto
  from demo_fft_init [of "\<lambda>tau. 1" "1 / 10" "1 / 10" None 0]
  obtain b1 k1 where j1: "StocProc_FFT_tol_init demo_ext (\<lambda>x. 1) 1 (\<lambda>tau. 1) (1 / 10) (1 / 10) None 1 False 0 = Inr (b1, k1)"
    by auto
  from demo_fft_init [of "\<lambda>tau. 1" "1 / 10" "1 / 10" None 9]
  obtain b2 k2 where j2: "StocProc_FFT_tol_init demo_ext (\<lambda>x. 1) 1 (\<lambda>tau. 1) (1 / 10) (1 / 10) None 1 False 9 = Inr (b2, k2)"
    by auto
  let ?ms1 = "[NewProcess None None, Call (Some (TFloat 0))]"
  let ?s1 = "perform_all demo_ext (StocProc_KLE_calc_z demo_ext) StocProc_KLE_get_num_y (a1, h1) ?ms1"
  let ?s2 = "perform_all demo_ext (StocProc_KLE_calc_z demo_ext) StocProc_KLE_get_num_y (a2, h2) []"
  let ?r1 = "StocProc_KLE_new_process demo_ext (fst ?s1) (Some [\<i>]) None (snd ?s1)"
  let ?r2 = "StocProc_KLE_new_process demo_ext (fst ?s2) (Some [\<i>]) (Some 3) (snd ?s2)"
  let ?f1 = "perform_all demo_ext StocProc_FFT_tol_calc_z StocProc_FFT_tol_get_num_y (b1, k1)
                   [NewProcess None (Some 4)]"
  let ?f2 = "perform_all demo_ext StocProc_FFT_tol_calc_z StocProc_FFT_tol_get_num_y (b2, k2) []"
  let ?q1 = "StocProc_FFT_tol_new_process demo_ext (fst ?f1) (Some [1, \<i>]) None (snd ?f1)"
  let ?q2 = "StocProc_FFT_tol_new_process demo_ext (fst ?f2) (Some [1, \<i>]) None (snd ?f2)"
  note c = C10_same_configuration_same_realization [where E = demo_ext and r_tau = ?R and tmax = 1 and ng = 2 and ngf = 2
      and sd = "Some 7" and sig_min = "1 / 10" and kk = 3 and align = False and ?g1.0 = 0 and ?a1.0 = a1
      and ?h1.0 = h1 and ?g2.0 = 5 and ?a2.0 = a2 and ?h2.0 = h2]
  from c i1 i2 have "\<forall>ms1 ms2 y sdA sdB.
         let s1 = perform_all demo_ext (StocProc_KLE_calc_z demo_ext) StocProc_KLE_get_num_y (a1, h1) ms1;
             s2 = perform_all demo_ext (StocProc_KLE_calc_z demo_ext) StocProc_KLE_get_num_y (a2, h2) ms2;
             r1 = StocProc_KLE_new_process demo_ext (fst s1) (Some y) sdA (snd s1);
             r2 = StocProc_KLE_new_process demo_ext (fst s2) (Some y) sdB (snd s2)
         in fst r1 = fst r2 \<and> (fst r1 = None \<longrightarrow> priv_z (fst (snd r1)) = priv_z (fst (snd r2)))"
    by blast
  from this [rule_format, of ?ms1 "[]" "[\<i>]" None "Some 3"]
  have k: "fst ?r1 = fst ?r2 \<and> (fst ?r1 = None \<longrightarrow> priv_z (fst (snd ?r1)) = priv_z (fst (snd ?r2)))"
    by (simp add: Let_def)
  note d = C10_same_configuration_same_realization [where E = demo_ext and S = "\<lambda>x. 1" and tmax = 1 and bcf_ref = "\<lambda>tau. 1"
      and intgr_tol = "1 / 10" and intpl_tol = "1 / 10" and sd = None and kk = 1 and neg = False
      and ?g1.0 = 0 and ?b1.0 = b1 and ?k1.0 = k1 and ?g2.0 = 9 and ?b2.0 = b2 and ?k2.0 = k2]
  from d j1 j2 have "\<forall>ms1 ms2 y sdA sdB.
         let s1 = perform_all demo_ext StocProc_FFT_tol_calc_z StocProc_FFT_tol_get_num_y (b1, k1) ms1;
             s2 = perform_all demo_ext StocProc_FFT_tol_calc_z StocProc_FFT_tol_get_num_y (b2, k2) ms2;
             r1 = StocProc_FFT_tol_new_process demo_ext (fst s1) (Some y) sdA (snd s1);
             r2 = StocProc_FFT_tol_new_process demo_ext (fst s2) (Some y) sdB (snd s2)
         in fst r1 = fst r2 \<and> (fst r1 = None \<longrightarrow> priv_z (fst (snd r1)) = priv_z (fst (snd r2)))"
    by blast
  from this [rule_format, of "[NewProcess None (Some 4)]" "[]" "[1, \<i>]" None None]
  have q: "fst ?q1 = fst ?q2"
    by (simp add: Let_def)
  from demo_kle_calc_z_ok [OF i2, of \<i>] obtain z where
    "StocProc_KLE_calc_z demo_ext a2 [\<i>] = Inr z" by blast
  then have "StocProc_KLE_calc_z demo_ext (a2\<lparr>priv_interpolator := None, priv_proc_cnt := priv_proc_cnt a2 + 1\<rparr>) [\<i>]
      = Inr z"
    using kle_calc_z_frame [where E = demo_ext and self = a2 and z = "priv_z a2" and i = None
        and c = "priv_proc_cnt a2 + 1" and y = "[\<i>]"] by simp
  with new_process_explicit_ok [of "StocProc_KLE_calc_z demo_ext" a2 "[\<i>]" z demo_ext
      StocProc_KLE_get_num_y "Some 3" h2]
  have "fst ?r2 = None"
    by (simp add: StocProc_KLE_new_process_def perform_all_def)
  with k have kk: "fst ?r1 = None \<and> fst ?r2 = None \<and> priv_z (fst (snd ?r1)) = priv_z (fst (snd ?r2))"
    by simp
  show ?thesis
    apply (rule exI [of _ a1], rule exI [of _ h1], rule exI [of _ a2], rule exI [of _ h2])
    apply (rule exI [of _ b1], rule exI [of _ k1], rule exI [of _ b2], rule exI [of _ k2])
    using i1 i2 j1 j2 kk q
    apply (simp add: Let_def)
    done
qed

lemma kle_setstate_seed:
  assumes "StocProc_KLE_setstate E (A, ak, sd, kk, tmax, ngf) g = Inr (self, g')"
  shows "StocProc_KLE_setstate E2 (A, ak, sd, kk, tmax, ngf) g2
           = Inr (self, case sd of None \<Rightarrow> g2 | Some n \<Rightarrow> np_random_seed E2 n g2)"
proof -
  from kle_setstate_inv [OF assms] obtain base where
    b: "absStocProc_init E tmax (ngf * (int (shape0 A) - 1) + 1) sd kk g = Inr (base, g')"
    and s: "self = absStocProc.extend base
               (StocProc_KLE.fields A ak ngf (ngf \<noteq> 1) (shape1 A) None None None None None)"
    by blast
  from absStocProc_init_other_state [OF b, of E2 g2] s show ?thesis
    by (simp add: StocProc_KLE_setstate_def Let_def)
qed

lemma fft_init_resolved_inv:
  assumes "StocProc_FFT_tol_init_resolved E S tmax (a, b, N, dx, dt) sd kk g = Inr (self, g')"
  shows "\<exists>base. absStocProc_init E (t_max self) (int (num_grid_points self)) sd kk g = Inr (base, g')
    \<and> self = absStocProc.extend base (StocProc_FFT_tol.fields (yl self) (omega_min_correction self))
    \<and> priv_seed self = sd \<and> priv_k self = kk"
proof -
  let ?T = "(of_int (\<lceil>tmax / dt\<rceil> + 1) - 1) * dt"
  let ?n = "\<lceil>tmax / dt\<rceil> + 1"
  show ?thesis
  proof (cases "absStocProc_init E ?T ?n sd kk g")
    case (Inl e)
    with assms show ?thesis
      by (simp add: StocProc_FFT_tol_init_resolved_def Let_def split: if_splits)
  next
    case (Inr p)
    obtain base h0 where p: "p = (base, h0)" by (cases p)
    from absStocProc_init_inv [OF Inr [unfolded p]] obtain ts where
      ts: "linspace 0 ?T ?n = Inr ts"
      and base: "base = \<lparr>t_max = ?T, num_grid_points = nat ?n, t_axis = ts, priv_z = None,
                priv_interpolator = None, priv_k = kk, priv_seed = sd,
                priv_one_over_sqrt_2 = 1 / sqrt 2, priv_proc_cnt = 0\<rparr>"
      by blast
    from linspace_length [OF ts] have n: "int (nat ?n) = ?n" by simp
    from assms Inr p have "\<exists>yls omc. self = absStocProc.extend base (StocProc_FFT_tol.fields yls omc)"
      and h0: "h0 = g'"
      by (auto simp add: StocProc_FFT_tol_init_resolved_def Let_def split: if_splits)
    then obtain yls omc where self: "self = absStocProc.extend base (StocProc_FFT_tol.fields yls omc)"
      by blast
    have f: "t_max self = ?T" "num_grid_points self = nat ?n" "priv_seed self = sd" "priv_k self = kk"
      by (simp_all add: self base absStocProc.defs StocProc_FFT_tol.defs)
    have e: "self = absStocProc.extend base (StocProc_FFT_tol.fields (yl self) (omega_min_correction self))"
      by (simp add: self absStocProc.defs StocProc_FFT_tol.defs)
    from Inr p h0 f n e show ?thesis by simp
  qed
qed


lemma kle_init_state:
  assumes "StocProc_KLE_init E r_tau tmax ng ngf sd sig_min kk align g = Inr (self, g')"
  shows "\<exists>A ak s0. StocProc_KLE_getstate self = (A, ak, sd, kk, tmax, ngf)
    \<and> StocProc_KLE_setstate E (A, ak, sd, kk, tmax, ngf) g = Inr (s0, g')
    \<and> self = s0\<lparr>priv_s := priv_s self, priv_w := priv_w self, priv_eig_val := priv_eig_val self,
                  priv_eig_vec := priv_eig_vec self\<rparr>"
proof -
  from kle_init_inv [OF assms] obtain t w ev U0 A ak s0 where
      8: "StocProc_KLE_setstate E (A, ak, sd, kk, tmax, ngf) g = Inr (s0, g')"
    and 9: "self = s0\<lparr>priv_s := Some t, priv_w := Some w, priv_eig_val := Some ev,
                  priv_eig_vec := Some (if align then align_columns U0 else U0)\<rparr>"
    by blast
  from kle_setstate_fields [OF 8] 9 have "StocProc_KLE_getstate self = (A, ak, sd, kk, tmax, ngf)"
    by (simp add: StocProc_KLE_getstate_def)
  with 8 9 show ?thesis by simp
qed

lemma kle_round_trip:
  fixes E :: "('g, 'x) ext_scheme"
  assumes init: "StocProc_KLE_init E r_tau tmax ng ngf sd sig_min kk align g0 = Inr (kle, g1)"
  shows "\<exists>self'.
      (\<forall>(E2 :: ('g, 'x) ext_scheme) g.
          StocProc_KLE_setstate E2
            (StocProc_KLE_getstate (fst (perform_all E (StocProc_KLE_calc_z E) StocProc_KLE_get_num_y (kle, g1) ms))) g
          = Inr (self', case sd of None \<Rightarrow> g | Some n \<Rightarrow> np_random_seed E2 n g))
    \<and> get_time self' = get_time (fst (perform_all E (StocProc_KLE_calc_z E) StocProc_KLE_get_num_y (kle, g1) ms))
    \<and> StocProc_KLE_get_num_y self'
        = StocProc_KLE_get_num_y (fst (perform_all E (StocProc_KLE_calc_z E) StocProc_KLE_get_num_y (kle, g1) ms))
    \<and> (\<forall>y sdA hA sdB hB.
          fst (StocProc_KLE_new_process E self' (Some y) sdA hA)
            = fst (StocProc_KLE_new_process E
                     (fst (perform_all E (StocProc_KLE_calc_z E) StocProc_KLE_get_num_y (kle, g1) ms)) (Some y) sdB hB)
          \<and> (fst (StocProc_KLE_new_process E self' (Some y) sdA hA) = None \<longrightarrow>
               priv_z (fst (snd (StocProc_KLE_new_process E self' (Some y) sdA hA)))
                 = priv_z (fst (snd (StocProc_KLE_new_process E
                     (fst (perform_all E (StocProc_KLE_calc_z E) StocProc_KLE_get_num_y (kle, g1) ms))
                     (Some y) sdB hB)))))"
proof -
  let ?s = "fst (perform_all E (StocProc_KLE_calc_z E) StocProc_KLE_get_num_y (kle, g1) ms)"
  obtain z i c where fr: "?s = kle\<lparr>priv_z := z, priv_interpolator := i, priv_proc_cnt := c\<rparr>"
    using perform_all_frame [of E "StocProc_KLE_calc_z E" StocProc_KLE_get_num_y kle g1 ms] by blast
  from kle_init_state [OF init] obtain A ak s0 where
    gs: "StocProc_KLE_getstate kle = (A, ak, sd, kk, tmax, ngf)"
    and st: "StocProc_KLE_setstate E (A, ak, sd, kk, tmax, ngf) g0 = Inr (s0, g1)"
    and kle: "kle = s0\<lparr>priv_s := priv_s kle, priv_w := priv_w kle, priv_eig_val := priv_eig_val kle,
                  priv_eig_vec := priv_eig_vec kle\<rparr>"
    by blast
  have gss: "StocProc_KLE_getstate ?s = (A, ak, sd, kk, tmax, ngf)"
    using gs by (simp add: fr StocProc_KLE_getstate_def)
  have set: "StocProc_KLE_setstate E2 (StocProc_KLE_getstate ?s) g
          = Inr (s0, case sd of None \<Rightarrow> g | Some n \<Rightarrow> np_random_seed E2 n g)"
    for E2 :: "('g, 'x) ext_scheme" and g
    unfolding gss by (rule kle_setstate_seed [OF st])
  note f0 = kle_setstate_fields [OF st]
  have same: "kle_interp s0 = kle_interp kle" "priv_A s0 = priv_A kle" "ng_fac s0 = ng_fac kle"
    "alpha_k s0 = alpha_k kle" "priv_sqrt_eig_val kle = None" "num_y s0 = num_y kle"
    "t_axis s0 = t_axis kle"
    using f0 by (subst kle, simp)+
  have gt: "get_time s0 = get_time ?s"
    using same by (simp add: get_time_def fr)
  have ny: "StocProc_KLE_get_num_y s0 = StocProc_KLE_get_num_y ?s"
    using same by (simp add: StocProc_KLE_get_num_y_def fr)
  have np: "fst (StocProc_KLE_new_process E s0 (Some y) sdA hA)
            = fst (StocProc_KLE_new_process E ?s (Some y) sdB hB)
          \<and> (fst (StocProc_KLE_new_process E s0 (Some y) sdA hA) = None \<longrightarrow>
               priv_z (fst (snd (StocProc_KLE_new_process E s0 (Some y) sdA hA)))
                 = priv_z (fst (snd (StocProc_KLE_new_process E ?s (Some y) sdB hB))))"
    for y sdA hA sdB hB
  proof -
    have "StocProc_KLE_calc_z E (s0\<lparr>priv_interpolator := None, priv_proc_cnt := priv_proc_cnt s0 + 1\<rparr>) y
        = StocProc_KLE_calc_z E (?s\<lparr>priv_interpolator := None, priv_proc_cnt := priv_proc_cnt ?s + 1\<rparr>) y"
      using same f0 by (intro kle_calc_z_cong) (simp_all add: fr)
    from new_process_explicit_cong [of "StocProc_KLE_calc_z E" s0 y "StocProc_KLE_calc_z E" ?s
        E StocProc_KLE_get_num_y sdA hA E StocProc_KLE_get_num_y sdB hB, OF this]
    show ?thesis by (simp add: StocProc_KLE_new_process_def)
  qed
  from set gt ny np show ?thesis by blast
qed


lemma fft_round_trip:
  fixes E :: "('g, 'x) ext_scheme"
  assumes init: "StocProc_FFT_tol_init E S tmax bcf_ref intgr_tol intpl_tol sd kk neg g0 = Inr (fft, g1)"
  shows "\<exists>self'.
      (\<forall>(E2 :: ('g, 'x) ext_scheme) g.
          StocProc_FFT_tol_setstate E2
            (StocProc_FFT_tol_getstate (fst (perform_all E StocProc_FFT_tol_calc_z StocProc_FFT_tol_get_num_y (fft, g1) ms))) g
          = Inr (self', case sd of None \<Rightarrow> g | Some n \<Rightarrow> np_random_seed E2 n g))
    \<and> get_time self' = get_time (fst (perform_all E StocProc_FFT_tol_calc_z StocProc_FFT_tol_get_num_y (fft, g1) ms))
    \<and> StocProc_FFT_tol_get_num_y self'
        = StocProc_FFT_tol_get_num_y (fst (perform_all E StocProc_FFT_tol_calc_z StocProc_FFT_tol_get_num_y (fft, g1) ms))
    \<and> (\<forall>y sdA hA sdB hB.
          fst (StocProc_FFT_tol_new_process E self' (Some y) sdA hA)
            = fst (StocProc_FFT_tol_new_process E
                     (fst (perform_all E StocProc_FFT_tol_calc_z StocProc_FFT_tol_get_num_y (fft, g1) ms)) (Some y) sdB hB)
          \<and> (fst (StocProc_FFT_tol_new_process E self' (Some y) sdA hA) = None \<longrightarrow>
               priv_z (fst (snd (StocProc_FFT_tol_new_process E self' (Some y) sdA hA)))
                 = priv_z (fst (snd (StocProc_FFT_tol_new_process E
                     (fst (perform_all E StocProc_FFT_tol_calc_z StocProc_FFT_tol_get_num_y (fft, g1) ms))
                     (Some y) sdB hB)))))"
proof -
  let ?s = "fst (perform_all E StocProc_FFT_tol_calc_z StocProc_FFT_tol_get_num_y (fft, g1) ms)"
  obtain z i c where fr: "?s = fft\<lparr>priv_z := z, priv_interpolator := i, priv_proc_cnt := c\<rparr>"
    using perform_all_frame [of E StocProc_FFT_tol_calc_z StocProc_FFT_tol_get_num_y fft g1 ms] by blast
  from init obtain res where
    ir: "StocProc_FFT_tol_init_resolved E S tmax res sd kk g0 = Inr (fft, g1)"
    unfolding StocProc_FFT_tol_init_def by (elim bindE)
  obtain a b N dx dt where res: "res = (a, b, N, dx, dt)" by (cases res) auto
  from fft_init_resolved_inv [OF ir [unfolded res]] obtain base where
    b: "absStocProc_init E (t_max fft) (int (num_grid_points fft)) sd kk g0 = Inr (base, g1)"
    and e: "fft = absStocProc.extend base (StocProc_FFT_tol.fields (yl fft) (omega_min_correction fft))"
    and sk: "priv_seed fft = sd" "priv_k fft = kk"
    by blast
  have gs: "StocProc_FFT_tol_getstate ?s
      = (yl fft, int (num_grid_points fft), omega_min_correction fft, t_max fft, sd, kk)"
    using sk by (simp add: fr StocProc_FFT_tol_getstate_def)
  have set: "StocProc_FFT_tol_setstate E2 (StocProc_FFT_tol_getstate ?s) g
          = Inr (fft, case sd of None \<Rightarrow> g | Some n \<Rightarrow> np_random_seed E2 n g)"
    for E2 :: "('g, 'x) ext_scheme" and g
    unfolding gs
    using absStocProc_init_other_state [OF b, of E2 g] e
    by (simp add: StocProc_FFT_tol_setstate_def)
  have gt: "get_time fft = get_time ?s"
    by (simp add: get_time_def fr)
  have ny: "StocProc_FFT_tol_get_num_y fft = StocProc_FFT_tol_get_num_y ?s"
    by (simp add: StocProc_FFT_tol_get_num_y_def fr)
  have np: "fst (StocProc_FFT_tol_new_process E fft (Some y) sdA hA)
            = fst (StocProc_FFT_tol_new_process E ?s (Some y) sdB hB)
          \<and> (fst (StocProc_FFT_tol_new_process E fft (Some y) sdA hA) = None \<longrightarrow>
               priv_z (fst (snd (StocProc_FFT_tol_new_process E fft (Some y) sdA hA)))
                 = priv_z (fst (snd (StocProc_FFT_tol_new_process E ?s (Some y) sdB hB))))"
    for y sdA hA sdB hB
  proof -
    have "StocProc_FFT_tol_calc_z (fft\<lparr>priv_interpolator := None, priv_proc_cnt := priv_proc_cnt fft + 1\<rparr>) y
        = StocProc_FFT_tol_calc_z (?s\<lparr>priv_interpolator := None, priv_proc_cnt := priv_proc_cnt ?s + 1\<rparr>) y"
      by (simp add: fr StocProc_FFT_tol_calc_z_def split: sum.split)
    from new_process_explicit_cong [of StocProc_FFT_tol_calc_z fft y StocProc_FFT_tol_calc_z ?s
        E StocProc_FFT_tol_get_num_y sdA hA E StocProc_FFT_tol_get_num_y sdB hB, OF this]
    show ?thesis by (simp add: StocProc_FFT_tol_new_process_def)
  qed
  from set gt ny np show ?thesis by blast
qed

text \<open>
  Claim C5.  Take an engine that the constructor returned, after any sequence of method
  calls, export its state with \<open>__getstate__\<close> and import it into a new object with
  \<open>__setstate__\<close>.  The import succeeds and gives the same object whatever the
  collaborators are (it calls no solver and no search, only the seeding of the
  generator); the new engine has the time grid and the \<open>get_num_y()\<close> of the
  original, and \<open>new_process(Y)\<close> has the same outcome on both for every \<open>Y\<close>: the
  same exception, or the same realization.
\<close>

theorem C5_state_round_trip:
  fixes E :: "('g, 'x) ext_scheme"
  shows "(StocProc_KLE_init E r_tau tmax ng ngf sd sig_min kk align g0 = Inr (kle, g1) \<longrightarrow>
     (\<forall>ms. \<exists>self'.
        (\<forall>(E2 :: ('g, 'x) ext_scheme) g.
            StocProc_KLE_setstate E2
              (StocProc_KLE_getstate (fst (perform_all E (StocProc_KLE_calc_z E) StocProc_KLE_get_num_y (kle, g1) ms))) g
            = Inr (self', case sd of None \<Rightarrow> g | Some n \<Rightarrow> np_random_seed E2 n g))
      \<and> get_time self' = get_time (fst (perform_all E (StocProc_KLE_calc_z E) StocProc_KLE_get_num_y (kle, g1) ms))
      \<and> StocProc_KLE_get_num_y self'
          = StocProc_KLE_get_num_y (fst (perform_all E (StocProc_KLE_calc_z E) StocProc_KLE_get_num_y (kle, g1) ms))
      \<and> (\<forall>y sdA hA sdB hB.
            fst (StocProc_KLE_new_process E self' (Some y) sdA hA)
              = fst (StocProc_KLE_new_process E
                       (fst (perform_all E (StocProc_KLE_calc_z E) StocProc_KLE_get_num_y (kle, g1) ms)) (Some y) sdB hB)
            \<and> (fst (StocProc_KLE_new_process E self' (Some y) sdA hA) = None \<longrightarrow>
                 priv_z (fst (snd (StocProc_KLE_new_process E self' (Some y) sdA hA)))
                   = priv_z (fst (snd (StocProc_KLE_new_process E
                       (fst (perform_all E (StocProc_KLE_calc_z E) StocProc_KLE_get_num_y (kle, g1) ms))
                       (Some y) sdB hB)))))))
   \<and> (StocProc_FFT_tol_init E S tmax bcf_ref intgr_tol intpl_tol sd kk neg g0 = Inr (fft, h1) \<longrightarrow>
     (\<forall>ms. \<exists>self'.
        (\<forall>(E2 :: ('g, 'x) ext_scheme) g.
            StocProc_FFT_tol_setstate E2
              (StocProc_FFT_tol_getstate (fst (perform_all E StocProc_FFT_tol_calc_z StocProc_FFT_tol_get_num_y (fft, h1) ms))) g
            = Inr (self', case sd of None \<Rightarrow> g | Some n \<Rightarrow> np_random_seed E2 n g))
      \<and> get_time self' = get_time (fst (perform_all E StocProc_FFT_tol_calc_z StocProc_FFT_tol_get_num_y (fft, h1) ms))
      \<and> StocProc_FFT_tol_get_num_y self'
          = StocProc_FFT_tol_get_num_y (fst (perform_all E StocProc_FFT_tol_calc_z StocProc_FFT_tol_get_num_y (fft, h1) ms))
      \<and> (\<forall>y sdA hA sdB hB.
            fst (StocProc_FFT_tol_new_process E self' (Some y) sdA hA)
              = fst (StocProc_FFT_tol_new_process E
                       (fst (perform_all E StocProc_FFT_tol_calc_z StocProc_FFT_tol_get_num_y (fft, h1) ms)) (Some y) sdB hB)
            \<and> (fst (StocProc_FFT_tol_new_process E self' (Some y) sdA hA) = None \<longrightarrow>
                 priv_z (fst (snd (StocProc_FFT_tol_new_process E self' (Some y) sdA hA)))
                   = priv_z (fst (snd (StocProc_FFT_tol_new_process E
                       (fst (perform_all E StocProc_FFT_tol_calc_z StocProc_FFT_tol_get_num_y (fft, h1) ms))
                       (Some y) sdB hB)))))))"
proof (intro conjI impI allI)
  fix ms
  assume "StocProc_KLE_init E r_tau tmax ng ngf sd sig_min kk align g0 = Inr (kle, g1)"
  then show "\<exists>self'.
        (\<forall>(E2 :: ('g, 'x) ext_scheme) g.
            StocProc_KLE_setstate E2
              (StocProc_KLE_getstate (fst (perform_all E (StocProc_KLE_calc_z E) StocProc_KLE_get_num_y (kle, g1) ms))) g
            = Inr (self', case sd of None \<Rightarrow> g | Some n \<Rightarrow> np_random_seed E2 n g))
      \<and> get_time self' = get_time (fst (perform_all E (StocProc_KLE_calc_z E) StocProc_KLE_get_num_y (kle, g1) ms))
      \<and> StocProc_KLE_get_num_y self'
          = StocProc_KLE_get_num_y (fst (perform_all E (StocProc_KLE_calc_z E) StocProc_KLE_get_num_y (kle, g1) ms))
      \<and> (\<forall>y sdA hA sdB hB.
            fst (StocProc_KLE_new_process E self' (Some y) sdA hA)
              = fst (StocProc_KLE_new_process E
                       (fst (perform_all E (StocProc_KLE_calc_z E) StocProc_KLE_get_num_y (kle, g1) ms)) (Some y) sdB hB)
            \<and> (fst (StocProc_KLE_new_process E self' (Some y) sdA hA) = None \<longrightarrow>
                 priv_z (fst (snd (StocProc_KLE_new_process E self' (Some y) sdA hA)))
                   = priv_z (fst (snd (StocProc_KLE_new_process E
                       (fst (perform_all E (StocProc_KLE_calc_z E) StocProc_KLE_get_num_y (kle, g1) ms))
                       (Some y) sdB hB)))))"
    by (rule kle_round_trip)
next
  fix ms
  assume "StocProc_FFT_tol_init E S tmax bcf_ref intgr_tol intpl_tol sd kk neg g0 = Inr (fft, h1)"
  then show "\<exists>self'.
        (\<forall>(E2 :: ('g, 'x) ext_scheme) g.
            StocProc_FFT_tol_setstate E2
              (StocProc_FFT_tol_getstate (fst (perform_all E StocProc_FFT_tol_calc_z StocProc_FFT_tol_get_num_y (fft, h1) ms))) g
            = Inr (self', case sd of None \<Rightarrow> g | Some n \<Rightarrow> np_random_seed E2 n g))
      \<and> get_time self' = get_time (fst (perform_all E StocProc_FFT_tol_calc_z StocProc_FFT_tol_get_num_y (fft, h1) ms))
      \<and> StocProc_FFT_tol_get_num_y self'
          = StocProc_FFT_tol_get_num_y (fst (perform_all E StocProc_FFT_tol_calc_z StocProc_FFT_tol_get_num_y (fft, h1) ms))
      \<and> (\<forall>y sdA hA sdB hB.
            fst (StocProc_FFT_tol_new_process E self' (Some y) sdA hA)
              = fst (StocProc_FFT_tol_new_process E
                       (fst (perform_all E StocProc_FFT_tol_calc_z StocProc_FFT_tol_get_num_y (fft, h1) ms)) (Some y) sdB hB)
            \<and> (fst (StocProc_FFT_tol_new_process E self' (Some y) sdA hA) = None \<longrightarrow>
                 priv_z (fst (snd (StocProc_FFT_tol_new_process E self' (Some y) sdA hA)))
                   = priv_z (fst (snd (StocProc_FFT_tol_new_process E
                       (fst (perform_all E StocProc_FFT_tol_calc_z StocProc_FFT_tol_get_num_y (fft, h1) ms))
                       (Some y) sdB hB)))))"
    by (rule fft_round_trip)
qed


theorem C5_witness:
  "\<exists>kle g1 self' fft h1 fself'.
     StocProc_KLE_init demo_ext (\<lambda>tau. complex_of_real (exp (- \<bar>tau\<bar>))) 1 2 2 (Some 7) (1 / 10) 3 False (0::nat)
       = Inr (kle, g1)
     \<and> StocProc_KLE_setstate demo_ext (StocProc_KLE_getstate kle) 4 = Inr (self', 7)
     \<and> fst (StocProc_KLE_new_process demo_ext kle (Some [\<i>]) None g1) = None
     \<and> fst (StocProc_KLE_new_process demo_ext self' (Some [\<i>]) None 7) = None
     \<and> priv_z (fst (snd (StocProc_KLE_new_process demo_ext self' (Some [\<i>]) None 7)))
         = priv_z (fst (snd (StocProc_KLE_new_process demo_ext kle (Some [\<i>]) None g1)))
     \<and> StocProc_FFT_tol_init demo_ext (\<lambda>x. 1) 1 (\<lambda>tau. 1) (1 / 10) (1 / 10) None 1 False 0 = Inr (fft, h1)
     \<and> StocProc_FFT_tol_setstate demo_ext (StocProc_FFT_tol_getstate fft) 4 = Inr (fself', 4)
     \<and> fst (StocProc_FFT_tol_new_process demo_ext fself' (Some [1, \<i>]) None 4)
         = fst (StocProc_FFT_tol_new_process demo_ext fft (Some [1, \<i>]) None h1)"
proof -
  let ?R = "\<lambda>tau. complex_of_real (exp (- \<bar>tau\<bar>))"
  from demo_kle_init [of 2 ?R "Some 7" "1 / 10" 3 0]
  obtain kle g1 where i1: "StocProc_KLE_init demo_ext ?R 1 2 2 (Some 7) (1 / 10) 3 False (0::nat) = Inr (kle, g1)"
    by auto
  from demo_fft_init [of "\<lambda>tau. 1" "1 / 10" "1 / 10" None 0]
  obtain fft h1 where j1: "StocProc_FFT_tol_init demo_ext (\<lambda>x. 1) 1 (\<lambda>tau. 1) (1 / 10) (1 / 10) None 1 False 0 = Inr (fft, h1)"
    by auto
  note c = C5_state_round_trip [where E = demo_ext and r_tau = ?R and tmax = 1 and ng = 2 and ngf = 2
      and sd = "Some 7" and sig_min = "1 / 10" and kk = 3 and align = False and ?g0.0 = 0 and kle = kle
      and ?g1.0 = g1]
  from c i1 have "\<forall>ms. \<exists>self'.
        (\<forall>(E2 :: nat ext) g.
            StocProc_KLE_setstate E2
              (StocProc_KLE_getstate (fst (perform_all demo_ext (StocProc_KLE_calc_z demo_ext) StocProc_KLE_get_num_y (kle, g1) ms))) g
            = Inr (self', case Some 7 of None \<Rightarrow> g | Some n \<Rightarrow> np_random_seed E2 n g))
      \<and> get_time self' = get_time (fst (perform_all demo_ext (StocProc_KLE_calc_z demo_ext) StocProc_KLE_get_num_y (kle, g1) ms))
      \<and> StocProc_KLE_get_num_y self'
          = StocProc_KLE_get_num_y (fst (perform_all demo_ext (StocProc_KLE_calc_z demo_ext) StocProc_KLE_get_num_y (kle, g1) ms))
      \<and> (\<forall>y sdA hA sdB hB.
            fst (StocProc_KLE_new_process demo_ext self' (Some y) sdA hA)
              = fst (StocProc_KLE_new_process demo_ext
                       (fst (perform_all demo_ext (StocProc_KLE_calc_z demo_ext) StocProc_KLE_get_num_y (kle, g1) ms)) (Some y) sdB hB)
            \<and> (fst (StocProc_KLE_new_process demo_ext self' (Some y) sdA hA) = None \<longrightarrow>
                 priv_z (fst (snd (StocProc_KLE_new_process demo_ext self' (Some y) sdA hA)))
                   = priv_z (fst (snd (StocProc_KLE_new_process demo_ext
                       (fst (perform_all demo_ext (StocProc_KLE_calc_z demo_ext) StocProc_KLE_get_num_y (kle, g1) ms))
                       (Some y) sdB hB)))))"
    by blast
  from this [rule_format, of "[]"] obtain self' where
    st: "\<forall>(E2 :: nat ext) g. StocProc_KLE_setstate E2 (StocProc_KLE_getstate kle) g
            = Inr (self', case Some 7 of None \<Rightarrow> g | Some n \<Rightarrow> np_random_seed E2 n g)"
    and np: "\<forall>y sdA hA sdB hB.
            fst (StocProc_KLE_new_process demo_ext self' (Some y) sdA hA)
              = fst (StocProc_KLE_new_process demo_ext kle (Some y) sdB hB)
            \<and> (fst (StocProc_KLE_new_process demo_ext self' (Some y) sdA hA) = None \<longrightarrow>
                 priv_z (fst (snd (StocProc_KLE_new_process demo_ext self' (Some y) sdA hA)))
                   = priv_z (fst (snd (StocProc_KLE_new_process demo_ext kle (Some y) sdB hB))))"
    by (auto simp add: perform_all_def)
  from st [rule_format, of demo_ext 4]
  have a1: "StocProc_KLE_setstate demo_ext (StocProc_KLE_getstate kle) 4 = Inr (self', 7)"
    by (simp add: demo_seed)
  from demo_kle_calc_z_ok [OF i1, of \<i>] obtain z where
    "StocProc_KLE_calc_z demo_ext kle [\<i>] = Inr z" by blast
  then have "StocProc_KLE_calc_z demo_ext (kle\<lparr>priv_interpolator := None, priv_proc_cnt := priv_proc_cnt kle + 1\<rparr>) [\<i>]
      = Inr z"
    using kle_calc_z_frame [where E = demo_ext and self = kle and z = "priv_z kle" and i = None
        and c = "priv_proc_cnt kle + 1" and y = "[\<i>]"] by simp
  with new_process_explicit_ok [of "StocProc_KLE_calc_z demo_ext" kle "[\<i>]" z demo_ext
      StocProc_KLE_get_num_y None g1]
  have a2: "fst (StocProc_KLE_new_process demo_ext kle (Some [\<i>]) None g1) = None"
    by (simp add: StocProc_KLE_new_process_def)
  from np [rule_format, of "[\<i>]" None 7 None g1] a2
  have a3: "fst (StocProc_KLE_new_process demo_ext self' (Some [\<i>]) None 7) = None"
    and a4: "priv_z (fst (snd (StocProc_KLE_new_process demo_ext self' (Some [\<i>]) None 7)))
         = priv_z (fst (snd (StocProc_KLE_new_process demo_ext kle (Some [\<i>]) None g1)))"
    by simp_all
  note d = C5_state_round_trip [where E = demo_ext and S = "\<lambda>x. 1" and tmax = 1 and bcf_ref = "\<lambda>tau. 1"
      and intgr_tol = "1 / 10" and intpl_tol = "1 / 10" and sd = None and kk = 1 and neg = False
      and ?g0.0 = 0 and fft = fft and ?h1.0 = h1]
  from d j1 have "\<forall>ms. \<exists>self'.
        (\<forall>(E2 :: nat ext) g.
            StocProc_FFT_tol_setstate E2
              (StocProc_FFT_tol_getstate (fst (perform_all demo_ext StocProc_FFT_tol_calc_z StocProc_FFT_tol_get_num_y (fft, h1) ms))) g
            = Inr (self', case None of None \<Rightarrow> g | Some n \<Rightarrow> np_random_seed E2 n g))
      \<and> get_time self' = get_time (fst (perform_all demo_ext StocProc_FFT_tol_calc_z StocProc_FFT_tol_get_num_y (fft, h1) ms))
      \<and> StocProc_FFT_tol_get_num_y self'
          = StocProc_FFT_tol_get_num_y (fst (perform_all demo_ext StocProc_FFT_tol_calc_z StocProc_FFT_tol_get_num_y (fft, h1) ms))
      \<and> (\<forall>y sdA hA sdB hB.
            fst (StocProc_FFT_tol_new_process demo_ext self' (Some y) sdA hA)
              = fst (StocProc_FFT_tol_new_process demo_ext
                       (fst (perform_all demo_ext StocProc_FFT_tol_calc_z StocProc_FFT_tol_get_num_y (fft, h1) ms)) (Some y) sdB hB)
            \<and> (fst (StocProc_FFT_tol_new_process demo_ext self' (Some y) sdA hA) = None \<longrightarrow>
                 priv_z (fst (snd (StocProc_FFT_tol_new_process demo_ext self' (Some y) sdA hA)))
                   = priv_z (fst (snd (StocProc_FFT_tol_new_process demo_ext
                       (fst (perform_all demo_ext StocProc_FFT_tol_calc_z StocProc_FFT_tol_get_num_y (fft, h1) ms))
                       (Some y) sdB hB)))))"
    by blast
  from this [rule_format, of "[]"] obtain fself' where
    fst': "\<forall>(E2 :: nat ext) g. StocProc_FFT_tol_setstate E2 (StocProc_FFT_tol_getstate fft) g
            = Inr (fself', case None of None \<Rightarrow> g | Some n \<Rightarrow> np_random_seed E2 n g)"
    and fnp: "\<forall>y sdA hA sdB hB.
            fst (StocProc_FFT_tol_new_process demo_ext fself' (Some y) sdA hA)
              = fst (StocProc_FFT_tol_new_process demo_ext fft (Some y) sdB hB)
            \<and> (fst (StocProc_FFT_tol_new_process demo_ext fself' (Some y) sdA hA) = None \<longrightarrow>
                 priv_z (fst (snd (StocProc_FFT_tol_new_process demo_ext fself' (Some y) sdA hA)))
                   = priv_z (fst (snd (StocProc_FFT_tol_new_process demo_ext fft (Some y) sdB hB))))"
    by (auto simp add: perform_all_def)
  from fst' [rule_format, of demo_ext 4]
  have b1: "StocProc_FFT_tol_setstate demo_ext (StocProc_FFT_tol_getstate fft) 4 = Inr (fself', 4)"
    by simp
  from fnp [rule_format, of "[1, \<i>]" None 4 None h1]
  have b2: "fst (StocProc_FFT_tol_new_process demo_ext fself' (Some [1, \<i>]) None 4)
         = fst (StocProc_FFT_tol_new_process demo_ext fft (Some [1, \<i>]) None h1)"
    by simp
  from i1 a1 a2 a3 a4 j1 b1 b2 show ?thesis by blast
qed

section \<open>The search: the bracket and the object it leaves\<close>

lemma set_butlast_last: "lg \<noteq> [] \<Longrightarrow> x \<in> set lg \<Longrightarrow> x \<in> set (butlast lg) \<or> x = last lg"
proof -
  assume ne: "lg \<noteq> []" and x: "x \<in> set lg"
  from ne have "butlast lg @ [last lg] = lg" by (rule append_butlast_last_id)
  then have "set lg = set (butlast lg @ [last lg])" by simp
  with x have "x \<in> set (butlast lg @ [last lg])" by simp
  then show ?thesis by auto
qed

lemma exp_inv_exit:
  assumes inv: "exp_inv probe tol c err s lg" and pass: "\<not> fl_gt err tol"
  shows "bisect_inv probe tol (c div 2) c s lg"
proof -
  from inv have c: "0 < c" by (simp add: exp_inv_def)
  from inv have bl: "\<forall>x \<in> set (butlast lg). fl_gt (snd x) tol" by (simp add: exp_inv_def)
  from inv have dj: "lg = [] \<and> err = PInf
          \<or> lg \<noteq> [] \<and> last lg = (2 * c + 1, err) \<and> (\<exists>sp. probe (2 * c + 1) sp = Inr (err, s))"
    by (simp add: exp_inv_def)
  from pass have "err \<noteq> PInf" by (cases err) simp_all
  with dj have ne: "lg \<noteq> []" and la: "last lg = (2 * c + 1, err)"
    and pr: "\<exists>sp. probe (2 * c + 1) sp = Inr (err, s)"
    by blast+
  from ne have "last lg \<in> set lg" by (rule last_in_set)
  with la have mem: "(2 * c + 1, err) \<in> set lg" by simp
  have small: "\<forall>x \<in> set lg. \<not> fl_gt (snd x) tol \<longrightarrow> 2 * c + 1 \<le> fst x"
  proof (intro ballI impI)
    fix x assume x: "x \<in> set lg" and p: "\<not> fl_gt (snd x) tol"
    from set_butlast_last [OF ne x] bl p have "x = last lg" by blast
    with la show "2 * c + 1 \<le> fst x" by simp
  qed
  from c have 1: "c div 2 < c" by simp
  from mem pass have 3: "\<exists>e. (2 * c + 1, e) \<in> set lg \<and> \<not> fl_gt e tol" by blast
  from pr la have 5: "\<exists>sp. probe (fst (last lg)) sp = Inr (snd (last lg), s)" by simp
  from la pass have 6: "fst (last lg) = 2 * (if fl_gt (snd (last lg)) tol then c div 2 else c) + 1"
    by simp
  show ?thesis
    unfolding bisect_inv_def
    by (intro conjI 1 ne 3 small 5 6)
qed


lemma exp_inv_step:
  assumes inv: "exp_inv probe tol c err s lg" and fail: "fl_gt err tol"
    and pr: "probe (2 * (c * 2) + 1) s = Inr (err', s')"
  shows "exp_inv probe tol (c * 2) err' s' (lg @ [(2 * (c * 2) + 1, err')])"
proof -
  from inv have c: "0 < c" by (simp add: exp_inv_def)
  from inv have bl: "\<forall>x \<in> set (butlast lg). fl_gt (snd x) tol" by (simp add: exp_inv_def)
  from inv have dj: "lg = [] \<and> err = PInf
          \<or> lg \<noteq> [] \<and> last lg = (2 * c + 1, err) \<and> (\<exists>sp. probe (2 * c + 1) sp = Inr (err, s))"
    by (simp add: exp_inv_def)
  have all: "\<forall>x \<in> set lg. fl_gt (snd x) tol"
  proof
    fix x assume x: "x \<in> set lg"
    then have ne: "lg \<noteq> []" by auto
    with dj have la: "last lg = (2 * c + 1, err)" by blast
    from set_butlast_last [OF ne x] show "fl_gt (snd x) tol"
    proof
      assume "x \<in> set (butlast lg)"
      with bl show ?thesis by blast
    next
      assume "x = last lg"
      with la fail show ?thesis by simp
    qed
  qed
  from c have 1: "0 < c * 2" by simp
  from all have 2: "\<forall>x \<in> set (butlast (lg @ [(2 * (c * 2) + 1, err')])). fl_gt (snd x) tol"
    by simp
  from pr have 3: "lg @ [(2 * (c * 2) + 1, err')] \<noteq> []
      \<and> last (lg @ [(2 * (c * 2) + 1, err')]) = (2 * (c * 2) + 1, err')
      \<and> (\<exists>sp. probe (2 * (c * 2) + 1) sp = Inr (err', s'))"
    by auto
  show ?thesis
    unfolding exp_inv_def
    by (intro conjI 1 2 disjI2 3)
qed

lemma exp_phase_post:
  assumes "exp_phase probe tol c err s lg = Some y"
  shows "exp_inv probe tol c err s lg \<longrightarrow>
     (\<forall>c' s' lg'. y = Inr (c', s', lg') \<longrightarrow> bisect_inv probe tol (c' div 2) c' s' lg')"
proof (rule exp_phase.raw_induct
    [where P = "\<lambda>probe tol c err s lg y. exp_inv probe tol c err s lg \<longrightarrow>
       (\<forall>c' s' lg'. y = Inr (c', s', lg') \<longrightarrow> bisect_inv probe tol (c' div 2) c' s' lg')", OF _ assms])
  fix f :: "(int \<Rightarrow> 'a \<Rightarrow> pyerr + (fl \<times> 'a)) \<Rightarrow> real \<Rightarrow> int \<Rightarrow> fl \<Rightarrow> 'a \<Rightarrow> (int \<times> fl) list \<Rightarrow>
              (pyerr + (int \<times> 'a \<times> (int \<times> fl) list)) option"
    and probe tol c err s lg y
  assume IH: "\<And>probe tol c err s lg y. f probe tol c err s lg = Some y \<Longrightarrow>
      exp_inv probe tol c err s lg \<longrightarrow>
       (\<forall>c' s' lg'. y = Inr (c', s', lg') \<longrightarrow> bisect_inv probe tol (c' div 2) c' s' lg')"
    and body: "(if fl_gt err tol
      then let c' = c * 2; ng = 2 * c' + 1
           in case probe ng s of Inl e \<Rightarrow> Some (Inl e)
              | Inr (err', s') \<Rightarrow> f probe tol c' err' s' (lg @ [(ng, err')])
      else Some (Inr (c, s, lg))) = Some y"
  show "exp_inv probe tol c err s lg \<longrightarrow>
       (\<forall>c' s' lg'. y = Inr (c', s', lg') \<longrightarrow> bisect_inv probe tol (c' div 2) c' s' lg')"
  proof (intro impI allI)
    fix c' s' lg'
    assume inv: "exp_inv probe tol c err s lg" and y: "y = Inr (c', s', lg')"
    show "bisect_inv probe tol (c' div 2) c' s' lg'"
    proof (cases "fl_gt err tol")
      case False
      with body y have "c' = c" "s' = s" "lg' = lg" by simp_all
      with exp_inv_exit [OF inv False] show ?thesis by simp
    next
      case True
      show ?thesis
      proof (cases "probe (2 * (c * 2) + 1) s")
        case (Inl e)
        with body True y show ?thesis by (simp add: Let_def)
      next
        case (Inr p)
        obtain err1 s1 where p: "p = (err1, s1)" by (cases p)
        from body True Inr p
        have rec: "f probe tol (c * 2) err1 s1 (lg @ [(2 * (c * 2) + 1, err1)]) = Some y"
          by (simp add: Let_def)
        from exp_inv_step [OF inv True Inr [unfolded p]]
        have "exp_inv probe tol (c * 2) err1 s1 (lg @ [(2 * (c * 2) + 1, err1)])" .
        with IH [OF rec] y show ?thesis by blast
      qed
    qed
  qed
qed


lemma bisect_inv_fail_step:
  assumes inv: "bisect_inv probe tol c_low c_high s lg"
    and mid: "c < c_high"
    and pr: "probe (2 * c + 1) s = Inr (err, s1)" and fail: "fl_gt err tol"
  shows "bisect_inv probe tol c c_high s1 (lg @ [(2 * c + 1, err)])"
proof -
  from inv have ex: "\<exists>e. (2 * c_high + 1, e) \<in> set lg \<and> \<not> fl_gt e tol"
    by (simp add: bisect_inv_def)
  from inv have sm: "\<forall>x \<in> set lg. \<not> fl_gt (snd x) tol \<longrightarrow> 2 * c_high + 1 \<le> fst x"
    by (simp add: bisect_inv_def)
  have 2: "lg @ [(2 * c + 1, err)] \<noteq> []" by simp
  from ex have 3: "\<exists>e. (2 * c_high + 1, e) \<in> set (lg @ [(2 * c + 1, err)]) \<and> \<not> fl_gt e tol"
    by auto
  from sm fail have 4: "\<forall>x \<in> set (lg @ [(2 * c + 1, err)]). \<not> fl_gt (snd x) tol \<longrightarrow> 2 * c_high + 1 \<le> fst x"
    by auto
  from pr have 5: "\<exists>sp. probe (fst (last (lg @ [(2 * c + 1, err)]))) sp
                      = Inr (snd (last (lg @ [(2 * c + 1, err)])), s1)"
    by auto
  from fail have 6: "fst (last (lg @ [(2 * c + 1, err)]))
       = 2 * (if fl_gt (snd (last (lg @ [(2 * c + 1, err)]))) tol then c else c_high) + 1"
    by simp
  show ?thesis
    unfolding bisect_inv_def
    by (intro conjI mid 2 3 4 5 6)
qed

lemma bisect_inv_pass_step:
  assumes inv: "bisect_inv probe tol c_low c_high s lg"
    and mid: "c_low < c" "c < c_high"
    and pr: "probe (2 * c + 1) s = Inr (err, s1)" and pass: "\<not> fl_gt err tol"
  shows "bisect_inv probe tol c_low c s1 (lg @ [(2 * c + 1, err)])"
proof -
  from inv have sm: "\<forall>x \<in> set lg. \<not> fl_gt (snd x) tol \<longrightarrow> 2 * c_high + 1 \<le> fst x"
    by (simp add: bisect_inv_def)
  have 2: "lg @ [(2 * c + 1, err)] \<noteq> []" by simp
  from pass have 3: "\<exists>e. (2 * c + 1, e) \<in> set (lg @ [(2 * c + 1, err)]) \<and> \<not> fl_gt e tol"
    by auto
  have 4: "\<forall>x \<in> set (lg @ [(2 * c + 1, err)]). \<not> fl_gt (snd x) tol \<longrightarrow> 2 * c + 1 \<le> fst x"
  proof (intro ballI impI)
    fix x assume x: "x \<in> set (lg @ [(2 * c + 1, err)])" and p: "\<not> fl_gt (snd x) tol"
    from x have "x \<in> set lg \<or> x = (2 * c + 1, err)" by auto
    then show "2 * c + 1 \<le> fst x"
    proof
      assume "x \<in> set lg"
      with sm p have "2 * c_high + 1 \<le> fst x" by blast
      with mid(2) show ?thesis by simp
    next
      assume "x = (2 * c + 1, err)"
      then show ?thesis by simp
    qed
  qed
  from pr have 5: "\<exists>sp. probe (fst (last (lg @ [(2 * c + 1, err)]))) sp
                      = Inr (snd (last (lg @ [(2 * c + 1, err)])), s1)"
    by auto
  from pass have 6: "fst (last (lg @ [(2 * c + 1, err)]))
       = 2 * (if fl_gt (snd (last (lg @ [(2 * c + 1, err)]))) tol then c_low else c) + 1"
    by simp
  show ?thesis
    unfolding bisect_inv_def
    by (intro conjI mid(1) 2 3 4 5 6)
qed

lemma bisect_phase_post:
  "bisect_inv probe tol c_low c_high s lg \<Longrightarrow>
   bisect_phase probe tol c_low c_high s lg = Inr (lo, hi, s', lg') \<Longrightarrow>
     bisect_inv probe tol lo hi s' lg' \<and> hi = lo + 1"
proof (induction probe tol c_low c_high s lg rule: bisect_phase.induct)
  case (1 probe tol c_low c_high s lg)
  note inv = "1.prems"(1)
  note run = "1.prems"(2)
  show ?case
  proof (cases "1 < c_high - c_low")
    case False
    with run have eqs: "lo = c_low" "hi = c_high" "s' = s" "lg' = lg" by simp_all
    from inv have "c_low < c_high" by (simp add: bisect_inv_def)
    with False have "c_high = c_low + 1" by simp
    with eqs inv show ?thesis by simp
  next
    case True
    let ?c = "(c_low + c_high) div 2"
    let ?ng = "2 * ?c + 1"
    from True have mid: "c_low < ?c" "?c < c_high" by simp_all
    show ?thesis
    proof (cases "probe ?ng s")
      case (Inl e)
      with run True show ?thesis by (simp add: Let_def)
    next
      case (Inr p)
      obtain err s1 where p: "p = (err, s1)" by (cases p)
      from Inr p have pr: "probe ?ng s = Inr (err, s1)" by simp
      show ?thesis
      proof (cases "fl_gt err tol")
        case fail: True
        from run True pr fail
        have rec: "bisect_phase probe tol ?c c_high s1 (lg @ [(?ng, err)]) = Inr (lo, hi, s', lg')"
          by (simp add: Let_def)
        note step = bisect_inv_fail_step [OF inv mid(2) pr fail]
        from "1.IH"(1) [OF True refl refl Inr p [symmetric] fail step rec] show ?thesis .
      next
        case pass: False
        from run True pr pass
        have rec: "bisect_phase probe tol c_low ?c s1 (lg @ [(?ng, err)]) = Inr (lo, hi, s', lg')"
          by (simp add: Let_def)
        note step = bisect_inv_pass_step [OF inv mid pr pass]
        from "1.IH"(2) [OF True refl refl Inr p [symmetric] pass step rec] show ?thesis .
      qed
    qed
  qed
qed



lemma demo_probe_exp_run:
  "exp_phase (demo_probe (\<lambda>ng. Fin (1 / real_of_int ng))) (1 / 8) 2 PInf (0::int) []
     = Some (Inr (4, 9, [(9, Fin (1 / 9))]))"
  apply (subst exp_phase.simps)
  apply (simp add: demo_probe_def)
  apply (subst exp_phase.simps)
  apply simp
  done

lemma demo_probe_bisect_run:
  "bisect_phase (demo_probe (\<lambda>ng. Fin (1 / real_of_int ng))) (1 / 8) 2 4 (9::int) [(9, Fin (1 / 9))]
     = Inr (3, 4, 7, [(9, Fin (1 / 9)), (7, Fin (1 / 7))])"
  apply (subst bisect_phase.simps)
  apply (simp add: demo_probe_def del: bisect_phase.simps)
  apply (subst bisect_phase.simps)
  apply (simp del: bisect_phase.simps)
  done

text \<open>
  Claim C2, as the code has it.  The constructor of \<open>StocProc_KLE_tol\<close> is the search
  \<open>_auto_grid_points\<close> with the probe \<open>_init_StocProc_KLE_and_get_error\<close>, which
  constructs the object anew; the statement holds for every probe.  Whenever the search returns,
  the bracket has width one; \<open>c_high\<close> was probed with an error within the tolerance
  and no probe of a smaller size was; but the object is left as the last probe
  constructed it, and that probe is the one of \<open>c_low\<close>, with an error above the
  tolerance, whenever the last probe of the bisection failed.
\<close>

theorem C2_search_bracket_and_final_object:
  assumes "auto_grid_points probe tol s0 = Some (Inr (c_low, c_high, s, lg))"
  shows "c_high = c_low + 1 \<and> lg \<noteq> []
    \<and> (\<exists>e. (2 * c_high + 1, e) \<in> set lg \<and> \<not> fl_gt e tol)
    \<and> (\<forall>x \<in> set lg. \<not> fl_gt (snd x) tol \<longrightarrow> 2 * c_high + 1 \<le> fst x)
    \<and> (\<exists>sp. probe (fst (last lg)) sp = Inr (snd (last lg), s))
    \<and> fst (last lg) = 2 * (if fl_gt (snd (last lg)) tol then c_low else c_high) + 1"
proof -
  from assms obtain r where e: "exp_phase probe tol 2 PInf s0 [] = Some r"
    by (cases "exp_phase probe tol 2 PInf s0 []") (simp_all add: auto_grid_points_def)
  from assms e obtain q where r: "r = Inr q"
    by (cases r) (simp_all add: auto_grid_points_def)
  obtain c s1 lg1 where q: "q = (c, s1, lg1)" by (cases q)
  from assms e r q
  have b: "bisect_phase probe tol (c div 2) c s1 lg1 = Inr (c_low, c_high, s, lg)"
    by (simp add: auto_grid_points_def)
  have "exp_inv probe tol 2 PInf s0 []" by (simp add: exp_inv_def)
  with exp_phase_post [OF e] r q have "bisect_inv probe tol (c div 2) c s1 lg1" by blast
  from bisect_phase_post [OF this b]
  have inv: "bisect_inv probe tol c_low c_high s lg" and w: "c_high = c_low + 1" by blast+
  from inv have rest: "lg \<noteq> []
    \<and> (\<exists>e. (2 * c_high + 1, e) \<in> set lg \<and> \<not> fl_gt e tol)
    \<and> (\<forall>x \<in> set lg. \<not> fl_gt (snd x) tol \<longrightarrow> 2 * c_high + 1 \<le> fst x)
    \<and> (\<exists>sp. probe (fst (last lg)) sp = Inr (snd (last lg), s))
    \<and> fst (last lg) = 2 * (if fl_gt (snd (last lg)) tol then c_low else c_high) + 1"
    unfolding bisect_inv_def by (elim conjE) (intro conjI; assumption)
  from w rest show ?thesis by (rule conjI)
qed

text \<open>
  The search with an error of \<open>1 / ng\<close> and a tolerance of \<open>1 / 8\<close>: the first probe
  (\<open>c = 4\<close>, nine grid points) passes, the bisection probes \<open>c = 3\<close> (seven grid
  points), which fails, and the search ends.  The smallest size within the tolerance
  is \<open>c = 4\<close>, and the object is left with seven grid points, whose error is above
  the tolerance.
\<close>

theorem C2_witness:
  "\<exists>lg. auto_grid_points (demo_probe (\<lambda>ng. Fin (1 / real_of_int ng))) (1 / 8) (0::int)
          = Some (Inr (3, 4, 7, lg))
     \<and> lg = [(9, Fin (1 / 9)), (7, Fin (1 / 7))]
     \<and> (4::int) = 3 + 1
     \<and> (2 * 4 + 1, Fin (1 / 9)) \<in> set lg \<and> \<not> fl_gt (Fin (1 / 9)) (1 / 8)
     \<and> (\<exists>sp. demo_probe (\<lambda>ng. Fin (1 / real_of_int ng)) (fst (last lg)) sp = Inr (snd (last lg), 7))
     \<and> fst (last lg) = 2 * 3 + 1
     \<and> fl_gt (snd (last lg)) (1 / 8)"
proof -
  let ?lg = "[(9::int, Fin (1 / 9)), (7, Fin (1 / 7))]"
  have run: "auto_grid_points (demo_probe (\<lambda>ng. Fin (1 / real_of_int ng))) (1 / 8) (0::int)
          = Some (Inr (3, 4, 7, ?lg))"
    unfolding auto_grid_points_def demo_probe_exp_run
    by (simp add: demo_probe_bisect_run del: bisect_phase.simps)
  note inst = C2_search_bracket_and_final_object [OF run]
  from inst
  have pr: "\<exists>sp. demo_probe (\<lambda>ng. Fin (1 / real_of_int ng)) (fst (last ?lg)) sp = Inr (snd (last ?lg), 7)"
    by (elim conjE)
  from inst
  have la: "fst (last ?lg) = 2 * (if fl_gt (snd (last ?lg)) (1 / 8) then 3 else 4) + 1"
    by (elim conjE)
  have f: "fl_gt (snd (last ?lg)) (1 / 8)" by simp
  from la f have la': "fst (last ?lg) = 2 * 3 + 1" by simp
  have m: "(2 * 4 + 1, Fin (1 / 9)) \<in> set ?lg \<and> \<not> fl_gt (Fin (1 / 9)) (1 / 8)" by simp
  from run pr la' f m show ?thesis by (intro exI [of _ ?lg] conjI) simp_all
qed

section \<open>The random input of a realization\<close>

lemma pairs_complex_length: "length (pairs_complex xs) = length xs div 2"
  by (induction xs rule: pairs_complex.induct) simp_all

lemma pairs_complex_nth:
  "2 * i + 1 < length xs \<Longrightarrow> pairs_complex xs ! i = Complex (xs ! (2 * i)) (xs ! (2 * i + 1))"
proof (induction xs arbitrary: i rule: pairs_complex.induct)
  case (1 a b xs)
  show ?case
  proof (cases i)
    case 0
    then show ?thesis by simp
  next
    case (Suc k)
    with "1.prems" have "2 * k + 1 < length xs" by simp
    from "1.IH" [OF this] Suc show ?thesis by simp
  qed
qed simp_all

lemma drawn_vector_nth:
  assumes len: "length (fst (np_random_normal E scale (2 * n) s)) = 2 * n" and i: "i < n"
  shows "drawn_vector E scale n s ! i
           = Complex (fst (np_random_normal E scale (2 * n) s) ! (2 * i))
                     (fst (np_random_normal E scale (2 * n) s) ! (2 * i + 1))"
proof -
  let ?xs = "fst (np_random_normal E scale (2 * n) s)"
  from len have "drawn_vector E scale n s = pairs_complex ?xs"
    by (simp add: drawn_vector_def draw_y_def view_complex_def split_beta)
  moreover from len i have "2 * i + 1 < length ?xs" by simp
  ultimately show ?thesis by (simp only: pairs_complex_nth)
qed

lemma drawn_vector_moments:
  fixes Ex :: "('g \<Rightarrow> real) \<Rightarrow> real"
  assumes add: "\<forall>f h. Ex (\<lambda>s. f s + h s) = Ex f + Ex h"
    and sub: "\<forall>f h. Ex (\<lambda>s. f s - h s) = Ex f - Ex h"
    and len: "\<forall>s. length (fst (np_random_normal E scale (2 * n) s)) = 2 * n"
    and mom: "\<forall>a<2 * n. \<forall>b<2 * n.
        Ex (\<lambda>s. fst (np_random_normal E scale (2 * n) s) ! a * fst (np_random_normal E scale (2 * n) s) ! b)
          = (if a = b then scale\<^sup>2 else 0)"
    and i: "i < n" and j: "j < n"
  shows "Ex (\<lambda>s. Re (drawn_vector E scale n s ! i * cnj (drawn_vector E scale n s ! j)))
           = (if i = j then 2 * scale\<^sup>2 else 0)"
    and "Ex (\<lambda>s. Im (drawn_vector E scale n s ! i * cnj (drawn_vector E scale n s ! j))) = 0"
proof -
  let ?x = "\<lambda>a s. fst (np_random_normal E scale (2 * n) s) ! a"
  have m: "Ex (\<lambda>s. ?x a s * ?x b s) = (if a = b then scale\<^sup>2 else 0)" if "a < 2 * n" "b < 2 * n" for a b
    using mom [rule_format, of a b] that by simp
  from i j have b: "2 * i < 2 * n" "2 * i + 1 < 2 * n" "2 * j < 2 * n" "2 * j + 1 < 2 * n" by simp_all
  have re: "(\<lambda>s. Re (drawn_vector E scale n s ! i * cnj (drawn_vector E scale n s ! j)))
          = (\<lambda>s. ?x (2 * i) s * ?x (2 * j) s + ?x (2 * i + 1) s * ?x (2 * j + 1) s)"
  proof
    fix s
    from len have l: "length (fst (np_random_normal E scale (2 * n) s)) = 2 * n" by blast
    show "Re (drawn_vector E scale n s ! i * cnj (drawn_vector E scale n s ! j))
          = ?x (2 * i) s * ?x (2 * j) s + ?x (2 * i + 1) s * ?x (2 * j + 1) s"
      by (simp only: drawn_vector_nth [OF l i] drawn_vector_nth [OF l j]) simp
  qed
  have im: "(\<lambda>s. Im (drawn_vector E scale n s ! i * cnj (drawn_vector E scale n s ! j)))
          = (\<lambda>s. ?x (2 * i + 1) s * ?x (2 * j) s - ?x (2 * i) s * ?x (2 * j + 1) s)"
  proof
    fix s
    from len have l: "length (fst (np_random_normal E scale (2 * n) s)) = 2 * n" by blast
    show "Im (drawn_vector E scale n s ! i * cnj (drawn_vector E scale n s ! j))
          = ?x (2 * i + 1) s * ?x (2 * j) s - ?x (2 * i) s * ?x (2 * j + 1) s"
      by (simp only: drawn_vector_nth [OF l i] drawn_vector_nth [OF l j]) simp
  qed
  have e1: "Ex (\<lambda>s. ?x (2 * i) s * ?x (2 * j) s + ?x (2 * i + 1) s * ?x (2 * j + 1) s)
          = Ex (\<lambda>s. ?x (2 * i) s * ?x (2 * j) s) + Ex (\<lambda>s. ?x (2 * i + 1) s * ?x (2 * j + 1) s)"
    by (rule add [rule_format, of "\<lambda>s. ?x (2 * i) s * ?x (2 * j) s" "\<lambda>s. ?x (2 * i + 1) s * ?x (2 * j + 1) s"])
  have e2: "Ex (\<lambda>s. ?x (2 * i + 1) s * ?x (2 * j) s - ?x (2 * i) s * ?x (2 * j + 1) s)
          = Ex (\<lambda>s. ?x (2 * i + 1) s * ?x (2 * j) s) - Ex (\<lambda>s. ?x (2 * i) s * ?x (2 * j + 1) s)"
    by (rule sub [rule_format, of "\<lambda>s. ?x (2 * i + 1) s * ?x (2 * j) s" "\<lambda>s. ?x (2 * i) s * ?x (2 * j + 1) s"])
  have p1: "Suc (2 * i) \<noteq> 2 * j" by presburger
  have p2: "2 * i \<noteq> Suc (2 * j)" by presburger
  show "Ex (\<lambda>s. Re (drawn_vector E scale n s ! i * cnj (drawn_vector E scale n s ! j)))
           = (if i = j then 2 * scale\<^sup>2 else 0)"
    by (simp only: re e1 m [OF b(1) b(3)] m [OF b(2) b(4)]) simp
  show "Ex (\<lambda>s. Im (drawn_vector E scale n s ! i * cnj (drawn_vector E scale n s ! j))) = 0"
    by (simp only: im e2 m [OF b(2) b(3)] m [OF b(1) b(4)]) (simp add: p1 p2)
qed


lemma demo_drawn_one:
  "drawn_vector demo_ext sc (Suc 0) s
     = [Complex (if odd s then sc else - sc) (if odd (s div 2) then sc else - sc)]"
proof -
  have u: "[0..<2] = [0, Suc 0]" by (simp add: upt_rec)
  show ?thesis
    by (simp add: drawn_vector_def draw_y_def demo_normal view_complex_def u)
qed

lemma demo_sample_two:
  "fst (np_random_normal demo_ext sc 2 s)
     = [if odd s then sc else - sc, if odd (s div 2) then sc else - sc]"
proof -
  have u: "[0..<2] = [0, Suc 0]" by (simp add: upt_rec)
  show ?thesis by (simp add: demo_normal u)
qed

lemma demo_mean_add: "demo_mean (\<lambda>s. f s + h s) = demo_mean f + demo_mean h"
  by (simp add: demo_mean_def field_simps)

lemma demo_mean_sub: "demo_mean (\<lambda>s. f s - h s) = demo_mean f - demo_mean h"
  by (simp add: demo_mean_def field_simps)

lemma demo_sample_moments:
  "a < 2 \<Longrightarrow> b < 2 \<Longrightarrow>
     demo_mean (\<lambda>s. fst (np_random_normal demo_ext sc 2 s) ! a * fst (np_random_normal demo_ext sc 2 s) ! b)
       = (if a = b then sc\<^sup>2 else 0)"
proof -
  assume "a < 2" "b < 2"
  then have c: "a = 0 \<or> a = Suc 0" "b = 0 \<or> b = Suc 0" by auto
  have three: "(3::nat) div 2 = 1" by simp
  from c show ?thesis
    by (auto simp add: demo_sample_two demo_mean_def power2_eq_square three)
qed


lemma absStocProc_init_scale:
  "absStocProc_init E tmax ngp sd0 kk g0 = Inr (base, g1) \<Longrightarrow> priv_one_over_sqrt_2 base = 1 / sqrt 2"
  by (auto simp add: absStocProc_init_def split: sum.splits)

text \<open>
  Claim C8, as the code has it.  The constructor sets the scale of the samples to
  \<open>1 / sqrt 2\<close>.  Without an explicit \<open>y\<close>, \<open>new_process\<close> asks the generator
  (after the optional seeding) for twice \<open>get_num_y()\<close> real samples of that scale,
  views them as \<open>get_num_y()\<close> complex numbers and hands exactly this vector to
  \<open>_calc_z\<close>, whose result becomes the realization.  With an explicit \<open>y\<close> the
  generator is not asked for samples: its state is the one after the optional seeding
  and \<open>_calc_z\<close> gets \<open>y\<close>.  For every expectation (an additive functional on the
  functions of the generator state) under which the real samples are uncorrelated with
  second moment \<open>scale\<^sup>2 = 1 / 2\<close>, which is numpy's contract for
  \<open>normal(scale=scale)\<close>, the drawn vector has \<open>E[Y\<^sub>i Y\<^sub>j\<^sup>*] = \<delta>\<^sub>i\<^sub>j\<close>: the variance
  of a component is one, not two.
\<close>

theorem C8_fresh_input_unit_variance_and_explicit_input:
  fixes self :: "'m absStocProc_scheme" and Ex :: "('g \<Rightarrow> real) \<Rightarrow> real"
  shows "(absStocProc_init E tmax ngp sd0 kk g0 = Inr (base, g1) \<longrightarrow>
            priv_one_over_sqrt_2 base = 1 / sqrt 2)
    \<and> (let self2 = self\<lparr>priv_interpolator := None, priv_proc_cnt := priv_proc_cnt self + 1\<rparr>;
            gs = (case sd of None \<Rightarrow> g | Some k \<Rightarrow> np_random_seed E k g);
            n = num_y_of self2;
            xs = fst (np_random_normal E (priv_one_over_sqrt_2 self) (2 * n) gs);
            g2 = snd (np_random_normal E (priv_one_over_sqrt_2 self) (2 * n) gs);
            v = drawn_vector E (priv_one_over_sqrt_2 self) n gs
        in (length xs = 2 * n \<longrightarrow>
              length v = n
              \<and> new_process E calc_z num_y_of self None sd g
                  = (case calc_z self2 v of
                       Inl e \<Rightarrow> (Some e, self2, g2)
                     | Inr z \<Rightarrow> (None, self2\<lparr>priv_z := Some z\<rparr>, g2)))
           \<and> (\<forall>y. new_process E calc_z num_y_of self (Some y) sd g
                  = (case calc_z self2 y of
                       Inl e \<Rightarrow> (Some e, self2, gs)
                     | Inr z \<Rightarrow> (None, self2\<lparr>priv_z := Some z\<rparr>, gs))))
    \<and> ((\<forall>f h. Ex (\<lambda>s. f s + h s) = Ex f + Ex h)
        \<and> (\<forall>f h. Ex (\<lambda>s. f s - h s) = Ex f - Ex h)
        \<and> (\<forall>s. length (fst (np_random_normal E (1 / sqrt 2) (2 * m) s)) = 2 * m)
        \<and> (\<forall>a<2 * m. \<forall>b<2 * m.
              Ex (\<lambda>s. fst (np_random_normal E (1 / sqrt 2) (2 * m) s) ! a
                       * fst (np_random_normal E (1 / sqrt 2) (2 * m) s) ! b)
                = (if a = b then (1 / sqrt 2)\<^sup>2 else 0)) \<longrightarrow>
        (\<forall>i<m. \<forall>j<m.
           Ex (\<lambda>s. Re (drawn_vector E (1 / sqrt 2) m s ! i * cnj (drawn_vector E (1 / sqrt 2) m s ! j)))
             = (if i = j then 1 else 0)
           \<and> Ex (\<lambda>s. Im (drawn_vector E (1 / sqrt 2) m s ! i * cnj (drawn_vector E (1 / sqrt 2) m s ! j)))
             = 0))"
proof (intro conjI)
  show "absStocProc_init E tmax ngp sd0 kk g0 = Inr (base, g1) \<longrightarrow>
            priv_one_over_sqrt_2 base = 1 / sqrt 2"
    by (blast intro: absStocProc_init_scale)
next
  show "let self2 = self\<lparr>priv_interpolator := None, priv_proc_cnt := priv_proc_cnt self + 1\<rparr>;
            gs = (case sd of None \<Rightarrow> g | Some k \<Rightarrow> np_random_seed E k g);
            n = num_y_of self2;
            xs = fst (np_random_normal E (priv_one_over_sqrt_2 self) (2 * n) gs);
            g2 = snd (np_random_normal E (priv_one_over_sqrt_2 self) (2 * n) gs);
            v = drawn_vector E (priv_one_over_sqrt_2 self) n gs
        in (length xs = 2 * n \<longrightarrow>
              length v = n
              \<and> new_process E calc_z num_y_of self None sd g
                  = (case calc_z self2 v of
                       Inl e \<Rightarrow> (Some e, self2, g2)
                     | Inr z \<Rightarrow> (None, self2\<lparr>priv_z := Some z\<rparr>, g2)))
           \<and> (\<forall>y. new_process E calc_z num_y_of self (Some y) sd g
                  = (case calc_z self2 y of
                       Inl e \<Rightarrow> (Some e, self2, gs)
                     | Inr z \<Rightarrow> (None, self2\<lparr>priv_z := Some z\<rparr>, gs)))"
    by (simp add: new_process_def drawn_vector_def draw_y_def view_complex_def Let_def split_beta
          pairs_complex_length split: sum.split)
next
  show "(\<forall>f h. Ex (\<lambda>s. f s + h s) = Ex f + Ex h)
        \<and> (\<forall>f h. Ex (\<lambda>s. f s - h s) = Ex f - Ex h)
        \<and> (\<forall>s. length (fst (np_random_normal E (1 / sqrt 2) (2 * m) s)) = 2 * m)
        \<and> (\<forall>a<2 * m. \<forall>b<2 * m.
              Ex (\<lambda>s. fst (np_random_normal E (1 / sqrt 2) (2 * m) s) ! a
                       * fst (np_random_normal E (1 / sqrt 2) (2 * m) s) ! b)
                = (if a = b then (1 / sqrt 2)\<^sup>2 else 0)) \<longrightarrow>
        (\<forall>i<m. \<forall>j<m.
           Ex (\<lambda>s. Re (drawn_vector E (1 / sqrt 2) m s ! i * cnj (drawn_vector E (1 / sqrt 2) m s ! j)))
             = (if i = j then 1 else 0)
           \<and> Ex (\<lambda>s. Im (drawn_vector E (1 / sqrt 2) m s ! i * cnj (drawn_vector E (1 / sqrt 2) m s ! j)))
             = 0)"
  proof (intro impI allI)
    fix i j
    assume h: "(\<forall>f h. Ex (\<lambda>s. f s + h s) = Ex f + Ex h)
        \<and> (\<forall>f h. Ex (\<lambda>s. f s - h s) = Ex f - Ex h)
        \<and> (\<forall>s. length (fst (np_random_normal E (1 / sqrt 2) (2 * m) s)) = 2 * m)
        \<and> (\<forall>a<2 * m. \<forall>b<2 * m.
              Ex (\<lambda>s. fst (np_random_normal E (1 / sqrt 2) (2 * m) s) ! a
                       * fst (np_random_normal E (1 / sqrt 2) (2 * m) s) ! b)
                = (if a = b then (1 / sqrt 2)\<^sup>2 else 0))"
      and i: "i < m" and j: "j < m"
    from h have add: "\<forall>f h. Ex (\<lambda>s. f s + h s) = Ex f + Ex h" by (rule conjunct1)
    from h have sub: "\<forall>f h. Ex (\<lambda>s. f s - h s) = Ex f - Ex h" by (elim conjE)
    from h have len: "\<forall>s. length (fst (np_random_normal E (1 / sqrt 2) (2 * m) s)) = 2 * m"
      by (elim conjE)
    from h have mom: "\<forall>a<2 * m. \<forall>b<2 * m.
              Ex (\<lambda>s. fst (np_random_normal E (1 / sqrt 2) (2 * m) s) ! a
                       * fst (np_random_normal E (1 / sqrt 2) (2 * m) s) ! b)
                = (if a = b then (1 / sqrt 2)\<^sup>2 else 0)"
      by (elim conjE)
    have two: "2 * (1 / sqrt 2)\<^sup>2 = (1::real)" by (simp add: power2_eq_square)
    from drawn_vector_moments(1) [OF add sub len mom i j] two
    have r: "Ex (\<lambda>s. Re (drawn_vector E (1 / sqrt 2) m s ! i * cnj (drawn_vector E (1 / sqrt 2) m s ! j)))
             = (if i = j then 1 else 0)"
      by (simp only:)
    note q = drawn_vector_moments(2) [OF add sub len mom i j]
    from r q show "Ex (\<lambda>s. Re (drawn_vector E (1 / sqrt 2) m s ! i * cnj (drawn_vector E (1 / sqrt 2) m s ! j)))
             = (if i = j then 1 else 0)
           \<and> Ex (\<lambda>s. Im (drawn_vector E (1 / sqrt 2) m s ! i * cnj (drawn_vector E (1 / sqrt 2) m s ! j)))
             = 0"
      by (rule conjI)
  qed
qed


text \<open>
  The claim as stated fails: with a generator whose real samples have mean square
  \<open>scale\<^sup>2 = 1 / 2\<close> and are uncorrelated, the vector that \<open>new_process\<close> draws and
  hands to \<open>_calc_z\<close> has \<open>E[Y\<^sub>0 Y\<^sub>0\<^sup>*] = 1\<close>, not \<open>2\<close>.
\<close>

theorem C8_counterexample:
  "\<exists>base. absStocProc_init demo_ext 1 2 None 1 (0::nat) = Inr (base, 0)
     \<and> (\<forall>s. priv_z (fst (snd (new_process demo_ext (\<lambda>self v. Inr v) (\<lambda>self. 1) base None None s)))
              = Some (drawn_vector demo_ext (1 / sqrt 2) 1 s))
     \<and> demo_mean (\<lambda>s. fst (np_random_normal demo_ext (1 / sqrt 2) 2 s) ! 0
                       * fst (np_random_normal demo_ext (1 / sqrt 2) 2 s) ! 0) = 1 / 2
     \<and> demo_mean (\<lambda>s. fst (np_random_normal demo_ext (1 / sqrt 2) 2 s) ! 1
                       * fst (np_random_normal demo_ext (1 / sqrt 2) 2 s) ! 1) = 1 / 2
     \<and> demo_mean (\<lambda>s. fst (np_random_normal demo_ext (1 / sqrt 2) 2 s) ! 0
                       * fst (np_random_normal demo_ext (1 / sqrt 2) 2 s) ! 1) = 0
     \<and> demo_mean (\<lambda>s. Re (drawn_vector demo_ext (1 / sqrt 2) 1 s ! 0
                           * cnj (drawn_vector demo_ext (1 / sqrt 2) 1 s ! 0))) = 1
     \<and> demo_mean (\<lambda>s. Re (drawn_vector demo_ext (1 / sqrt 2) 1 s ! 0
                           * cnj (drawn_vector demo_ext (1 / sqrt 2) 1 s ! 0))) \<noteq> 2"
proof -
  let ?base = "\<lparr>t_max = 1, num_grid_points = 2, t_axis = [0, 1], priv_z = None,
             priv_interpolator = None, priv_k = 1, priv_seed = None,
             priv_one_over_sqrt_2 = 1 / sqrt 2, priv_proc_cnt = 0\<rparr>"
  have a: "absStocProc_init demo_ext 1 2 None 1 (0::nat) = Inr (?base, 0)"
    by (simp add: absStocProc_init_def linspace_def upt_rec)
  have u: "[0..<2] = [0, Suc 0]" by (simp add: upt_rec)
  have b: "\<forall>s. priv_z (fst (snd (new_process demo_ext (\<lambda>self v. Inr v) (\<lambda>self. 1) ?base None None s)))
              = Some (drawn_vector demo_ext (1 / sqrt 2) 1 s)"
    by (simp add: new_process_def drawn_vector_def draw_y_def demo_normal view_complex_def u)
  have three: "(3::nat) div 2 = 1" by simp
  have h: "(1 / sqrt 2) * (1 / sqrt 2) = (1 / 2 :: real)" by simp
  have c: "demo_mean (\<lambda>s. fst (np_random_normal demo_ext (1 / sqrt 2) 2 s) ! 0
                       * fst (np_random_normal demo_ext (1 / sqrt 2) 2 s) ! 0) = 1 / 2"
    by (simp add: demo_sample_two demo_mean_def three)
  have d: "demo_mean (\<lambda>s. fst (np_random_normal demo_ext (1 / sqrt 2) 2 s) ! 1
                       * fst (np_random_normal demo_ext (1 / sqrt 2) 2 s) ! 1) = 1 / 2"
    by (simp add: demo_sample_two demo_mean_def three)
  have e: "demo_mean (\<lambda>s. fst (np_random_normal demo_ext (1 / sqrt 2) 2 s) ! 0
                       * fst (np_random_normal demo_ext (1 / sqrt 2) 2 s) ! 1) = 0"
    by (simp add: demo_sample_two demo_mean_def three)
  have f: "demo_mean (\<lambda>s. Re (drawn_vector demo_ext (1 / sqrt 2) 1 s ! 0
                           * cnj (drawn_vector demo_ext (1 / sqrt 2) 1 s ! 0))) = 1"
    by (simp add: demo_drawn_one demo_mean_def three)
  from f have g: "demo_mean (\<lambda>s. Re (drawn_vector demo_ext (1 / sqrt 2) 1 s ! 0
                           * cnj (drawn_vector demo_ext (1 / sqrt 2) 1 s ! 0))) \<noteq> 2"
    by simp
  from a b c d e f g show ?thesis by (intro exI [of _ ?base] conjI)
qed

theorem C8_witness:
  "\<exists>base. absStocProc_init demo_ext 1 2 None 1 (0::nat) = Inr (base, 0)
     \<and> priv_one_over_sqrt_2 base = 1 / sqrt 2
     \<and> length (fst (np_random_normal demo_ext (1 / sqrt 2) 2 3)) = 2
     \<and> length (drawn_vector demo_ext (1 / sqrt 2) 1 3) = 1
     \<and> new_process demo_ext (\<lambda>self v. Inr v) (\<lambda>self. 1) base None None 3
         = (None, base\<lparr>priv_proc_cnt := 1, priv_z := Some (drawn_vector demo_ext (1 / sqrt 2) 1 3)\<rparr>, 0)
     \<and> new_process demo_ext (\<lambda>self v. Inr v) (\<lambda>self. 1) base (Some [\<i>]) None 3
         = (None, base\<lparr>priv_proc_cnt := 1, priv_z := Some [\<i>]\<rparr>, 3)
     \<and> demo_mean (\<lambda>s. Re (drawn_vector demo_ext (1 / sqrt 2) 1 s ! 0
                           * cnj (drawn_vector demo_ext (1 / sqrt 2) 1 s ! 0))) = 1
     \<and> demo_mean (\<lambda>s. Im (drawn_vector demo_ext (1 / sqrt 2) 1 s ! 0
                           * cnj (drawn_vector demo_ext (1 / sqrt 2) 1 s ! 0))) = 0"
proof -
  let ?base = "\<lparr>t_max = 1, num_grid_points = 2, t_axis = [0, 1], priv_z = None,
             priv_interpolator = None, priv_k = 1, priv_seed = None,
             priv_one_over_sqrt_2 = 1 / sqrt 2, priv_proc_cnt = 0\<rparr>"
  have a: "absStocProc_init demo_ext 1 2 None 1 (0::nat) = Inr (?base, 0)"
    by (simp add: absStocProc_init_def linspace_def upt_rec)
  have l: "length (fst (np_random_normal demo_ext (1 / sqrt 2) 2 s)) = 2" for s :: nat
    by (simp add: demo_sample_two)
  have g2: "snd (np_random_normal demo_ext (1 / sqrt 2) 2 (3::nat)) = 0"
    by (simp add: demo_normal)
  note inst = C8_fresh_input_unit_variance_and_explicit_input
    [where E = demo_ext and Ex = demo_mean and m = 1 and self = ?base and sd = None and g = 3
       and calc_z = "\<lambda>self v. Inr v" and num_y_of = "\<lambda>self. 1"
       and tmax = 1 and ngp = 2 and ?sd0.0 = None and kk = 1 and ?g0.0 = 0
       and base = ?base and ?g1.0 = 0]
  from inst a have b: "priv_one_over_sqrt_2 ?base = 1 / sqrt 2" by blast
  note c2 = inst [THEN conjunct2, THEN conjunct1, unfolded Let_def]
  from c2 [THEN conjunct1] l [of 3]
  have c: "length (drawn_vector demo_ext (1 / sqrt 2) 1 3) = 1
     \<and> new_process demo_ext (\<lambda>self v. Inr v) (\<lambda>self. 1) ?base None None 3
         = (None, ?base\<lparr>priv_proc_cnt := 1, priv_z := Some (drawn_vector demo_ext (1 / sqrt 2) 1 3)\<rparr>, 0)"
    by (simp add: g2)
  from c2 [THEN conjunct2, rule_format, of "[\<i>]"]
  have d: "new_process demo_ext (\<lambda>self v. Inr v) (\<lambda>self. 1) ?base (Some [\<i>]) None 3
         = (None, ?base\<lparr>priv_proc_cnt := 1, priv_z := Some [\<i>]\<rparr>, 3)"
    by simp
  have hyp: "(\<forall>f h. demo_mean (\<lambda>s. f s + h s) = demo_mean f + demo_mean h)
        \<and> (\<forall>f h. demo_mean (\<lambda>s. f s - h s) = demo_mean f - demo_mean h)
        \<and> (\<forall>s. length (fst (np_random_normal demo_ext (1 / sqrt 2) (2 * 1) s)) = 2 * 1)
        \<and> (\<forall>a<2 * 1. \<forall>b<2 * 1.
              demo_mean (\<lambda>s. fst (np_random_normal demo_ext (1 / sqrt 2) (2 * 1) s) ! a
                       * fst (np_random_normal demo_ext (1 / sqrt 2) (2 * 1) s) ! b)
                = (if a = b then (1 / sqrt 2)\<^sup>2 else 0))"
    by (simp add: demo_mean_add demo_mean_sub l demo_sample_moments)
  from inst [THEN conjunct2, THEN conjunct2, THEN mp, OF hyp, rule_format, of 0 0]
  have e: "demo_mean (\<lambda>s. Re (drawn_vector demo_ext (1 / sqrt 2) 1 s ! 0
                           * cnj (drawn_vector demo_ext (1 / sqrt 2) 1 s ! 0))) = 1
     \<and> demo_mean (\<lambda>s. Im (drawn_vector demo_ext (1 / sqrt 2) 1 s ! 0
                           * cnj (drawn_vector demo_ext (1 / sqrt 2) 1 s ! 0))) = 0"
    by simp
  from a b l [of 3] c d e show ?thesis by (intro exI [of _ ?base] conjI) simp_all
qed

end
